theory Spec2Isabelle
  imports Main "HOL-Library.Char_ord" "HOL-Library.List_Lexorder"
begin

text \<open>
  The inventory reconciliation of the application: the two marketplace clients
  (\<open>lib/amazon\<close>, \<open>lib/mercadolibre\<close>), the reconciliation routine \<open>syncAllInventory\<close> in its
  two variants (sales-delta accounting in \<open>lib/sync\<close>, direct overwrite in the other version
  of that module), and the handlers of \<open>/api/inventory\<close>. Network, clock and database are an
  explicit environment; everything the code does with their answers is modelled as written.
\<close>

section \<open>JavaScript values and effects\<close>

text \<open>
  A thrown JavaScript value is either an \<open>Error\<close> object with its message, or some other
  value (the source tests \<open>error instanceof Error\<close>).
\<close>

datatype exn = Error string | NonError

text \<open>
  An asynchronous function of the source is a state transformer that either throws or returns:
  \<open>Inl e\<close> is a rejected promise, \<open>Inr x\<close> a fulfilled one. The state is threaded through
  every \<open>await\<close> in program order (the source has no parallel awaits).
\<close>

type_synonym ('s, 'a) prog = "'s \<Rightarrow> (exn + 'a) \<times> 's"

definition return :: "'a \<Rightarrow> ('s, 'a) prog" where
  "return x = (\<lambda>s. (Inr x, s))"

definition throw :: "exn \<Rightarrow> ('s, 'a) prog" where
  "throw e = (\<lambda>s. (Inl e, s))"

definition await :: "('s, 'a) prog \<Rightarrow> ('a \<Rightarrow> ('s, 'b) prog) \<Rightarrow> ('s, 'b) prog" where
  "await m f = (\<lambda>s. case m s of (Inl e, s') \<Rightarrow> (Inl e, s') | (Inr x, s') \<Rightarrow> f x s')"

definition try_catch :: "('s, 'a) prog \<Rightarrow> (exn \<Rightarrow> ('s, 'a) prog) \<Rightarrow> ('s, 'a) prog" where
  "try_catch m h = (\<lambda>s. case m s of (Inl e, s') \<Rightarrow> h e s' | (Inr x, s') \<Rightarrow> (Inr x, s'))"

text \<open>A block with a mutable local variable \<open>'l\<close> runs on the pair of the local and the outer state.\<close>

definition outer :: "('s, 'a) prog \<Rightarrow> ('l \<times> 's, 'a) prog" where
  "outer m = (\<lambda>(l, s). case m s of (x, s') \<Rightarrow> (x, (l, s')))"

definition assign :: "('l \<Rightarrow> 'l) \<Rightarrow> ('l \<times> 's, unit) prog" where
  "assign f = (\<lambda>(l, s). (Inr (), (f l, s)))"

text \<open>
  \<open>for (const x of xs) { ...; results.push(r) }\<close>: the body runs on one element at a time, in
  the order of the array, each run starting in the state the previous one left.
\<close>

fun for_of :: "('a \<Rightarrow> 's \<Rightarrow> 'r \<times> 's) \<Rightarrow> 'a list \<Rightarrow> 's \<Rightarrow> 'r list \<times> 's" where
  "for_of body [] s = ([], s)"
| "for_of body (x # xs) s =
     (case body x s of
        (r, s') \<Rightarrow> (case for_of body xs s' of (results, s'') \<Rightarrow> (r # results, s'')))"

text \<open>JavaScript truthiness of an optional string, and \<open>x || 0\<close> on an optional number.\<close>

fun truthy :: "string option \<Rightarrow> bool" where
  "truthy None = False"
| "truthy (Some s) = (s \<noteq> [])"

fun or_zero :: "int option \<Rightarrow> int" where
  "or_zero None = 0"
| "or_zero (Some n) = n"

text \<open>\<open>Number.prototype.toString\<close> on an integer: decimal digits, with a minus sign.\<close>

definition digit_char :: "nat \<Rightarrow> char" where
  "digit_char d = char_of (48 + d)"

fun digits :: "nat \<Rightarrow> string" where
  "digits n = (if n < 10 then [digit_char n] else digits (n div 10) @ [digit_char (n mod 10)])"

declare digits.simps [simp del]

definition toString :: "int \<Rightarrow> string" where
  "toString i = (if i < 0 then CHR ''-'' # digits (nat (- i)) else digits (nat i))"

text \<open>\<open>error instanceof Error ? error.message : fallback\<close>\<close>

fun message_or :: "string \<Rightarrow> exn \<Rightarrow> string" where
  "message_or fallback (Error m) = m"
| "message_or fallback NonError = fallback"

section \<open>Data model\<close>

text \<open>
  The product row of the persistence layer. The schema file is not among the sources; the
  fields are those the source reads and writes and the dashboard declares (\<open>product_id\<close> is
  the source's \<open>id\<close>). Quantities are the integers of the database column, time stamps are
  milliseconds since the epoch.
\<close>

record Product =
  product_id :: string
  sku :: string
  name :: string
  warehouseQty :: int
  amazonQty :: int
  mlQty :: int
  amazonAsin :: "string option"
  mlItemId :: "string option"
  lastSyncAt :: "int option"

text \<open>The \<open>data\<close> argument of \<open>prisma.product.update\<close>: the fields that are present are written.\<close>

record ProductUpdateInput =
  set_warehouseQty :: "int option"
  set_amazonQty :: "int option"
  set_mlQty :: "int option"
  set_lastSyncAt :: "int option"

definition apply_update :: "ProductUpdateInput \<Rightarrow> Product \<Rightarrow> Product" where
  "apply_update d p =
     p\<lparr>warehouseQty := (case set_warehouseQty d of None \<Rightarrow> warehouseQty p | Some q \<Rightarrow> q),
       amazonQty := (case set_amazonQty d of None \<Rightarrow> amazonQty p | Some q \<Rightarrow> q),
       mlQty := (case set_mlQty d of None \<Rightarrow> mlQty p | Some q \<Rightarrow> q),
       lastSyncAt := (case set_lastSyncAt d of None \<Rightarrow> lastSyncAt p | Some t \<Rightarrow> Some t)\<rparr>"

text \<open>Per-product detail of a reconciliation run: Variant B's fields, extended by Variant A's.\<close>

record ProductResultB =
  r_sku :: string
  amazonUpdated :: bool
  mlUpdated :: bool
  error :: "string option"

record ProductResultA = ProductResultB +
  previousQty :: int
  newQty :: int
  amazonSales :: int
  mlSales :: int

record 'd SyncResult =
  success :: bool
  result_message :: string
  result_details :: "'d list"

text \<open>\<open>JSON.stringify\<close> of the detail list, kept structured.\<close>

datatype log_details =
    DetailsA "ProductResultA list"
  | DetailsB "ProductResultB list"
  | DetailsError exn

record SyncLog =
  status :: string
  message :: string
  details :: log_details
  createdAt :: int

record CachedToken =
  token :: string
  expiresAt :: int

record CachedMLToken = CachedToken +
  refreshToken :: string

section \<open>The outside world\<close>

text \<open>
  The requests the clients send, with the parameters that vary: the credentials of a token
  request, the SKU or item identifier, the quantity, and the bearer token. The body of a write
  to Marketplace B is either \<open>{available_quantity}\<close> or \<open>{variations: [{id, available_quantity}]}\<close>;
  the variation identifier is kept as the text handed to \<open>parseInt\<close>. The calls into the
  database client are recorded in the same trace.
\<close>

datatype ml_body = AvailableQuantity int | Variations string int

datatype request =
    AmazonTokenPost "string option" "string option" "string option"
  | AmazonSummariesGet string string
  | AmazonSkuQuantitiesPut string int string
  | MLTokenPost string "string option" "string option"
  | MLItemGet string string
  | MLItemPut string ml_body string

datatype db_call =
    ProductFindMany
  | ProductFindManyBySku
  | ProductUpdate string ProductUpdateInput
  | ProductCreate Product
  | SyncLogCreate string string log_details
  | SyncLogFindFirst

datatype event = Fetch request | Db db_call

text \<open>What a \<open>fetch\<close> resolves to: a status that is not \<open>ok\<close> with the body text, or the parsed JSON.\<close>

datatype 'a http = NotOk string | OkJson 'a

record AmazonTokens =
  access_token :: string
  expires_in :: int

record MLTokens = AmazonTokens +
  refresh_token :: string

record InventorySummary =
  totalQuantity :: "int option"

record MLVariation =
  variation_id :: int
  variation_available_quantity :: "int option"

record MLItem =
  available_quantity :: "int option"
  variations :: "MLVariation list option"

text \<open>
  The process state: the two module-level token caches, the two tables, and the trace of every
  network and database call made so far, oldest first.
\<close>

record world =
  cachedToken :: "CachedToken option"
  cachedMLToken :: "CachedMLToken option"
  products :: "Product list"
  syncLogs :: "SyncLog list"
  trace :: "event list"

text \<open>
  Everything the program does not control: the process environment, the clock, what each remote
  endpoint answers to the \<open>n\<close>-th call of the run (\<open>Inl e\<close>: the \<open>fetch\<close> or the reading of its
  body rejects with \<open>e\<close>), and whether the \<open>n\<close>-th call fails in the persistence layer.
\<close>

record env =
  AMAZON_REFRESH_TOKEN :: "string option"
  AMAZON_CLIENT_ID :: "string option"
  AMAZON_CLIENT_SECRET :: "string option"
  ML_REFRESH_TOKEN :: "string option"
  ML_CLIENT_ID :: "string option"
  ML_CLIENT_SECRET :: "string option"
  clock :: "nat \<Rightarrow> int"
  amazon_token_endpoint :: "nat \<Rightarrow> request \<Rightarrow> exn + AmazonTokens http"
  amazon_summaries :: "nat \<Rightarrow> request \<Rightarrow> exn + InventorySummary list option http"
  amazon_sku_quantities :: "nat \<Rightarrow> request \<Rightarrow> exn + unit http"
  ml_token_endpoint :: "nat \<Rightarrow> request \<Rightarrow> exn + MLTokens http"
  ml_item :: "nat \<Rightarrow> request \<Rightarrow> exn + MLItem http"
  ml_item_put :: "nat \<Rightarrow> request \<Rightarrow> exn + unit http"
  db_failure :: "nat \<Rightarrow> db_call \<Rightarrow> exn option"

definition now :: "env \<Rightarrow> world \<Rightarrow> int" where
  "now e w = clock e (length (trace w))"

text \<open>
  \<open>Date.now()\<close> reads the clock at the number of calls made so far. A \<open>fetch\<close> records the
  request and resolves to what the endpoint answers to this call.
\<close>

definition fetch :: "(nat \<Rightarrow> request \<Rightarrow> exn + 'a http) \<Rightarrow> request \<Rightarrow> (world, 'a http) prog" where
  "fetch endpoint req = (\<lambda>w. (endpoint (length (trace w)) req, w\<lparr>trace := trace w @ [Fetch req]\<rparr>))"

definition date_now :: "env \<Rightarrow> (world, int) prog" where
  "date_now e = (\<lambda>w. (Inr (now e w), w))"

section \<open>Persistence layer\<close>

text \<open>
  The calls of the source into the database client. Each call is recorded in the trace; it
  rejects when the environment says so, and otherwise acts on the tables. A listing without an
  ordering clause returns the rows as the table holds them; an update of a row that is not
  there rejects, as the client does.
\<close>

definition prisma :: "env \<Rightarrow> db_call \<Rightarrow> (world, 'a) prog \<Rightarrow> (world, 'a) prog" where
  "prisma e call run = (\<lambda>w.
     let w' = w\<lparr>trace := trace w @ [Db call]\<rparr> in
     case db_failure e (length (trace w)) call of
       Some err \<Rightarrow> (Inl err, w')
     | None \<Rightarrow> run w')"

definition product_findMany :: "env \<Rightarrow> (world, Product list) prog" where
  "product_findMany e = prisma e ProductFindMany (\<lambda>w. (Inr (products w), w))"

definition product_findMany_orderBy_sku :: "env \<Rightarrow> (world, Product list) prog" where
  "product_findMany_orderBy_sku e =
     prisma e ProductFindManyBySku (\<lambda>w. (Inr (sort_key sku (products w)), w))"

definition product_update :: "env \<Rightarrow> string \<Rightarrow> ProductUpdateInput \<Rightarrow> (world, Product) prog" where
  "product_update e i d = prisma e (ProductUpdate i d) (\<lambda>w.
     case find (\<lambda>p. product_id p = i) (products w) of
       None \<Rightarrow> (Inl (Error ''Record to update not found.''), w)
     | Some p \<Rightarrow>
         (Inr (apply_update d p),
          w\<lparr>products := map (\<lambda>p. if product_id p = i then apply_update d p else p) (products w)\<rparr>))"

definition product_create :: "env \<Rightarrow> Product \<Rightarrow> (world, Product) prog" where
  "product_create e p = prisma e (ProductCreate p) (\<lambda>w.
     (Inr p, w\<lparr>products := products w @ [p]\<rparr>))"

definition syncLog_create :: "env \<Rightarrow> string \<Rightarrow> string \<Rightarrow> log_details \<Rightarrow> (world, unit) prog" where
  "syncLog_create e st msg det = prisma e (SyncLogCreate st msg det) (\<lambda>w.
     (Inr (),
      w\<lparr>syncLogs := syncLogs w @ [\<lparr>status = st, message = msg, details = det, createdAt = now e w\<rparr>]\<rparr>))"

section \<open>Marketplace A client (Amazon)\<close>

text \<open>\<open>cachedToken && Date.now() < cachedToken.expiresAt\<close>, giving the cached token when it holds.\<close>

definition cached_if_valid :: "int \<Rightarrow> 'a CachedToken_scheme option \<Rightarrow> string option" where
  "cached_if_valid t c =
     (case c of None \<Rightarrow> None | Some k \<Rightarrow> if t < expiresAt k then Some (token k) else None)"

definition getAccessToken_amazon :: "env \<Rightarrow> (world, string) prog" where
  "getAccessToken_amazon e = (\<lambda>w.
     case cached_if_valid (now e w) (cachedToken w) of
       Some tok \<Rightarrow> return tok w
     | None \<Rightarrow>
        await (fetch (amazon_token_endpoint e)
                 (AmazonTokenPost (AMAZON_REFRESH_TOKEN e) (AMAZON_CLIENT_ID e) (AMAZON_CLIENT_SECRET e)))
          (\<lambda>response. case response of
             NotOk err \<Rightarrow> throw (Error (''Failed to get Amazon access token: '' @ err))
           | OkJson data \<Rightarrow> (\<lambda>w'.
               (Inr (access_token data),
                w'\<lparr>cachedToken := Some \<lparr>token = access_token data,
                    expiresAt = now e w' + (expires_in data - 300) * 1000\<rparr>\<rparr>))) w)"

text \<open>\<open>data.inventorySummaries?.[0]\<close>\<close>

fun first_summary :: "InventorySummary list option \<Rightarrow> InventorySummary option" where
  "first_summary None = None"
| "first_summary (Some []) = None"
| "first_summary (Some (s # _)) = Some s"

definition getAmazonInventory :: "env \<Rightarrow> string \<Rightarrow> (world, int option) prog" where
  "getAmazonInventory e sku' =
     try_catch
       (await (getAccessToken_amazon e) (\<lambda>accessToken.
        await (fetch (amazon_summaries e) (AmazonSummariesGet sku' accessToken)) (\<lambda>response.
          case response of
            NotOk err \<Rightarrow> return None
          | OkJson data \<Rightarrow>
              (case first_summary data of
                 Some inventorySummary \<Rightarrow> return (Some (or_zero (totalQuantity inventorySummary)))
               | None \<Rightarrow> return None))))
       (\<lambda>err. return None)"

definition updateAmazonInventory :: "env \<Rightarrow> string \<Rightarrow> int \<Rightarrow> (world, bool) prog" where
  "updateAmazonInventory e sku' quantity =
     try_catch
       (await (getAccessToken_amazon e) (\<lambda>accessToken.
        await (fetch (amazon_sku_quantities e) (AmazonSkuQuantitiesPut sku' quantity accessToken)) (\<lambda>response.
          case response of
            NotOk err \<Rightarrow> return False
          | OkJson _ \<Rightarrow> return True)))
       (\<lambda>err. return False)"

section \<open>Marketplace B client (Mercado Libre)\<close>

text \<open>\<open>a || b\<close> on optional strings.\<close>

definition js_or :: "string option \<Rightarrow> string option \<Rightarrow> string option" where
  "js_or a b = (if truthy a then a else b)"

definition getAccessToken_ml :: "env \<Rightarrow> (world, string) prog" where
  "getAccessToken_ml e = (\<lambda>w.
     case cached_if_valid (now e w) (cachedMLToken w) of
       Some tok \<Rightarrow> return tok w
     | None \<Rightarrow>
        (case js_or (map_option refreshToken (cachedMLToken w)) (ML_REFRESH_TOKEN e) of
           None \<Rightarrow> throw (Error ''No ML refresh token available. Please authorize the app first.'') w
         | Some rt \<Rightarrow>
            if rt = [] then
              throw (Error ''No ML refresh token available. Please authorize the app first.'') w
            else
              await (fetch (ml_token_endpoint e) (MLTokenPost rt (ML_CLIENT_ID e) (ML_CLIENT_SECRET e)))
                (\<lambda>response. case response of
                   NotOk err \<Rightarrow> throw (Error (''Failed to get ML access token: '' @ err))
                 | OkJson data \<Rightarrow> (\<lambda>w'.
                     (Inr (access_token data),
                      w'\<lparr>cachedMLToken := Some \<lparr>token = access_token data,
                          expiresAt = now e w' + (expires_in data - 300) * 1000,
                          refreshToken = refresh_token data\<rparr>\<rparr>))) w))"

text \<open>\<open>xs && xs.length > 0\<close> on an optional array, and the array itself.\<close>

fun has_elements :: "'a list option \<Rightarrow> bool" where
  "has_elements None = False"
| "has_elements (Some xs) = (length xs > 0)"

fun elements :: "'a list option \<Rightarrow> 'a list" where
  "elements None = []"
| "elements (Some xs) = xs"

text \<open>
  \<open>getMLInventory(itemId, variationId?)\<close>: the item-level quantity, or the quantity of the
  requested variation when one is requested and the item lists variations. The reconciliation
  routine requests no variation; the version of the module without the parameter is this
  function at \<open>variationId = None\<close>.
\<close>

definition getMLInventory :: "env \<Rightarrow> string \<Rightarrow> string option \<Rightarrow> (world, int option) prog" where
  "getMLInventory e itemId variationId =
     try_catch
       (await (getAccessToken_ml e) (\<lambda>accessToken.
        await (fetch (ml_item e) (MLItemGet itemId accessToken)) (\<lambda>response.
          case response of
            NotOk err \<Rightarrow> return None
          | OkJson data \<Rightarrow>
              if truthy variationId \<and> has_elements (variations data) then
                (case find (\<lambda>v. Some (toString (variation_id v)) = variationId)
                        (elements (variations data)) of
                   Some variation \<Rightarrow>
                     return (Some (or_zero (variation_available_quantity variation)))
                 | None \<Rightarrow> return None)
              else return (Some (or_zero (available_quantity data))))))
       (\<lambda>err. return None)"

definition updateMLInventory :: "env \<Rightarrow> string \<Rightarrow> int \<Rightarrow> string option \<Rightarrow> (world, bool) prog" where
  "updateMLInventory e itemId quantity variationId =
     try_catch
       (await (getAccessToken_ml e) (\<lambda>accessToken.
        let body = (if truthy variationId
                    then Variations (case variationId of Some vid \<Rightarrow> vid | None \<Rightarrow> []) quantity
                    else AvailableQuantity quantity) in
        await (fetch (ml_item_put e) (MLItemPut itemId body accessToken)) (\<lambda>response.
          case response of
            NotOk err \<Rightarrow> return False
          | OkJson _ \<Rightarrow> return True)))
       (\<lambda>err. return False)"


section \<open>Reconciliation, Variant A (sales-delta accounting)\<close>

text \<open>
  Both variants start by reading the current marketplace quantities, each initialised with the
  recorded one and overwritten when the product has the external identifier and the read
  returns a value:
  \<^verbatim>\<open>let currentAmazonQty = product.amazonQty;
  if (product.amazonAsin) {
    const amazonData = await getAmazonInventory(product.sku);
    if (amazonData) { currentAmazonQty = amazonData.quantity; }
  }\<close>
\<close>

definition currentAmazonQty :: "env \<Rightarrow> Product \<Rightarrow> (world, int) prog" where
  "currentAmazonQty e product =
     (if truthy (amazonAsin product) then
        await (getAmazonInventory e (sku product)) (\<lambda>amazonData.
          return (case amazonData of Some quantity \<Rightarrow> quantity | None \<Rightarrow> amazonQty product))
      else return (amazonQty product))"

definition currentMLQty :: "env \<Rightarrow> Product \<Rightarrow> (world, int) prog" where
  "currentMLQty e product =
     (case mlItemId product of
        Some itemId \<Rightarrow>
          if itemId \<noteq> [] then
            await (getMLInventory e itemId None) (\<lambda>mlData.
              return (case mlData of Some quantity \<Rightarrow> quantity | None \<Rightarrow> mlQty product))
          else return (mlQty product)
      | None \<Rightarrow> return (mlQty product))"

text \<open>
  Both variants push a quantity to every marketplace the product is configured for, and note
  the outcome in the local \<open>productResult\<close>:
  \<^verbatim>\<open>if (product.amazonAsin) {
    const amazonSuccess = await updateAmazonInventory(product.sku, quantity);
    productResult.amazonUpdated = amazonSuccess;
  }\<close>
\<close>

definition pushAmazon ::
  "env \<Rightarrow> Product \<Rightarrow> int \<Rightarrow> ('a ProductResultB_scheme \<times> world, unit) prog" where
  "pushAmazon e product quantity =
     (if truthy (amazonAsin product) then
        await (outer (updateAmazonInventory e (sku product) quantity)) (\<lambda>amazonSuccess.
          assign (\<lambda>r. r\<lparr>amazonUpdated := amazonSuccess\<rparr>))
      else return ())"

definition pushML ::
  "env \<Rightarrow> Product \<Rightarrow> int \<Rightarrow> ('a ProductResultB_scheme \<times> world, unit) prog" where
  "pushML e product quantity =
     (case mlItemId product of
        Some itemId \<Rightarrow>
          if itemId \<noteq> [] then
            await (outer (updateMLInventory e itemId quantity None)) (\<lambda>mlSuccess.
              assign (\<lambda>r. r\<lparr>mlUpdated := mlSuccess\<rparr>))
          else return ()
      | None \<Rightarrow> return ())"

text \<open>
  The body of the loop of \<open>syncAllInventory\<close> for one product. The local \<open>productResult\<close> is
  mutated inside the \<open>try\<close> block and read after it, so the block runs on the pair of
  \<open>productResult\<close> and the world.
\<close>

definition initial_result_A :: "Product \<Rightarrow> ProductResultA" where
  "initial_result_A product =
     \<lparr>r_sku = sku product, amazonUpdated = False, mlUpdated = False, error = None,
      previousQty = warehouseQty product, newQty = warehouseQty product,
      amazonSales = 0, mlSales = 0\<rparr>"

definition try_block_A :: "env \<Rightarrow> Product \<Rightarrow> (ProductResultA \<times> world, unit) prog" where
  "try_block_A e product =
    (let previousAmazonQty = amazonQty product;
         previousMLQty = mlQty product in
     await (outer (currentAmazonQty e product)) (\<lambda>currentAmazonQty'.
     await (outer (currentMLQty e product)) (\<lambda>currentMLQty'.
     let amazonSales' = max 0 (previousAmazonQty - currentAmazonQty');
         mlSales' = max 0 (previousMLQty - currentMLQty');
         totalSales = amazonSales' + mlSales' in
     await (assign (\<lambda>r. r\<lparr>amazonSales := amazonSales', mlSales := mlSales'\<rparr>)) (\<lambda>_.
     let newQty' = max 0 (warehouseQty product - totalSales) in
     await (assign (\<lambda>r. r\<lparr>newQty := newQty'\<rparr>)) (\<lambda>_.
     await (pushAmazon e product newQty') (\<lambda>_.
     await (pushML e product newQty') (\<lambda>_.
     await (outer (date_now e)) (\<lambda>today.
     await (outer (product_update e (product_id product)
                     \<lparr>set_warehouseQty = Some newQty', set_amazonQty = Some newQty',
                      set_mlQty = Some newQty', set_lastSyncAt = Some today\<rparr>)) (\<lambda>_.
     return ())))))))))"

definition syncProduct_A :: "env \<Rightarrow> Product \<Rightarrow> world \<Rightarrow> ProductResultA \<times> world" where
  "syncProduct_A e product w =
     (case try_catch (try_block_A e product)
             (\<lambda>err. assign (\<lambda>r. r\<lparr>error := Some (message_or ''Unknown error'' err)\<rparr>))
             (initial_result_A product, w) of
        (_, (productResult, w')) \<Rightarrow> (productResult, w'))"

text \<open>Truthiness of \<open>r.error\<close>, and the three accumulations after the loop.\<close>

definition has_error :: "'a ProductResultB_scheme \<Rightarrow> bool" where
  "has_error r = truthy (error r)"

definition successCount_A :: "ProductResultA list \<Rightarrow> nat" where
  "successCount_A results =
     length (filter (\<lambda>r. \<not> has_error r \<and>
        (amazonUpdated r \<or> mlUpdated r \<or> amazonSales r > 0 \<or> mlSales r > 0)) results)"

definition errorCount :: "'a ProductResultB_scheme list \<Rightarrow> nat" where
  "errorCount results = length (filter has_error results)"

definition totalSales_A :: "ProductResultA list \<Rightarrow> int" where
  "totalSales_A results = foldl (\<lambda>sum r. sum + amazonSales r + mlSales r) 0 results"

text \<open>The outer \<open>catch\<close>: log the error, and answer with the details gathered so far.\<close>

definition batch_failed :: "env \<Rightarrow> 'd list \<Rightarrow> exn \<Rightarrow> (world, 'd SyncResult) prog" where
  "batch_failed e results err =
     await (syncLog_create e ''error'' (message_or ''Error desconocido'' err) (DetailsError err)) (\<lambda>_.
     return \<lparr>success = False,
             result_message = message_or (''Error en sincronizaci'' @ [char_of (195::nat), char_of (179::nat)] @ ''n'') err,
             result_details = results\<rparr>)"

definition syncAllInventory_A :: "env \<Rightarrow> (world, ProductResultA SyncResult) prog" where
  "syncAllInventory_A e = (\<lambda>w.
     case product_findMany e w of
       (Inl err, w1) \<Rightarrow> batch_failed e [] err w1
     | (Inr products', w1) \<Rightarrow>
        (case for_of (syncProduct_A e) products' w1 of
           (results, w2) \<Rightarrow>
             try_catch
               (await (syncLog_create e
                         (if errorCount results = 0 then ''success'' else ''partial'')
                         (''Sincronizados '' @ toString (int (successCount_A results)) @ ''/''
                            @ toString (int (length results)) @ '' productos. Ventas detectadas: ''
                            @ toString (totalSales_A results))
                         (DetailsA results)) (\<lambda>_.
                return \<lparr>success = (errorCount results = 0),
                        result_message =
                          ''Sincronizaci'' @ [char_of (195::nat), char_of (179::nat)] @ ''n completada. ''
                            @ toString (int (successCount_A results))
                            @ '' productos actualizados. Ventas detectadas: ''
                            @ toString (totalSales_A results),
                        result_details = results\<rparr>))
               (batch_failed e results) w2))"


section \<open>Reconciliation, Variant B (direct overwrite)\<close>

text \<open>
  The other version of \<open>syncAllInventory\<close>: the same reads, then the warehouse quantity as it
  is pushed to the marketplaces, and only the two marketplace quantities and the time written
  to the product.
\<close>

definition initial_result_B :: "Product \<Rightarrow> ProductResultB" where
  "initial_result_B product =
     \<lparr>r_sku = sku product, amazonUpdated = False, mlUpdated = False, error = None\<rparr>"

definition try_block_B :: "env \<Rightarrow> Product \<Rightarrow> (ProductResultB \<times> world, unit) prog" where
  "try_block_B e product =
    (await (outer (currentAmazonQty e product)) (\<lambda>amazonQty'.
     await (outer (currentMLQty e product)) (\<lambda>mlQty'.
     let warehouseQty' = warehouseQty product in
     await (pushAmazon e product warehouseQty') (\<lambda>_.
     await (pushML e product warehouseQty') (\<lambda>_.
     await (outer (date_now e)) (\<lambda>today.
     await (outer (product_update e (product_id product)
                     \<lparr>set_warehouseQty = None, set_amazonQty = Some amazonQty',
                      set_mlQty = Some mlQty', set_lastSyncAt = Some today\<rparr>)) (\<lambda>_.
     return ())))))))"

definition syncProduct_B :: "env \<Rightarrow> Product \<Rightarrow> world \<Rightarrow> ProductResultB \<times> world" where
  "syncProduct_B e product w =
     (case try_catch (try_block_B e product)
             (\<lambda>err. assign (\<lambda>r. r\<lparr>error := Some (message_or ''Unknown error'' err)\<rparr>))
             (initial_result_B product, w) of
        (_, (productResult, w')) \<Rightarrow> (productResult, w'))"

definition successCount_B :: "ProductResultB list \<Rightarrow> nat" where
  "successCount_B results =
     length (filter (\<lambda>r. \<not> has_error r \<and> (amazonUpdated r \<or> mlUpdated r)) results)"

definition syncAllInventory_B :: "env \<Rightarrow> (world, ProductResultB SyncResult) prog" where
  "syncAllInventory_B e = (\<lambda>w.
     case product_findMany e w of
       (Inl err, w1) \<Rightarrow> batch_failed e [] err w1
     | (Inr products', w1) \<Rightarrow>
        (case for_of (syncProduct_B e) products' w1 of
           (results, w2) \<Rightarrow>
             try_catch
               (await (syncLog_create e
                         (if errorCount results = 0 then ''success'' else ''partial'')
                         (''Sincronizados '' @ toString (int (successCount_B results)) @ ''/''
                            @ toString (int (length results)) @ '' productos'')
                         (DetailsB results)) (\<lambda>_.
                return \<lparr>success = (errorCount results = 0),
                        result_message =
                          ''Sincronizaci'' @ [char_of (195::nat), char_of (179::nat)] @ ''n completada. ''
                            @ toString (int (successCount_B results))
                            @ '' productos actualizados, ''
                            @ toString (int (errorCount results)) @ '' errores.'',
                        result_details = results\<rparr>))
               (batch_failed e results) w2))"

section \<open>HTTP handlers of the inventory resource\<close>

datatype response_body =
    ErrorBody string
  | ProductsBody "Product list" "int option"
  | ProductBody Product

record NextResponse =
  http_status :: nat
  body :: response_body

text \<open>
  \<open>GET /api/inventory\<close>: the listing of the dashboard, ordered by SKU; \<open>lastSync\<close> is the
  creation time of the newest log entry with status \<open>success\<close>.
\<close>

definition syncLog_findFirst_success :: "env \<Rightarrow> (world, SyncLog option) prog" where
  "syncLog_findFirst_success e = prisma e SyncLogFindFirst (\<lambda>w.
     (Inr (case sort_key (\<lambda>l. - createdAt l) (filter (\<lambda>l. status l = ''success'') (syncLogs w)) of
             [] \<Rightarrow> None | l # _ \<Rightarrow> Some l), w))"

definition GET_inventory :: "env \<Rightarrow> bool \<Rightarrow> world \<Rightarrow> NextResponse \<times> world" where
  "GET_inventory e session w =
     (if \<not> session then (\<lparr>http_status = 401, body = ErrorBody ''No autorizado''\<rparr>, w)
      else
        case await (product_findMany_orderBy_sku e) (\<lambda>products'.
             await (syncLog_findFirst_success e) (\<lambda>lastLog.
             return \<lparr>http_status = 200,
                     body = ProductsBody products' (map_option createdAt lastLog)\<rparr>)) w of
          (Inr response, w') \<Rightarrow> (response, w')
        | (Inl err, w') \<Rightarrow> (\<lparr>http_status = 500, body = ErrorBody ''Error al obtener productos''\<rparr>, w'))"

text \<open>
  \<open>POST /api/inventory\<close>: the fields of the request body that the handler reads. The
  identifier and the two marketplace quantities of the new row are filled in by the
  database (\<open>generated_id\<close>, \<open>default_qty\<close>).
\<close>

record CreateBody =
  body_sku :: string
  body_name :: string
  body_warehouseQty :: "int option"
  body_amazonAsin :: "string option"
  body_mlItemId :: "string option"

definition POST_inventory ::
  "env \<Rightarrow> string \<Rightarrow> int \<Rightarrow> bool \<Rightarrow> CreateBody \<Rightarrow> world \<Rightarrow> NextResponse \<times> world" where
  "POST_inventory e generated_id default_qty session request w =
     (if \<not> session then (\<lparr>http_status = 401, body = ErrorBody ''No autorizado''\<rparr>, w)
      else
        case product_create e
               \<lparr>product_id = generated_id, sku = body_sku request, name = body_name request,
                warehouseQty = or_zero (body_warehouseQty request),
                amazonQty = default_qty, mlQty = default_qty,
                amazonAsin = body_amazonAsin request, mlItemId = body_mlItemId request,
                lastSyncAt = None\<rparr> w of
          (Inr product, w') \<Rightarrow> (\<lparr>http_status = 200, body = ProductBody product\<rparr>, w')
        | (Inl err, w') \<Rightarrow> (\<lparr>http_status = 500, body = ErrorBody ''Error al crear producto''\<rparr>, w'))"

text \<open>\<open>PUT /api/inventory/[id]\<close>: the manual edit of the warehouse quantity.\<close>

definition PUT_inventory ::
  "env \<Rightarrow> bool \<Rightarrow> string \<Rightarrow> int option \<Rightarrow> world \<Rightarrow> NextResponse \<times> world" where
  "PUT_inventory e session i warehouseQty' w =
     (if \<not> session then (\<lparr>http_status = 401, body = ErrorBody ''No autorizado''\<rparr>, w)
      else
        case product_update e i
               \<lparr>set_warehouseQty = warehouseQty', set_amazonQty = None,
                set_mlQty = None, set_lastSyncAt = None\<rparr> w of
          (Inr product, w') \<Rightarrow> (\<lparr>http_status = 200, body = ProductBody product\<rparr>, w')
        | (Inl err, w') \<Rightarrow> (\<lparr>http_status = 500, body = ErrorBody ''Error al actualizar producto''\<rparr>, w'))"

section \<open>Observations used in the statements\<close>

text \<open>The new quantity of Variant A, from the recorded and the current marketplace quantities.\<close>

definition newQty_of :: "Product \<Rightarrow> int \<Rightarrow> int \<Rightarrow> int" where
  "newQty_of p a b = max 0 (warehouseQty p - (max 0 (amazonQty p - a) + max 0 (mlQty p - b)))"

text \<open>The invariant of the data model: the three quantities of a product are not negative.\<close>

definition quantities_nonneg :: "Product \<Rightarrow> bool" where
  "quantities_nonneg p = (0 \<le> warehouseQty p \<and> 0 \<le> amazonQty p \<and> 0 \<le> mlQty p)"




text \<open>The fields of a product that Variant B never writes.\<close>

definition configuration ::
  "Product \<Rightarrow> string \<times> string \<times> string \<times> int \<times> string option \<times> string option" where
  "configuration p = (product_id p, sku p, name p, warehouseQty p, amazonAsin p, mlItemId p)"

text \<open>
  What a call recorded in the trace must look like under Variant B, for the products \<open>ps\<close>: a
  write request to a marketplace carries the warehouse quantity of a product of \<open>ps\<close> that has
  this external identifier, and a write to the product table leaves the warehouse quantity
  alone. Every other call is unconstrained.
\<close>

fun variantB_event_ok :: "Product list \<Rightarrow> event \<Rightarrow> bool" where
  "variantB_event_ok ps (Fetch (AmazonSkuQuantitiesPut k q t)) =
     list_ex (\<lambda>p. sku p = k \<and> warehouseQty p = q \<and> truthy (amazonAsin p)) ps"
| "variantB_event_ok ps (Fetch (MLItemPut i b t)) =
     list_ex (\<lambda>p. mlItemId p = Some i \<and> b = AvailableQuantity (warehouseQty p)) ps"
| "variantB_event_ok ps (Db (ProductUpdate i d)) = (set_warehouseQty d = None)"
| "variantB_event_ok ps _ = True"

text \<open>
  The write requests that carry the warehouse quantity of a product to its marketplaces, and
  whether every product of \<open>ps\<close> has one among the events \<open>evs\<close> for each marketplace it
  is configured for.
\<close>

fun is_amazon_push :: "Product \<Rightarrow> event \<Rightarrow> bool" where
  "is_amazon_push p (Fetch (AmazonSkuQuantitiesPut k q t)) = (k = sku p \<and> q = warehouseQty p)"
| "is_amazon_push p _ = False"

fun is_ml_push :: "Product \<Rightarrow> event \<Rightarrow> bool" where
  "is_ml_push p (Fetch (MLItemPut i b t)) =
     (mlItemId p = Some i \<and> b = AvailableQuantity (warehouseQty p))"
| "is_ml_push p _ = False"

definition all_pushed :: "Product list \<Rightarrow> event list \<Rightarrow> bool" where
  "all_pushed ps evs =
     list_all (\<lambda>p. (truthy (amazonAsin p) \<longrightarrow> list_ex (is_amazon_push p) evs) \<and>
                   (truthy (mlItemId p) \<longrightarrow> list_ex (is_ml_push p) evs)) ps"

text \<open>An update that writes nothing; it stands for any data when only the row matters.\<close>

definition no_write :: ProductUpdateInput where
  "no_write = \<lparr>set_warehouseQty = None, set_amazonQty = None, set_mlQty = None, set_lastSyncAt = None\<rparr>"

section \<open>Concrete scenarios\<close>

text \<open>
  An environment in which every remote call succeeds except the write to Marketplace B, which
  is refused: Marketplace A reports 97 units, Marketplace B reports \<open>ml_quantity\<close> units, the
  clock advances by one second per call, and the database never fails.
\<close>

definition env_ex :: "int \<Rightarrow> env" where
  "env_ex ml_quantity =
     \<lparr>AMAZON_REFRESH_TOKEN = Some ''rt'', AMAZON_CLIENT_ID = Some ''id'',
      AMAZON_CLIENT_SECRET = Some ''secret'',
      ML_REFRESH_TOKEN = Some ''mrt'', ML_CLIENT_ID = Some ''mid'', ML_CLIENT_SECRET = Some ''msecret'',
      clock = (\<lambda>n. 1000 * int n),
      amazon_token_endpoint = (\<lambda>n r. Inr (OkJson \<lparr>access_token = ''A'', expires_in = 3600\<rparr>)),
      amazon_summaries = (\<lambda>n r. Inr (OkJson (Some [\<lparr>totalQuantity = Some 97\<rparr>]))),
      amazon_sku_quantities = (\<lambda>n r. Inr (OkJson ())),
      ml_token_endpoint = (\<lambda>n r. Inr (OkJson
         \<lparr>access_token = ''M'', expires_in = 3600, refresh_token = ''mrt2''\<rparr>)),
      ml_item = (\<lambda>n r. Inr (OkJson \<lparr>available_quantity = Some ml_quantity, variations = None\<rparr>)),
      ml_item_put = (\<lambda>n r. Inr (NotOk ''bad request'')),
      db_failure = (\<lambda>n c. None)\<rparr>"

text \<open>A product listed on both marketplaces with 100 units everywhere, alone in the table.\<close>

definition p_ex :: Product where
  "p_ex = \<lparr>product_id = ''1'', sku = ''S1'', name = ''Solvent'', warehouseQty = 100,
           amazonQty = 100, mlQty = 100, amazonAsin = Some ''B0'', mlItemId = Some ''MLM1'',
           lastSyncAt = None\<rparr>"

definition w_ex :: world where
  "w_ex = \<lparr>cachedToken = None, cachedMLToken = None, products = [p_ex], syncLogs = [], trace = []\<rparr>"

text \<open>The same environment without a refresh credential for Marketplace B.\<close>

definition env_noauth :: env where
  "env_noauth = (env_ex 100)\<lparr>ML_REFRESH_TOKEN := None\<rparr>"

text \<open>A state that holds a cached token for each marketplace, expiring at \<open>expiry\<close>.\<close>

definition w_cached :: "int \<Rightarrow> world" where
  "w_cached expiry =
     w_ex\<lparr>cachedToken := Some \<lparr>token = ''T'', expiresAt = expiry\<rparr>,
          cachedMLToken := Some \<lparr>token = ''U'', expiresAt = expiry, refreshToken = ''R''\<rparr>\<rparr>"

text \<open>An item of Marketplace B with two variations, and the environment that serves an item.\<close>

definition item_ex :: MLItem where
  "item_ex = \<lparr>available_quantity = Some 14,
              variations = Some [\<lparr>variation_id = 1, variation_available_quantity = Some 5\<rparr>,
                                 \<lparr>variation_id = 2, variation_available_quantity = Some 9\<rparr>]\<rparr>"

definition env_item :: "MLItem \<Rightarrow> env" where
  "env_item item = (env_ex 100)\<lparr>ml_item := (\<lambda>n r. Inr (OkJson item))\<rparr>"

text \<open>An environment whose database refuses every write to the product \<open>bad\<close>.\<close>

definition env_db_fails :: "string \<Rightarrow> env" where
  "env_db_fails bad =
     (env_ex 100)\<lparr>db_failure := (\<lambda>n c. case c of
        ProductUpdate i d \<Rightarrow> if i = bad then Some (Error ''connection lost'') else None
      | _ \<Rightarrow> None)\<rparr>"


definition env_db_recovers :: "nat \<Rightarrow> env" where
  "env_db_recovers k =
     (env_ex 100)\<lparr>db_failure := (\<lambda>n c. case c of
        ProductUpdate i d \<Rightarrow> if n < k then Some (Error ''connection lost'') else None
      | _ \<Rightarrow> None)\<rparr>"


text \<open>Tables of three products, and of two products stored in descending order of SKU.\<close>

definition product_ex :: "string \<Rightarrow> string \<Rightarrow> Product" where
  "product_ex i k = p_ex\<lparr>product_id := i, sku := k\<rparr>"

definition w_three :: world where
  "w_three = w_ex\<lparr>products := [product_ex ''1'' ''S1'', product_ex ''2'' ''S2'', product_ex ''3'' ''S3'']\<rparr>"

definition w_unsorted :: world where
  "w_unsorted = w_ex\<lparr>products := [product_ex ''1'' ''S2'', product_ex ''2'' ''S1'']\<rparr>"

text \<open>A request to create a product with the warehouse quantity \<open>q\<close>.\<close>

definition create_ex :: "int \<Rightarrow> CreateBody" where
  "create_ex q = \<lparr>body_sku = ''S9'', body_name = ''Thinner'', body_warehouseQty = Some q,
                  body_amazonAsin = None, body_mlItemId = None\<rparr>"

section \<open>Basic facts about the effects\<close>

lemma return_apply [simp]: "return x s = (Inr x, s)"
  by (simp add: return_def)

lemma throw_apply [simp]: "throw e s = (Inl e, s)"
  by (simp add: throw_def)

lemma assign_apply [simp]: "assign f (l, s) = (Inr (), (f l, s))"
  by (simp add: assign_def)

lemma await_Inr: "m s = (Inr x, s') \<Longrightarrow> await m f s = f x s'"
  by (simp add: await_def)

lemma await_Inl: "m s = (Inl e, s') \<Longrightarrow> await m f s = (Inl e, s')"
  by (simp add: await_def)

lemma try_catch_Inr: "m s = (Inr x, s') \<Longrightarrow> try_catch m h s = (Inr x, s')"
  by (simp add: try_catch_def)

lemma try_catch_Inl: "m s = (Inl e, s') \<Longrightarrow> try_catch m h s = h e s'"
  by (simp add: try_catch_def)

lemma outer_apply: "m s = (x, s') \<Longrightarrow> outer m (l, s) = (x, (l, s'))"
  by (simp add: outer_def)

text \<open>
  A \<open>try\<close> block whose handler returns never throws. Each of the four exported functions of
  the marketplace clients is such a block, so none of them ever rejects.
\<close>

lemma try_catch_returns:
  assumes "\<And>err s. \<exists>x s'. h err s = (Inr x, s')"
  shows "\<exists>x s'. try_catch m h s = (Inr x, s')"
proof (cases "m s")
  case (Pair r s')
  then show ?thesis
    using assms[of _ s'] by (cases r) (auto simp: try_catch_def)
qed

lemma getAmazonInventory_returns: "\<exists>r w'. getAmazonInventory e k w = (Inr r, w')"
  unfolding getAmazonInventory_def by (rule try_catch_returns) simp

lemma updateAmazonInventory_returns: "\<exists>r w'. updateAmazonInventory e k q w = (Inr r, w')"
  unfolding updateAmazonInventory_def by (rule try_catch_returns) auto

lemma getMLInventory_returns: "\<exists>r w'. getMLInventory e k v w = (Inr r, w')"
  unfolding getMLInventory_def by (rule try_catch_returns) simp

lemma updateMLInventory_returns: "\<exists>r w'. updateMLInventory e k q v w = (Inr r, w')"
  unfolding updateMLInventory_def by (rule try_catch_returns) auto

lemma currentAmazonQty_returns: "\<exists>q w'. currentAmazonQty e p w = (Inr q, w')"
proof -
  obtain r w' where "getAmazonInventory e (sku p) w = (Inr r, w')"
    using getAmazonInventory_returns by blast
  then show ?thesis
    by (simp add: currentAmazonQty_def await_Inr)
qed

lemma currentMLQty_returns: "\<exists>q w'. currentMLQty e p w = (Inr q, w')"
proof (cases "mlItemId p")
  case None
  then show ?thesis by (simp add: currentMLQty_def)
next
  case (Some i)
  obtain r w' where "getMLInventory e i None w = (Inr r, w')"
    using getMLInventory_returns by blast
  with Some show ?thesis
    by (simp add: currentMLQty_def await_Inr)
qed

text \<open>
  A push block returns, and writes the outcome of the marketplace call into the detail record
  when the product is configured for that marketplace.
\<close>

lemma pushAmazon_steps:
  "\<exists>u w'. (truthy (amazonAsin p) \<longrightarrow> updateAmazonInventory e (sku p) q w = (Inr u, w')) \<and>
          (\<not> truthy (amazonAsin p) \<longrightarrow> w' = w) \<and>
          (\<forall>l. pushAmazon e p q (l, w) =
             (Inr (), (l\<lparr>amazonUpdated := (if truthy (amazonAsin p) then u else amazonUpdated l)\<rparr>, w')))"
proof (cases "truthy (amazonAsin p)")
  case True
  obtain u w' where "updateAmazonInventory e (sku p) q w = (Inr u, w')"
    using updateAmazonInventory_returns by blast
  with True show ?thesis
    by (simp add: pushAmazon_def await_Inr outer_apply)
next
  case False
  then show ?thesis by (simp add: pushAmazon_def)
qed

lemma pushML_steps:
  "\<exists>u w'. (\<forall>i. mlItemId p = Some i \<and> i \<noteq> [] \<longrightarrow> updateMLInventory e i q None w = (Inr u, w')) \<and>
          (\<not> truthy (mlItemId p) \<longrightarrow> w' = w) \<and>
          (\<forall>l. pushML e p q (l, w) =
             (Inr (), (l\<lparr>mlUpdated := (if truthy (mlItemId p) then u else mlUpdated l)\<rparr>, w')))"
proof (cases "truthy (mlItemId p)")
  case True
  then obtain i where i: "mlItemId p = Some i" "i \<noteq> []"
    by (cases "mlItemId p") auto
  obtain u w' where "updateMLInventory e i q None w = (Inr u, w')"
    using updateMLInventory_returns by blast
  with True i show ?thesis
    by (simp add: pushML_def await_Inr outer_apply)
next
  case False
  then show ?thesis
    by (cases "mlItemId p") (auto simp add: pushML_def)
qed

section \<open>The loop\<close>

lemma for_of_Cons:
  "for_of f (x # xs) s =
     (fst (f x s) # fst (for_of f xs (snd (f x s))), snd (for_of f xs (snd (f x s))))"
  by (simp split: prod.splits)

lemma for_of_length: "length (fst (for_of f xs s)) = length xs"
  by (induction xs arbitrary: s) (simp_all add: for_of_Cons del: for_of.simps(2))

lemma for_of_append:
  "for_of f (xs @ ys) s =
     (case for_of f xs s of
        (rs, s') \<Rightarrow> (case for_of f ys s' of (rs', s'') \<Rightarrow> (rs @ rs', s'')))"
  by (induction xs arbitrary: s) (simp_all add: for_of_Cons split: prod.splits del: for_of.simps(2))

lemma for_of_snoc:
  "for_of f (xs @ [x]) s =
     (case for_of f xs s of (rs, s') \<Rightarrow> (case f x s' of (r, s'') \<Rightarrow> (rs @ [r], s'')))"
  by (simp add: for_of_append split: prod.splits)

lemma for_of_take_Suc:
  assumes "i < length xs"
  shows "snd (for_of f (take (Suc i) xs) s) = snd (f (xs ! i) (snd (for_of f (take i xs) s)))"
    and "fst (for_of f (take (Suc i) xs) s) =
           fst (for_of f (take i xs) s) @ [fst (f (xs ! i) (snd (for_of f (take i xs) s)))]"
  using assms by (simp_all add: take_Suc_conv_app_nth for_of_snoc split: prod.splits)

lemma for_of_nth:
  assumes "i < length xs"
  shows "fst (for_of f xs s) ! i = fst (f (xs ! i) (snd (for_of f (take i xs) s)))"
proof -
  have "xs = take (Suc i) xs @ drop (Suc i) xs" by simp
  then have "fst (for_of f xs s) =
      fst (for_of f (take (Suc i) xs) s) @
      fst (for_of f (drop (Suc i) xs) (snd (for_of f (take (Suc i) xs) s)))"
    by (metis (no_types, lifting) for_of_append fst_conv snd_conv split_beta)
  moreover have "length (fst (for_of f (take i xs) s)) = i"
    using assms by (simp add: for_of_length)
  ultimately show ?thesis
    using assms for_of_take_Suc(2)[OF assms, of f s]
    by (simp add: nth_append)
qed

text \<open>A property of the state kept by every run of the body is kept by the loop.\<close>

lemma for_of_invariant:
  assumes "\<And>x s. x \<in> set xs \<Longrightarrow> I s \<Longrightarrow> I (snd (f x s))" and "I s"
  shows "I (snd (for_of f xs s))"
  using assms
proof (induction xs arbitrary: s)
  case Nil
  then show ?case by simp
next
  case (Cons x xs)
  have "I (snd (f x s))" using Cons.prems by simp
  then have "I (snd (for_of f xs (snd (f x s))))"
    using Cons.IH Cons.prems(1) by simp
  then show ?case by (simp add: for_of_Cons del: for_of.simps(2))
qed

text \<open>A relation between each element and its result, established under an invariant.\<close>

lemma for_of_results:
  assumes "\<And>x s. x \<in> set xs \<Longrightarrow> I s \<Longrightarrow> P x (fst (f x s)) \<and> I (snd (f x s))" and "I s"
  shows "list_all2 P xs (fst (for_of f xs s))"
  using assms
proof (induction xs arbitrary: s)
  case Nil
  then show ?case by simp
next
  case (Cons x xs)
  have x: "P x (fst (f x s))" "I (snd (f x s))" using Cons.prems by simp_all
  then have "list_all2 P xs (fst (for_of f xs (snd (f x s))))"
    using Cons.IH Cons.prems(1) by simp
  with x show ?case by (simp add: for_of_Cons del: for_of.simps(2))
qed

lemma filter_length_list_all2:
  assumes "list_all2 (\<lambda>x y. G x = H y) xs ys"
  shows "length (filter H ys) = length (filter G xs)"
  using assms by (induction rule: list_all2_induct) simp_all

section \<open>What the marketplace clients leave untouched\<close>

text \<open>The clients change the token caches and the trace, never the two tables.\<close>

lemma await_keeps:
  assumes "\<And>s. f (snd (m s)) = f s" and "\<And>x s. f (snd (k x s)) = f s"
  shows "f (snd (await m k s)) = f s"
proof (cases "m s")
  case (Pair r s')
  with assms(1)[of s] have "f s' = f s" by simp
  with Pair assms(2) show ?thesis
    by (cases r) (simp_all add: await_def)
qed

lemma try_catch_keeps:
  assumes "\<And>s. f (snd (m s)) = f s" and "\<And>x s. f (snd (h x s)) = f s"
  shows "f (snd (try_catch m h s)) = f s"
proof (cases "m s")
  case (Pair r s')
  with assms(1)[of s] have "f s' = f s" by simp
  with Pair assms(2) show ?thesis
    by (cases r) (simp_all add: try_catch_def)
qed

lemma fetch_tables:
  "products (snd (fetch ep r w)) = products w" "syncLogs (snd (fetch ep r w)) = syncLogs w"
  by (simp_all add: fetch_def)

lemma getAccessToken_amazon_tables:
  "products (snd (getAccessToken_amazon e w)) = products w"
  "syncLogs (snd (getAccessToken_amazon e w)) = syncLogs w"
  by (auto simp: getAccessToken_amazon_def fetch_def await_def split: option.splits sum.splits http.splits)

lemma getAccessToken_ml_tables:
  "products (snd (getAccessToken_ml e w)) = products w"
  "syncLogs (snd (getAccessToken_ml e w)) = syncLogs w"
  by (auto simp: getAccessToken_ml_def fetch_def await_def split: option.splits sum.splits http.splits)

lemma getAmazonInventory_tables:
  "products (snd (getAmazonInventory e k w)) = products w"
  "syncLogs (snd (getAmazonInventory e k w)) = syncLogs w"
  unfolding getAmazonInventory_def
  by (intro try_catch_keeps await_keeps;
      simp add: getAccessToken_amazon_tables fetch_tables split: http.splits option.splits)+

lemma updateAmazonInventory_tables:
  "products (snd (updateAmazonInventory e k q w)) = products w"
  "syncLogs (snd (updateAmazonInventory e k q w)) = syncLogs w"
  unfolding updateAmazonInventory_def
  by (intro try_catch_keeps await_keeps;
      simp add: getAccessToken_amazon_tables fetch_tables split: http.splits option.splits)+

lemma getMLInventory_tables:
  "products (snd (getMLInventory e k v w)) = products w"
  "syncLogs (snd (getMLInventory e k v w)) = syncLogs w"
  unfolding getMLInventory_def
  by (intro try_catch_keeps await_keeps;
      simp add: getAccessToken_ml_tables fetch_tables split: http.splits option.splits)+

lemma updateMLInventory_tables:
  "products (snd (updateMLInventory e k q v w)) = products w"
  "syncLogs (snd (updateMLInventory e k q v w)) = syncLogs w"
  unfolding updateMLInventory_def Let_def
  by (intro try_catch_keeps await_keeps;
      simp add: getAccessToken_ml_tables fetch_tables split: http.splits option.splits)+

lemma currentAmazonQty_tables:
  "products (snd (currentAmazonQty e p w)) = products w"
  "syncLogs (snd (currentAmazonQty e p w)) = syncLogs w"
  unfolding currentAmazonQty_def
  by (auto intro!: await_keeps simp: getAmazonInventory_tables)

lemma currentMLQty_tables:
  "products (snd (currentMLQty e p w)) = products w"
  "syncLogs (snd (currentMLQty e p w)) = syncLogs w"
  unfolding currentMLQty_def
  by (auto intro!: await_keeps simp: getMLInventory_tables split: option.splits)

lemma pushAmazon_world:
  assumes "pushAmazon e p q (l, w) = (x, (l', w'))"
  shows "products w' = products w" "syncLogs w' = syncLogs w"
proof -
  have "products (snd (snd (pushAmazon e p q (l, w)))) = products w \<and>
        syncLogs (snd (snd (pushAmazon e p q (l, w)))) = syncLogs w"
    using updateAmazonInventory_tables[of e "sku p" q w]
    by (cases "updateAmazonInventory e (sku p) q w")
       (auto simp: pushAmazon_def await_def outer_def split: sum.splits)
  with assms show "products w' = products w" "syncLogs w' = syncLogs w"
    by simp_all
qed

lemma pushML_world:
  assumes "pushML e p q (l, w) = (x, (l', w'))"
  shows "products w' = products w" "syncLogs w' = syncLogs w"
proof -
  have "products (snd (snd (pushML e p q (l, w)))) = products w \<and>
        syncLogs (snd (snd (pushML e p q (l, w)))) = syncLogs w"
  proof (cases "mlItemId p")
    case None
    then show ?thesis by (simp add: pushML_def)
  next
    case (Some i)
    then show ?thesis
      using updateMLInventory_tables[of e i q None w]
      by (cases "updateMLInventory e i q None w")
         (auto simp: pushML_def await_def outer_def split: sum.splits)
  qed
  with assms show "products w' = products w" "syncLogs w' = syncLogs w"
    by simp_all
qed

section \<open>The calls a step makes\<close>

text \<open>
  Each step appends its calls to the trace. The lemmas below bound what is appended: every new
  event satisfies \<open>Q\<close>, provided the requests the step can send do.
\<close>

lemma await_emits:
  assumes "\<And>s. \<exists>evs. trace (snd (m s)) = trace s @ evs \<and> list_all Q evs"
      and "\<And>x s. \<exists>evs. trace (snd (k x s)) = trace s @ evs \<and> list_all Q evs"
  shows "\<exists>evs. trace (snd (await m k s)) = trace s @ evs \<and> list_all Q evs"
proof (cases "m s")
  case (Pair r s')
  obtain evs where evs: "trace s' = trace s @ evs" "list_all Q evs"
    using assms(1)[of s] Pair by auto
  show ?thesis
  proof (cases r)
    case (Inl err)
    with Pair evs show ?thesis by (auto simp: await_def)
  next
    case (Inr x)
    obtain evs' where "trace (snd (k x s')) = trace s' @ evs'" "list_all Q evs'"
      using assms(2)[of x s'] by auto
    with Pair Inr evs show ?thesis
      by (intro exI[of _ "evs @ evs'"]) (simp add: await_def)
  qed
qed

lemma try_catch_emits:
  assumes "\<And>s. \<exists>evs. trace (snd (m s)) = trace s @ evs \<and> list_all Q evs"
      and "\<And>x s. \<exists>evs. trace (snd (h x s)) = trace s @ evs \<and> list_all Q evs"
  shows "\<exists>evs. trace (snd (try_catch m h s)) = trace s @ evs \<and> list_all Q evs"
proof (cases "m s")
  case (Pair r s')
  obtain evs where evs: "trace s' = trace s @ evs" "list_all Q evs"
    using assms(1)[of s] Pair by auto
  show ?thesis
  proof (cases r)
    case (Inr x)
    with Pair evs show ?thesis by (auto simp: try_catch_def)
  next
    case (Inl err)
    obtain evs' where "trace (snd (h err s')) = trace s' @ evs'" "list_all Q evs'"
      using assms(2)[of err s'] by auto
    with Pair Inl evs show ?thesis
      by (intro exI[of _ "evs @ evs'"]) (simp add: try_catch_def)
  qed
qed

lemma return_emits: "\<exists>evs. trace (snd (return x s)) = trace s @ evs \<and> list_all Q evs"
  by (intro exI[of _ "[]"]) simp

lemma fetch_emits:
  assumes "Q (Fetch r)"
  shows "\<exists>evs. trace (snd (fetch ep r w)) = trace w @ evs \<and> list_all Q evs"
  using assms by (intro exI[of _ "[Fetch r]"]) (simp add: fetch_def)

lemma for_of_emits:
  assumes "\<And>x s. x \<in> set xs \<Longrightarrow> \<exists>evs. trace (snd (f x s)) = trace s @ evs \<and> list_all Q evs"
  shows "\<exists>evs. trace (snd (for_of f xs s)) = trace s @ evs \<and> list_all Q evs"
  using assms
proof (induction xs arbitrary: s)
  case Nil
  then show ?case by simp
next
  case (Cons x xs)
  obtain e1 where e1: "trace (snd (f x s)) = trace s @ e1" "list_all Q e1"
    using Cons.prems[of x s] by auto
  obtain e2 where e2: "trace (snd (for_of f xs (snd (f x s)))) = trace (snd (f x s)) @ e2" "list_all Q e2"
    using Cons.IH[of "snd (f x s)"] Cons.prems by auto
  from e1 e2 show ?case
    by (intro exI[of _ "e1 @ e2"]) (simp add: for_of_Cons del: for_of.simps(2))
qed

lemma getAccessToken_amazon_emits:
  assumes "\<And>a b c. Q (Fetch (AmazonTokenPost a b c))"
  shows "\<exists>evs. trace (snd (getAccessToken_amazon e w)) = trace w @ evs \<and> list_all Q evs"
proof (cases "cached_if_valid (now e w) (cachedToken w)")
  case (Some tok)
  then show ?thesis
    by (intro exI[of _ "[]"]) (simp add: getAccessToken_amazon_def)
next
  case None
  then show ?thesis
    using assms
    by (intro exI[of _ "[Fetch (AmazonTokenPost (AMAZON_REFRESH_TOKEN e) (AMAZON_CLIENT_ID e)
                            (AMAZON_CLIENT_SECRET e))]"])
       (simp add: getAccessToken_amazon_def fetch_def await_def split: sum.splits http.splits)
qed

lemma getAccessToken_ml_emits:
  assumes "\<And>a b c. Q (Fetch (MLTokenPost a b c))"
  shows "\<exists>evs. trace (snd (getAccessToken_ml e w)) = trace w @ evs \<and> list_all Q evs"
proof (cases "cached_if_valid (now e w) (cachedMLToken w)")
  case (Some tok)
  then show ?thesis
    by (intro exI[of _ "[]"]) (simp add: getAccessToken_ml_def)
next
  case None
  show ?thesis
  proof (cases "js_or (map_option refreshToken (cachedMLToken w)) (ML_REFRESH_TOKEN e)")
    case n: None
    with None show ?thesis
      by (intro exI[of _ "[]"]) (simp add: getAccessToken_ml_def)
  next
    case (Some rt)
    with None assms show ?thesis
      by (cases "rt = []")
         (auto simp: getAccessToken_ml_def fetch_def await_def split: sum.splits http.splits)
  qed
qed

lemma getAmazonInventory_emits:
  assumes "\<And>a b c. Q (Fetch (AmazonTokenPost a b c))" and "\<And>t. Q (Fetch (AmazonSummariesGet k t))"
  shows "\<exists>evs. trace (snd (getAmazonInventory e k w)) = trace w @ evs \<and> list_all Q evs"
  unfolding getAmazonInventory_def
  by (intro try_catch_emits await_emits getAccessToken_amazon_emits fetch_emits assms return_emits)
     (auto intro: return_emits split: http.splits option.splits)

lemma updateAmazonInventory_emits:
  assumes "\<And>a b c. Q (Fetch (AmazonTokenPost a b c))" and "\<And>t. Q (Fetch (AmazonSkuQuantitiesPut k q t))"
  shows "\<exists>evs. trace (snd (updateAmazonInventory e k q w)) = trace w @ evs \<and> list_all Q evs"
  unfolding updateAmazonInventory_def
  by (intro try_catch_emits await_emits getAccessToken_amazon_emits fetch_emits assms return_emits)
     (auto intro: return_emits split: http.splits option.splits)

lemma getMLInventory_emits:
  assumes "\<And>a b c. Q (Fetch (MLTokenPost a b c))" and "\<And>t. Q (Fetch (MLItemGet k t))"
  shows "\<exists>evs. trace (snd (getMLInventory e k v w)) = trace w @ evs \<and> list_all Q evs"
  unfolding getMLInventory_def
  by (intro try_catch_emits await_emits getAccessToken_ml_emits fetch_emits assms return_emits)
     (auto intro: return_emits split: http.splits option.splits)

lemma updateMLInventory_emits:
  assumes "\<And>a b c. Q (Fetch (MLTokenPost a b c))"
      and "\<And>t. Q (Fetch (MLItemPut k (AvailableQuantity q) t))"
  shows "\<exists>evs. trace (snd (updateMLInventory e k q None w)) = trace w @ evs \<and> list_all Q evs"
proof -
  have "updateMLInventory e k q None =
          try_catch
            (await (getAccessToken_ml e) (\<lambda>accessToken.
             await (fetch (ml_item_put e) (MLItemPut k (AvailableQuantity q) accessToken))
               (\<lambda>response. case response of NotOk err \<Rightarrow> return False | OkJson _ \<Rightarrow> return True)))
            (\<lambda>err. return False)"
    by (simp add: updateMLInventory_def)
  then show ?thesis
    by (simp only:)
       ((intro try_catch_emits await_emits getAccessToken_ml_emits fetch_emits assms return_emits),
        auto intro: return_emits split: http.splits option.splits)
qed

lemma pushAmazon_emits:
  assumes "\<And>a b c. Q (Fetch (AmazonTokenPost a b c))"
      and "\<And>t. truthy (amazonAsin p) \<Longrightarrow> Q (Fetch (AmazonSkuQuantitiesPut (sku p) q t))"
  shows "\<exists>evs. trace (snd (snd (pushAmazon e p q (l, w)))) = trace w @ evs \<and> list_all Q evs"
proof (cases "truthy (amazonAsin p)")
  case False
  then show ?thesis by (intro exI[of _ "[]"]) (simp add: pushAmazon_def)
next
  case True
  then have "\<exists>evs. trace (snd (updateAmazonInventory e (sku p) q w)) = trace w @ evs \<and> list_all Q evs"
    by (intro updateAmazonInventory_emits assms) simp_all
  with True show ?thesis
    by (cases "updateAmazonInventory e (sku p) q w")
       (auto simp: pushAmazon_def await_def outer_def split: sum.splits)
qed

lemma pushML_emits:
  assumes "\<And>a b c. Q (Fetch (MLTokenPost a b c))"
      and "\<And>t i. mlItemId p = Some i \<Longrightarrow> Q (Fetch (MLItemPut i (AvailableQuantity q) t))"
  shows "\<exists>evs. trace (snd (snd (pushML e p q (l, w)))) = trace w @ evs \<and> list_all Q evs"
proof (cases "mlItemId p")
  case None
  then show ?thesis by (intro exI[of _ "[]"]) (simp add: pushML_def)
next
  case (Some i)
  show ?thesis
  proof (cases "i = []")
    case True
    with Some show ?thesis by (intro exI[of _ "[]"]) (simp add: pushML_def)
  next
    case False
    have "\<exists>evs. trace (snd (updateMLInventory e i q None w)) = trace w @ evs \<and> list_all Q evs"
      using Some by (intro updateMLInventory_emits assms) simp_all
    with Some False show ?thesis
      by (cases "updateMLInventory e i q None w")
         (auto simp: pushML_def await_def outer_def split: sum.splits)
  qed
qed

lemma currentAmazonQty_emits:
  assumes "\<And>a b c. Q (Fetch (AmazonTokenPost a b c))" and "\<And>k t. Q (Fetch (AmazonSummariesGet k t))"
  shows "\<exists>evs. trace (snd (currentAmazonQty e p w)) = trace w @ evs \<and> list_all Q evs"
  unfolding currentAmazonQty_def
  by (auto intro!: await_emits getAmazonInventory_emits assms return_emits)

lemma currentMLQty_emits:
  assumes "\<And>a b c. Q (Fetch (MLTokenPost a b c))" and "\<And>k t. Q (Fetch (MLItemGet k t))"
  shows "\<exists>evs. trace (snd (currentMLQty e p w)) = trace w @ evs \<and> list_all Q evs"
  unfolding currentMLQty_def
  by (auto intro!: await_emits getMLInventory_emits assms return_emits split: option.splits)

text \<open>
  When authentication succeeds, a write to a marketplace sends exactly one request after it:
  the one that carries the quantity.
\<close>

lemma truthy_Some: "truthy x \<Longrightarrow> \<exists>s. x = Some s \<and> s \<noteq> []"
  by (cases x) auto

lemma getAccessToken_amazon_ok:
  assumes "\<forall>n r. \<exists>d. amazon_token_endpoint e n r = Inr (OkJson d)"
  shows "\<exists>tok v' evs. getAccessToken_amazon e v = (Inr tok, v') \<and> trace v' = trace v @ evs"
proof (cases "cached_if_valid (now e v) (cachedToken v)")
  case (Some tok)
  then show ?thesis by (simp add: getAccessToken_amazon_def)
next
  case None
  obtain d where "amazon_token_endpoint e (length (trace v))
      (AmazonTokenPost (AMAZON_REFRESH_TOKEN e) (AMAZON_CLIENT_ID e) (AMAZON_CLIENT_SECRET e))
        = Inr (OkJson d)"
    using assms by blast
  with None show ?thesis
    by (simp add: getAccessToken_amazon_def fetch_def await_def)
qed

lemma getAccessToken_ml_ok:
  assumes "\<forall>n r. \<exists>d. ml_token_endpoint e n r = Inr (OkJson d)"
      and "truthy (ML_REFRESH_TOKEN e)"
  shows "\<exists>tok v' evs. getAccessToken_ml e v = (Inr tok, v') \<and> trace v' = trace v @ evs"
proof (cases "cached_if_valid (now e v) (cachedMLToken v)")
  case (Some tok)
  then show ?thesis by (simp add: getAccessToken_ml_def)
next
  case None
  have "truthy (js_or (map_option refreshToken (cachedMLToken v)) (ML_REFRESH_TOKEN e))"
    using assms(2) by (simp add: js_or_def)
  from truthy_Some[OF this] obtain rt where
    rt: "js_or (map_option refreshToken (cachedMLToken v)) (ML_REFRESH_TOKEN e) = Some rt" "rt \<noteq> []"
    by blast
  obtain d where "ml_token_endpoint e (length (trace v))
      (MLTokenPost rt (ML_CLIENT_ID e) (ML_CLIENT_SECRET e)) = Inr (OkJson d)"
    using assms(1) by blast
  with None rt show ?thesis
    by (simp add: getAccessToken_ml_def fetch_def await_def)
qed

lemma updateAmazonInventory_sends:
  assumes "getAccessToken_amazon e v = (Inr tok, v')"
  shows "trace (snd (updateAmazonInventory e k q v)) =
           trace v' @ [Fetch (AmazonSkuQuantitiesPut k q tok)]"
  using assms
  by (simp add: updateAmazonInventory_def try_catch_def await_def fetch_def
        split: sum.splits http.splits)

lemma updateMLInventory_sends:
  assumes "getAccessToken_ml e v = (Inr tok, v')"
  shows "trace (snd (updateMLInventory e i q None v)) =
           trace v' @ [Fetch (MLItemPut i (AvailableQuantity q) tok)]"
  using assms
  by (simp add: updateMLInventory_def try_catch_def await_def fetch_def Let_def
        split: sum.splits http.splits)

section \<open>The database calls\<close>

lemma product_update_trace:
  "trace (snd (product_update e i d w)) = trace w @ [Db (ProductUpdate i d)]"
  by (simp add: product_update_def prisma_def Let_def split: option.splits)

lemma product_update_logs: "syncLogs (snd (product_update e i d w)) = syncLogs w"
  by (simp add: product_update_def prisma_def Let_def split: option.splits)

lemma product_update_Inr:
  assumes "product_update e i d w = (Inr r, w')"
  shows "products w' = map (\<lambda>p. if product_id p = i then apply_update d p else p) (products w)"
  using assms by (auto simp: product_update_def prisma_def Let_def split: option.splits)


lemma product_update_configuration:
  assumes "set_warehouseQty d = None"
  shows "map configuration (products (snd (product_update e i d w))) = map configuration (products w)"
  using assms
  by (auto simp: product_update_def prisma_def Let_def configuration_def apply_update_def
           split: option.splits)

lemma product_update_nonneg:
  assumes "list_all quantities_nonneg (products w)"
      and "0 \<le> or_zero (set_warehouseQty d)" "0 \<le> or_zero (set_amazonQty d)"
          "0 \<le> or_zero (set_mlQty d)"
  shows "list_all quantities_nonneg (products (snd (product_update e i d w)))"
  using assms
  by (auto simp: product_update_def prisma_def Let_def list_all_iff quantities_nonneg_def
        apply_update_def split: option.splits)

lemma product_findMany_Inr:
  assumes "product_findMany e w = (Inr ps, w1)"
  shows "ps = products w" "syncLogs w1 = syncLogs w" "products w1 = products w"
    "trace w1 = trace w @ [Db ProductFindMany]"
  using assms by (auto simp: product_findMany_def prisma_def Let_def split: option.splits)

lemma product_findMany_products: "products (snd (product_findMany e w)) = products w"
  by (simp add: product_findMany_def prisma_def Let_def split: option.splits)


lemma syncLog_create_products: "products (snd (syncLog_create e st msg det w)) = products w"
  by (simp add: syncLog_create_def prisma_def Let_def split: option.splits)

lemma batch_failed_details:
  assumes "batch_failed e results err w = (Inr res, w')"
  shows "result_details res = results"
  using assms by (auto simp: batch_failed_def await_def split: prod.splits sum.splits)

lemma batch_failed_products: "products (snd (batch_failed e results err w)) = products w"
  unfolding batch_failed_def
  by (intro await_keeps) (simp_all add: syncLog_create_products)

section \<open>The token cache\<close>

text \<open>
  C4. For each marketplace client, \<open>getAccessToken\<close> returns the cached token and makes no call
  at all (the state, trace included, is unchanged) when a token is cached and the clock is
  before its expiry. Otherwise it makes exactly one call, the request to the token endpoint
  (Marketplace B: provided a refresh credential is available, from the cache or from the
  process environment), and when the endpoint answers with success it returns the new token
  and caches it with the expiry \<open>now + (expires_in - 300) * 1000\<close> milliseconds, \<open>now\<close> being the
  clock when the answer has arrived.
\<close>

theorem token_cache:
  "(\<forall>c. cachedToken w = Some c \<and> now e w < expiresAt c \<longrightarrow>
        getAccessToken_amazon e w = (Inr (token c), w)) \<and>
   (\<not> (\<exists>c. cachedToken w = Some c \<and> now e w < expiresAt c) \<longrightarrow>
      trace (snd (getAccessToken_amazon e w)) =
        trace w @ [Fetch (AmazonTokenPost (AMAZON_REFRESH_TOKEN e) (AMAZON_CLIENT_ID e)
                            (AMAZON_CLIENT_SECRET e))] \<and>
      (\<forall>data. amazon_token_endpoint e (length (trace w))
                 (AmazonTokenPost (AMAZON_REFRESH_TOKEN e) (AMAZON_CLIENT_ID e)
                    (AMAZON_CLIENT_SECRET e)) = Inr (OkJson data) \<longrightarrow>
         fst (getAccessToken_amazon e w) = Inr (access_token data) \<and>
         cachedToken (snd (getAccessToken_amazon e w)) =
           Some \<lparr>token = access_token data,
                 expiresAt = now e (snd (getAccessToken_amazon e w)) + (expires_in data - 300) * 1000\<rparr>)) \<and>
   (\<forall>c. cachedMLToken w = Some c \<and> now e w < expiresAt c \<longrightarrow>
        getAccessToken_ml e w = (Inr (token c), w)) \<and>
   (\<forall>rt. \<not> (\<exists>c. cachedMLToken w = Some c \<and> now e w < expiresAt c) \<and>
         js_or (map_option refreshToken (cachedMLToken w)) (ML_REFRESH_TOKEN e) = Some rt \<and> rt \<noteq> [] \<longrightarrow>
      trace (snd (getAccessToken_ml e w)) =
        trace w @ [Fetch (MLTokenPost rt (ML_CLIENT_ID e) (ML_CLIENT_SECRET e))] \<and>
      (\<forall>data. ml_token_endpoint e (length (trace w))
                 (MLTokenPost rt (ML_CLIENT_ID e) (ML_CLIENT_SECRET e)) = Inr (OkJson data) \<longrightarrow>
         fst (getAccessToken_ml e w) = Inr (access_token data) \<and>
         cachedMLToken (snd (getAccessToken_ml e w)) =
           Some \<lparr>token = access_token data,
                 expiresAt = now e (snd (getAccessToken_ml e w)) + (expires_in data - 300) * 1000,
                 refreshToken = refresh_token data\<rparr>))"
proof (intro conjI allI impI)
  fix c assume "cachedToken w = Some c \<and> now e w < expiresAt c"
  then show "getAccessToken_amazon e w = (Inr (token c), w)"
    by (simp add: getAccessToken_amazon_def cached_if_valid_def)
next
  assume "\<not> (\<exists>c. cachedToken w = Some c \<and> now e w < expiresAt c)"
  then have n: "cached_if_valid (now e w) (cachedToken w) = None"
    by (auto simp: cached_if_valid_def split: option.splits)
  then show "trace (snd (getAccessToken_amazon e w)) =
        trace w @ [Fetch (AmazonTokenPost (AMAZON_REFRESH_TOKEN e) (AMAZON_CLIENT_ID e)
                            (AMAZON_CLIENT_SECRET e))]"
    by (simp add: getAccessToken_amazon_def fetch_def await_def split: sum.splits http.splits)
  fix data
  assume "amazon_token_endpoint e (length (trace w))
                 (AmazonTokenPost (AMAZON_REFRESH_TOKEN e) (AMAZON_CLIENT_ID e)
                    (AMAZON_CLIENT_SECRET e)) = Inr (OkJson data)"
  with n show "fst (getAccessToken_amazon e w) = Inr (access_token data)"
    and "cachedToken (snd (getAccessToken_amazon e w)) =
           Some \<lparr>token = access_token data,
                 expiresAt = now e (snd (getAccessToken_amazon e w)) + (expires_in data - 300) * 1000\<rparr>"
    by (simp_all add: getAccessToken_amazon_def fetch_def await_def now_def)
next
  fix c assume "cachedMLToken w = Some c \<and> now e w < expiresAt c"
  then show "getAccessToken_ml e w = (Inr (token c), w)"
    by (simp add: getAccessToken_ml_def cached_if_valid_def)
next
  fix rt
  assume h: "\<not> (\<exists>c. cachedMLToken w = Some c \<and> now e w < expiresAt c) \<and>
         js_or (map_option refreshToken (cachedMLToken w)) (ML_REFRESH_TOKEN e) = Some rt \<and> rt \<noteq> []"
  then have n: "cached_if_valid (now e w) (cachedMLToken w) = None"
    by (auto simp: cached_if_valid_def split: option.splits)
  with h show "trace (snd (getAccessToken_ml e w)) =
        trace w @ [Fetch (MLTokenPost rt (ML_CLIENT_ID e) (ML_CLIENT_SECRET e))]"
    by (simp add: getAccessToken_ml_def fetch_def await_def split: sum.splits http.splits)
  fix data
  assume "ml_token_endpoint e (length (trace w))
                 (MLTokenPost rt (ML_CLIENT_ID e) (ML_CLIENT_SECRET e)) = Inr (OkJson data)"
  with n h show "fst (getAccessToken_ml e w) = Inr (access_token data)"
    and "cachedMLToken (snd (getAccessToken_ml e w)) =
           Some \<lparr>token = access_token data,
                 expiresAt = now e (snd (getAccessToken_ml e w)) + (expires_in data - 300) * 1000,
                 refreshToken = refresh_token data\<rparr>"
    by (simp_all add: getAccessToken_ml_def fetch_def await_def now_def)
qed

theorem token_cache_witness:
  "getAccessToken_amazon (env_ex 100) (w_cached 500) = (Inr ''T'', w_cached 500) \<and>
   getAccessToken_ml (env_ex 100) (w_cached 500) = (Inr ''U'', w_cached 500) \<and>
   trace (snd (getAccessToken_amazon (env_ex 100) (w_cached (- 1)))) =
     [Fetch (AmazonTokenPost (Some ''rt'') (Some ''id'') (Some ''secret''))] \<and>
   fst (getAccessToken_amazon (env_ex 100) (w_cached (- 1))) = Inr ''A'' \<and>
   cachedToken (snd (getAccessToken_amazon (env_ex 100) (w_cached (- 1)))) =
     Some \<lparr>token = ''A'', expiresAt = 1000 + (3600 - 300) * 1000\<rparr> \<and>
   trace (snd (getAccessToken_ml (env_ex 100) (w_cached (- 1)))) =
     [Fetch (MLTokenPost ''R'' (Some ''mid'') (Some ''msecret''))] \<and>
   fst (getAccessToken_ml (env_ex 100) (w_cached (- 1))) = Inr ''M'' \<and>
   cachedMLToken (snd (getAccessToken_ml (env_ex 100) (w_cached (- 1)))) =
     Some \<lparr>token = ''M'', expiresAt = 1000 + (3600 - 300) * 1000, refreshToken = ''mrt2''\<rparr>"
proof -
  have valid: "cachedToken (w_cached 500) = Some \<lparr>token = ''T'', expiresAt = 500\<rparr>"
     "cachedMLToken (w_cached 500) = Some \<lparr>token = ''U'', expiresAt = 500, refreshToken = ''R''\<rparr>"
     "now (env_ex 100) (w_cached 500) = 0"
    by (simp_all add: w_cached_def w_ex_def now_def env_ex_def)
  have expired: "\<not> (\<exists>c. cachedToken (w_cached (- 1)) = Some c \<and> now (env_ex 100) (w_cached (- 1)) < expiresAt c)"
     "\<not> (\<exists>c. cachedMLToken (w_cached (- 1)) = Some c \<and> now (env_ex 100) (w_cached (- 1)) < expiresAt c)"
     "js_or (map_option refreshToken (cachedMLToken (w_cached (- 1)))) (ML_REFRESH_TOKEN (env_ex 100)) = Some ''R''"
     "trace (w_cached (- 1)) = []"
    by (simp_all add: w_cached_def w_ex_def now_def env_ex_def js_or_def)
  have env: "AMAZON_REFRESH_TOKEN (env_ex 100) = Some ''rt''" "AMAZON_CLIENT_ID (env_ex 100) = Some ''id''"
     "AMAZON_CLIENT_SECRET (env_ex 100) = Some ''secret''"
     "ML_CLIENT_ID (env_ex 100) = Some ''mid''" "ML_CLIENT_SECRET (env_ex 100) = Some ''msecret''"
     "\<And>n r. amazon_token_endpoint (env_ex 100) n r = Inr (OkJson \<lparr>access_token = ''A'', expires_in = 3600\<rparr>)"
     "\<And>n r. ml_token_endpoint (env_ex 100) n r = Inr (OkJson \<lparr>access_token = ''M'', expires_in = 3600, refresh_token = ''mrt2''\<rparr>)"
     "\<And>v. now (env_ex 100) v = 1000 * int (length (trace v))"
    by (simp_all add: env_ex_def now_def)
  note v = token_cache[of "w_cached 500" "env_ex 100"]
  note x = token_cache[of "w_cached (- 1)" "env_ex 100"]
  have 1: "getAccessToken_amazon (env_ex 100) (w_cached 500) = (Inr ''T'', w_cached 500)"
    using v[THEN conjunct1, rule_format, of "\<lparr>token = ''T'', expiresAt = 500\<rparr>"] valid by simp
  have 2: "getAccessToken_ml (env_ex 100) (w_cached 500) = (Inr ''U'', w_cached 500)"
    using v[THEN conjunct2, THEN conjunct2, THEN conjunct1, rule_format,
            of "\<lparr>token = ''U'', expiresAt = 500, refreshToken = ''R''\<rparr>"] valid by simp
  note a = x[THEN conjunct2, THEN conjunct1, THEN mp, OF expired(1)]
  have 3: "trace (snd (getAccessToken_amazon (env_ex 100) (w_cached (- 1)))) =
     [Fetch (AmazonTokenPost (Some ''rt'') (Some ''id'') (Some ''secret''))]"
    using a[THEN conjunct1] expired(4) env by simp
  have 4: "fst (getAccessToken_amazon (env_ex 100) (w_cached (- 1))) = Inr ''A'' \<and>
      cachedToken (snd (getAccessToken_amazon (env_ex 100) (w_cached (- 1)))) =
        Some \<lparr>token = ''A'', expiresAt = 1000 + (3600 - 300) * 1000\<rparr>"
    using a[THEN conjunct2, rule_format, of "\<lparr>access_token = ''A'', expires_in = 3600\<rparr>"] 3 env
    by simp
  have "\<not> (\<exists>c. cachedMLToken (w_cached (- 1)) = Some c \<and>
              now (env_ex 100) (w_cached (- 1)) < expiresAt c) \<and>
        js_or (map_option refreshToken (cachedMLToken (w_cached (- 1))))
          (ML_REFRESH_TOKEN (env_ex 100)) = Some ''R'' \<and> ''R'' \<noteq> []"
    using expired by simp
  note b = x[THEN conjunct2, THEN conjunct2, THEN conjunct2, THEN spec, THEN mp, OF this]
  have 5: "trace (snd (getAccessToken_ml (env_ex 100) (w_cached (- 1)))) =
     [Fetch (MLTokenPost ''R'' (Some ''mid'') (Some ''msecret''))]"
    using b[THEN conjunct1] expired(4) env by simp
  have 6: "fst (getAccessToken_ml (env_ex 100) (w_cached (- 1))) = Inr ''M'' \<and>
      cachedMLToken (snd (getAccessToken_ml (env_ex 100) (w_cached (- 1)))) =
        Some \<lparr>token = ''M'', expiresAt = 1000 + (3600 - 300) * 1000, refreshToken = ''mrt2''\<rparr>"
    using b[THEN conjunct2, rule_format,
            of "\<lparr>access_token = ''M'', expires_in = 3600, refresh_token = ''mrt2''\<rparr>"] 5 env
    by simp
  from 1 2 3 4 5 6 show ?thesis by simp
qed

section \<open>Reading the quantity of an item of Marketplace B\<close>

text \<open>What \<open>getMLInventory\<close> returns when authentication and the item request succeed.\<close>

lemma getMLInventory_ok:
  assumes "getAccessToken_ml e w = (Inr accessToken, w1)"
      and "ml_item e (length (trace w1)) (MLItemGet itemId accessToken) = Inr (OkJson data)"
  shows "fst (getMLInventory e itemId variationId w) =
           Inr (if truthy variationId \<and> has_elements (variations data) then
                  (case find (\<lambda>v. Some (toString (variation_id v)) = variationId)
                          (elements (variations data)) of
                     Some variation \<Rightarrow> Some (or_zero (variation_available_quantity variation))
                   | None \<Rightarrow> None)
                else Some (or_zero (available_quantity data)))"
  using assms
  by (simp add: getMLInventory_def try_catch_def await_def fetch_def split: option.splits)

text \<open>
  C5. When a variation is requested and the fetched item lists variations, \<open>getMLInventory\<close>
  searches the list for the variation whose identifier, printed in decimal, is the requested
  one; it returns the quantity of the first such variation, and nothing when there is none.
  With the variations \<open>[{id: 1, available_quantity: 5}, {id: 2, available_quantity: 9}]\<close> the
  request for \<open>2\<close> gives 9 and the request for \<open>99\<close> gives nothing.
\<close>

theorem getMLInventory_variation:
  assumes "getAccessToken_ml e w = (Inr accessToken, w1)"
      and "ml_item e (length (trace w1)) (MLItemGet itemId accessToken) = Inr (OkJson data)"
      and "vid \<noteq> []" and "variations data = Some vs" and "vs \<noteq> []"
  shows "fst (getMLInventory e itemId (Some vid) w) =
           Inr (case find (\<lambda>v. toString (variation_id v) = vid) vs of
                  Some variation \<Rightarrow> Some (or_zero (variation_available_quantity variation))
                | None \<Rightarrow> None)"
  using getMLInventory_ok[OF assms(1,2), of "Some vid"] assms(3-5)
  by simp

theorem getMLInventory_variation_witness:
  "fst (getMLInventory (env_item item_ex) ''MLM1'' (Some ''2'') w_ex) = Inr (Some 9) \<and>
   fst (getMLInventory (env_item item_ex) ''MLM1'' (Some ''99'') w_ex) = Inr None"
proof -
  have auth: "getAccessToken_ml (env_item item_ex) w_ex = (Inr ''M'', snd (getAccessToken_ml (env_item item_ex) w_ex))"
    by code_simp
  have resp: "ml_item (env_item item_ex) (length (trace (snd (getAccessToken_ml (env_item item_ex) w_ex)))) (MLItemGet ''MLM1'' ''M'') = Inr (OkJson item_ex)"
    by (simp add: env_item_def)
  have vs: "variations item_ex = Some [\<lparr>variation_id = 1, variation_available_quantity = Some 5\<rparr>,
                                 \<lparr>variation_id = 2, variation_available_quantity = Some 9\<rparr>]"
    by (simp add: item_ex_def)
  have d: "toString 1 = ''1''" "toString 2 = ''2''"
    by code_simp+
  have "fst (getMLInventory (env_item item_ex) ''MLM1'' (Some ''2'') w_ex) = Inr (Some 9)"
    using getMLInventory_variation[OF auth resp _ vs, of "''2''"] d by simp
  moreover have "fst (getMLInventory (env_item item_ex) ''MLM1'' (Some ''99'') w_ex) = Inr None"
    using getMLInventory_variation[OF auth resp _ vs, of "''99''"] d by simp
  ultimately show ?thesis by simp
qed

text \<open>
  C10. When a variation is requested and the fetched item has no list of variations, or an
  empty one, \<open>getMLInventory\<close> does not return nothing: it returns the quantity of the item
  itself, and 0 when the item has no quantity field.
\<close>

theorem getMLInventory_without_variations:
  assumes "getAccessToken_ml e w = (Inr accessToken, w1)"
      and "ml_item e (length (trace w1)) (MLItemGet itemId accessToken) = Inr (OkJson data)"
      and "vid \<noteq> []" and "variations data = None \<or> variations data = Some []"
  shows "fst (getMLInventory e itemId (Some vid) w) = Inr (Some (or_zero (available_quantity data))) \<and>
         (available_quantity data = None \<longrightarrow>
            fst (getMLInventory e itemId (Some vid) w) = Inr (Some 0))"
  using getMLInventory_ok[OF assms(1,2), of "Some vid"] assms(3-4)
  by auto

theorem getMLInventory_without_variations_witness:
  "fst (getMLInventory (env_item (item_ex\<lparr>variations := None\<rparr>)) ''MLM1'' (Some ''2'') w_ex)
     = Inr (Some 14) \<and>
   fst (getMLInventory (env_item \<lparr>available_quantity = None, variations = Some []\<rparr>)
          ''MLM1'' (Some ''2'') w_ex)
     = Inr (Some 0)"
proof -
  let ?plain = "item_ex\<lparr>variations := None\<rparr>"
  let ?empty = "\<lparr>available_quantity = None, variations = Some []\<rparr>"
  have auth1: "getAccessToken_ml (env_item ?plain) w_ex
                 = (Inr ''M'', snd (getAccessToken_ml (env_item ?plain) w_ex))"
    by code_simp
  have auth2: "getAccessToken_ml (env_item ?empty) w_ex
                 = (Inr ''M'', snd (getAccessToken_ml (env_item ?empty) w_ex))"
    by code_simp
  have resp1: "ml_item (env_item ?plain)
                 (length (trace (snd (getAccessToken_ml (env_item ?plain) w_ex))))
                 (MLItemGet ''MLM1'' ''M'') = Inr (OkJson ?plain)"
    by (simp add: env_item_def)
  have resp2: "ml_item (env_item ?empty)
                 (length (trace (snd (getAccessToken_ml (env_item ?empty) w_ex))))
                 (MLItemGet ''MLM1'' ''M'') = Inr (OkJson ?empty)"
    by (simp add: env_item_def)
  have "fst (getMLInventory (env_item ?plain) ''MLM1'' (Some ''2'') w_ex) = Inr (Some 14)"
    using getMLInventory_without_variations[OF auth1 resp1, of "''2''"]
    by (simp add: item_ex_def)
  moreover
  have "fst (getMLInventory (env_item ?empty) ''MLM1'' (Some ''2'') w_ex) = Inr (Some 0)"
    using getMLInventory_without_variations[OF auth2 resp2, of "''2''"]
    by simp
  ultimately show ?thesis
    by simp
qed

section \<open>One product under Variant A\<close>

text \<open>
  The steps of the loop body, in order: the two reads, the two pushes, the database write; the
  detail record that results. Only the database write can throw.
\<close>

lemma syncProduct_A_steps:
  obtains a w1 b w2 ua w3 ub w4 x w5 where
    "currentAmazonQty e p w = (Inr a, w1)"
    "currentMLQty e p w1 = (Inr b, w2)"
    "\<forall>l::ProductResultA. pushAmazon e p (newQty_of p a b) (l, w2) =
       (Inr (), (l\<lparr>amazonUpdated := (if truthy (amazonAsin p) then ua else amazonUpdated l)\<rparr>, w3))"
    "\<forall>l::ProductResultA. pushML e p (newQty_of p a b) (l, w3) =
       (Inr (), (l\<lparr>mlUpdated := (if truthy (mlItemId p) then ub else mlUpdated l)\<rparr>, w4))"
    "product_update e (product_id p)
        \<lparr>set_warehouseQty = Some (newQty_of p a b), set_amazonQty = Some (newQty_of p a b),
         set_mlQty = Some (newQty_of p a b), set_lastSyncAt = Some (now e w4)\<rparr> w4 = (x, w5)"
    "syncProduct_A e p w =
       (\<lparr>r_sku = sku p, amazonUpdated = (truthy (amazonAsin p) \<and> ua),
         mlUpdated = (truthy (mlItemId p) \<and> ub),
         error = (case x of Inl err \<Rightarrow> Some (message_or ''Unknown error'' err) | Inr _ \<Rightarrow> None),
         previousQty = warehouseQty p, newQty = newQty_of p a b,
         amazonSales = max 0 (amazonQty p - a), mlSales = max 0 (mlQty p - b)\<rparr>, w5)"
    "fst (try_block_A e p (initial_result_A p, w)) = (case x of Inl err \<Rightarrow> Inl err | Inr _ \<Rightarrow> Inr ())"
proof -
  obtain a w1 where a: "currentAmazonQty e p w = (Inr a, w1)"
    using currentAmazonQty_returns by blast
  obtain b w2 where b: "currentMLQty e p w1 = (Inr b, w2)"
    using currentMLQty_returns by blast
  obtain ua w3 where ua: "\<forall>l::ProductResultA. pushAmazon e p (newQty_of p a b) (l, w2) =
       (Inr (), (l\<lparr>amazonUpdated := (if truthy (amazonAsin p) then ua else amazonUpdated l)\<rparr>, w3))"
    using pushAmazon_steps[of p e "newQty_of p a b" w2] by blast
  obtain ub w4 where ub: "\<forall>l::ProductResultA. pushML e p (newQty_of p a b) (l, w3) =
       (Inr (), (l\<lparr>mlUpdated := (if truthy (mlItemId p) then ub else mlUpdated l)\<rparr>, w4))"
    using pushML_steps[of p e "newQty_of p a b" w3] by blast
  obtain x w5 where x: "product_update e (product_id p)
        \<lparr>set_warehouseQty = Some (newQty_of p a b), set_amazonQty = Some (newQty_of p a b),
         set_mlQty = Some (newQty_of p a b), set_lastSyncAt = Some (now e w4)\<rparr> w4 = (x, w5)"
    by (cases "product_update e (product_id p)
        \<lparr>set_warehouseQty = Some (newQty_of p a b), set_amazonQty = Some (newQty_of p a b),
         set_mlQty = Some (newQty_of p a b), set_lastSyncAt = Some (now e w4)\<rparr> w4") blast
  have "syncProduct_A e p w =
       (\<lparr>r_sku = sku p, amazonUpdated = (truthy (amazonAsin p) \<and> ua),
         mlUpdated = (truthy (mlItemId p) \<and> ub),
         error = (case x of Inl err \<Rightarrow> Some (message_or ''Unknown error'' err) | Inr _ \<Rightarrow> None),
         previousQty = warehouseQty p, newQty = newQty_of p a b,
         amazonSales = max 0 (amazonQty p - a), mlSales = max 0 (mlQty p - b)\<rparr>, w5)"
    using a b ua ub x
    by (cases x)
       (simp_all add: syncProduct_A_def try_block_A_def Let_def await_Inr await_Inl outer_apply
          try_catch_Inr try_catch_Inl initial_result_A_def newQty_of_def date_now_def)
  moreover have "fst (try_block_A e p (initial_result_A p, w)) =
      (case x of Inl err \<Rightarrow> Inl err | Inr _ \<Rightarrow> Inr ())"
    using a b ua ub x
    by (cases x)
       (simp_all add: try_block_A_def Let_def await_Inr await_Inl outer_apply
          initial_result_A_def newQty_of_def date_now_def)
  ultimately show thesis
    using a b ua ub x that by blast
qed

text \<open>The same, with what the steps before the write leave of the two tables.\<close>

lemma syncProduct_A_summary:
  "\<exists>a w1 b w2 w4 ua ub x.
     currentAmazonQty e p w = (Inr a, w1) \<and> currentMLQty e p w1 = (Inr b, w2) \<and>
     products w4 = products w \<and> syncLogs w4 = syncLogs w \<and>
     product_update e (product_id p)
        \<lparr>set_warehouseQty = Some (newQty_of p a b), set_amazonQty = Some (newQty_of p a b),
         set_mlQty = Some (newQty_of p a b), set_lastSyncAt = Some (now e w4)\<rparr> w4
       = (x, snd (syncProduct_A e p w)) \<and>
     fst (syncProduct_A e p w) =
       \<lparr>r_sku = sku p, amazonUpdated = ua, mlUpdated = ub,
        error = (case x of Inl err \<Rightarrow> Some (message_or ''Unknown error'' err) | Inr _ \<Rightarrow> None),
        previousQty = warehouseQty p, newQty = newQty_of p a b,
        amazonSales = max 0 (amazonQty p - a), mlSales = max 0 (mlQty p - b)\<rparr> \<and>
     fst (try_block_A e p (initial_result_A p, w)) =
       (case x of Inl err \<Rightarrow> Inl err | Inr _ \<Rightarrow> Inr ())"
proof -
  obtain a w1 b w2 ua w3 ub w4 x w5 where
    a: "currentAmazonQty e p w = (Inr a, w1)" and
    b: "currentMLQty e p w1 = (Inr b, w2)" and
    ua: "\<forall>l::ProductResultA. pushAmazon e p (newQty_of p a b) (l, w2) =
       (Inr (), (l\<lparr>amazonUpdated := (if truthy (amazonAsin p) then ua else amazonUpdated l)\<rparr>, w3))" and
    ub: "\<forall>l::ProductResultA. pushML e p (newQty_of p a b) (l, w3) =
       (Inr (), (l\<lparr>mlUpdated := (if truthy (mlItemId p) then ub else mlUpdated l)\<rparr>, w4))" and
    x: "product_update e (product_id p)
        \<lparr>set_warehouseQty = Some (newQty_of p a b), set_amazonQty = Some (newQty_of p a b),
         set_mlQty = Some (newQty_of p a b), set_lastSyncAt = Some (now e w4)\<rparr> w4 = (x, w5)" and
    r: "syncProduct_A e p w =
       (\<lparr>r_sku = sku p, amazonUpdated = (truthy (amazonAsin p) \<and> ua),
         mlUpdated = (truthy (mlItemId p) \<and> ub),
         error = (case x of Inl err \<Rightarrow> Some (message_or ''Unknown error'' err) | Inr _ \<Rightarrow> None),
         previousQty = warehouseQty p, newQty = newQty_of p a b,
         amazonSales = max 0 (amazonQty p - a), mlSales = max 0 (mlQty p - b)\<rparr>, w5)" and
    t: "fst (try_block_A e p (initial_result_A p, w)) =
         (case x of Inl err \<Rightarrow> Inl err | Inr _ \<Rightarrow> Inr ())"
    by (rule syncProduct_A_steps)
  have "products w1 = products w" "syncLogs w1 = syncLogs w"
    using a currentAmazonQty_tables[of e p w] by simp_all
  moreover have "products w2 = products w1" "syncLogs w2 = syncLogs w1"
    using b currentMLQty_tables[of e p w1] by simp_all
  moreover have "products w3 = products w2" "syncLogs w3 = syncLogs w2"
    using ua pushAmazon_world by blast+
  moreover have "products w4 = products w3" "syncLogs w4 = syncLogs w3"
    using ub pushML_world by blast+
  ultimately have "products w4 = products w" "syncLogs w4 = syncLogs w"
    by simp_all
  with a b x r t show ?thesis
    by (intro exI[of _ a] exI[of _ w1] exI[of _ b] exI[of _ w2] exI[of _ w4]
          exI[of _ "truthy (amazonAsin p) \<and> ua"] exI[of _ "truthy (mlItemId p) \<and> ub"] exI[of _ x])
       simp
qed

text \<open>
  The current quantity of a marketplace is the one its client fetched, or the recorded one
  when the client returned nothing or the product is not listed there.
\<close>

lemma getAmazonInventory_ok:
  assumes "getAccessToken_amazon e w = (Inr accessToken, w1)"
      and "amazon_summaries e (length (trace w1)) (AmazonSummariesGet k accessToken) = Inr (OkJson data)"
  shows "fst (getAmazonInventory e k w) =
           Inr (map_option (\<lambda>s. or_zero (totalQuantity s)) (first_summary data))"
  using assms
  by (simp add: getAmazonInventory_def try_catch_def await_def fetch_def split: option.splits)

lemma currentAmazonQty_fetch:
  assumes "currentAmazonQty e p w = (Inr a, w1)"
  shows "\<exists>fa. (if truthy (amazonAsin p) then getAmazonInventory e (sku p) w = (Inr fa, w1)
               else fa = None \<and> w1 = w) \<and>
              a = (case fa of Some q \<Rightarrow> q | None \<Rightarrow> amazonQty p)"
proof (cases "truthy (amazonAsin p)")
  case False
  with assms show ?thesis by (simp add: currentAmazonQty_def)
next
  case True
  obtain fa w' where g: "getAmazonInventory e (sku p) w = (Inr fa, w')"
    using getAmazonInventory_returns by blast
  with True assms have "w1 = w'" "a = (case fa of Some q \<Rightarrow> q | None \<Rightarrow> amazonQty p)"
    by (simp_all add: currentAmazonQty_def await_Inr)
  with True g show ?thesis by simp
qed

lemma currentMLQty_fetch:
  assumes "currentMLQty e p w = (Inr b, w1)"
  shows "\<exists>fb. (case mlItemId p of
                 Some i \<Rightarrow> if i \<noteq> [] then getMLInventory e i None w = (Inr fb, w1)
                           else fb = None \<and> w1 = w
               | None \<Rightarrow> fb = None \<and> w1 = w) \<and>
              b = (case fb of Some q \<Rightarrow> q | None \<Rightarrow> mlQty p)"
proof (cases "mlItemId p")
  case None
  with assms show ?thesis by (simp add: currentMLQty_def)
next
  case (Some i)
  show ?thesis
  proof (cases "i = []")
    case True
    with Some assms show ?thesis by (simp add: currentMLQty_def)
  next
    case False
    obtain fb w' where g: "getMLInventory e i None w = (Inr fb, w')"
      using getMLInventory_returns by blast
    with Some False assms have "w1 = w'" "b = (case fb of Some q \<Rightarrow> q | None \<Rightarrow> mlQty p)"
      by (simp_all add: currentMLQty_def await_Inr)
    with Some False g show ?thesis by simp
  qed
qed

text \<open>
  C1. For every product processed by Variant A: \<open>getAmazonInventory\<close> is called with the SKU
  when the product has an ASIN, then \<open>getMLInventory\<close> with the item id and no variation when
  the product has an item id; \<open>fa\<close> and \<open>fb\<close> are what they return, nothing when no call is
  made. The current quantity of a marketplace is the fetched one, or the recorded one when
  nothing was fetched. The sales of each marketplace are \<open>max 0 (recorded - current)\<close>, the new
  quantity is \<open>max 0 (warehouse - (sales A + sales B))\<close>, and a marketplace whose fetched
  quantity exceeds the recorded one has sales 0. When authentication and the request succeed,
  the fetched quantity is the one in the answer of the marketplace. With 100 recorded
  everywhere, 97 on Marketplace A and 100 on Marketplace B: sales 3 and 0, new quantity 97;
  with 95 on Marketplace B: sales 3 and 5, new quantity 92.
\<close>

theorem variantA_sales:
  "\<exists>fa w1 fb w2.
     (if truthy (amazonAsin p) then getAmazonInventory e (sku p) w = (Inr fa, w1)
      else fa = None \<and> w1 = w) \<and>
     (case mlItemId p of
        Some i \<Rightarrow> if i \<noteq> [] then getMLInventory e i None w1 = (Inr fb, w2)
                  else fb = None \<and> w2 = w1
      | None \<Rightarrow> fb = None \<and> w2 = w1) \<and>
     amazonSales (fst (syncProduct_A e p w)) =
       max 0 (amazonQty p - (case fa of Some current \<Rightarrow> current | None \<Rightarrow> amazonQty p)) \<and>
     mlSales (fst (syncProduct_A e p w)) =
       max 0 (mlQty p - (case fb of Some current \<Rightarrow> current | None \<Rightarrow> mlQty p)) \<and>
     newQty (fst (syncProduct_A e p w)) =
       max 0 (warehouseQty p
              - (amazonSales (fst (syncProduct_A e p w)) + mlSales (fst (syncProduct_A e p w)))) \<and>
     (\<forall>current. fa = Some current \<and> amazonQty p < current \<longrightarrow>
        amazonSales (fst (syncProduct_A e p w)) = 0) \<and>
     (\<forall>current. fb = Some current \<and> mlQty p < current \<longrightarrow>
        mlSales (fst (syncProduct_A e p w)) = 0) \<and>
     (\<forall>accessToken v data.
        truthy (amazonAsin p) \<and> getAccessToken_amazon e w = (Inr accessToken, v) \<and>
        amazon_summaries e (length (trace v)) (AmazonSummariesGet (sku p) accessToken)
          = Inr (OkJson data) \<longrightarrow>
        fa = map_option (\<lambda>s. or_zero (totalQuantity s)) (first_summary data)) \<and>
     (\<forall>i accessToken v data.
        mlItemId p = Some i \<and> i \<noteq> [] \<and> getAccessToken_ml e w1 = (Inr accessToken, v) \<and>
        ml_item e (length (trace v)) (MLItemGet i accessToken) = Inr (OkJson data) \<longrightarrow>
        fb = Some (or_zero (available_quantity data)))"
proof -
  from syncProduct_A_summary[of e p w] obtain a w1 b w2 r where
    a: "currentAmazonQty e p w = (Inr a, w1)" and b: "currentMLQty e p w1 = (Inr b, w2)" and
    r: "fst (syncProduct_A e p w) = r" "amazonSales r = max 0 (amazonQty p - a)"
       "mlSales r = max 0 (mlQty p - b)" "newQty r = newQty_of p a b"
    by (elim exE conjE) simp
  from currentAmazonQty_fetch[OF a] obtain fa where
    fa: "if truthy (amazonAsin p) then getAmazonInventory e (sku p) w = (Inr fa, w1)
         else fa = None \<and> w1 = w"
        "a = (case fa of Some q \<Rightarrow> q | None \<Rightarrow> amazonQty p)"
    by blast
  from currentMLQty_fetch[OF b] obtain fb where
    fb: "case mlItemId p of
           Some i \<Rightarrow> if i \<noteq> [] then getMLInventory e i None w1 = (Inr fb, w2)
                     else fb = None \<and> w2 = w1
         | None \<Rightarrow> fb = None \<and> w2 = w1"
        "b = (case fb of Some q \<Rightarrow> q | None \<Rightarrow> mlQty p)"
    by blast
  let ?r = "fst (syncProduct_A e p w)"
  have s1: "amazonSales ?r =
      max 0 (amazonQty p - (case fa of Some current \<Rightarrow> current | None \<Rightarrow> amazonQty p))"
    using r fa(2) by simp
  have s2: "mlSales ?r =
      max 0 (mlQty p - (case fb of Some current \<Rightarrow> current | None \<Rightarrow> mlQty p))"
    using r fb(2) by simp
  have s3: "newQty ?r = max 0 (warehouseQty p - (amazonSales ?r + mlSales ?r))"
    using r by (simp add: newQty_of_def)
  have i1: "\<forall>current. fa = Some current \<and> amazonQty p < current \<longrightarrow> amazonSales ?r = 0"
    using s1 by auto
  have i2: "\<forall>current. fb = Some current \<and> mlQty p < current \<longrightarrow> mlSales ?r = 0"
    using s2 by auto
  have ra: "\<forall>accessToken v data.
        truthy (amazonAsin p) \<and> getAccessToken_amazon e w = (Inr accessToken, v) \<and>
        amazon_summaries e (length (trace v)) (AmazonSummariesGet (sku p) accessToken)
          = Inr (OkJson data) \<longrightarrow>
        fa = map_option (\<lambda>s. or_zero (totalQuantity s)) (first_summary data)"
  proof (intro allI impI, elim conjE)
    fix accessToken v data
    assume that: "truthy (amazonAsin p)" "getAccessToken_amazon e w = (Inr accessToken, v)"
       "amazon_summaries e (length (trace v)) (AmazonSummariesGet (sku p) accessToken)
          = Inr (OkJson data)"
    from getAmazonInventory_ok[OF that(2,3)] fa(1) that(1)
    show "fa = map_option (\<lambda>s. or_zero (totalQuantity s)) (first_summary data)" by simp
  qed
  have rb: "\<forall>i accessToken v data.
        mlItemId p = Some i \<and> i \<noteq> [] \<and> getAccessToken_ml e w1 = (Inr accessToken, v) \<and>
        ml_item e (length (trace v)) (MLItemGet i accessToken) = Inr (OkJson data) \<longrightarrow>
        fb = Some (or_zero (available_quantity data))"
  proof (intro allI impI, elim conjE)
    fix i accessToken v data
    assume that: "mlItemId p = Some i" "i \<noteq> []" "getAccessToken_ml e w1 = (Inr accessToken, v)"
       "ml_item e (length (trace v)) (MLItemGet i accessToken) = Inr (OkJson data)"
    from getMLInventory_ok[OF that(3,4), of None] fb(1) that(1,2)
    show "fb = Some (or_zero (available_quantity data))" by simp
  qed
  show ?thesis
    apply (rule exI[of _ fa], rule exI[of _ w1], rule exI[of _ fb], rule exI[of _ w2])
    apply (intro conjI)
            apply (rule fa(1))
           apply (rule fb(1))
          apply (rule s1)
         apply (rule s2)
        apply (rule s3)
       apply (rule i1)
      apply (rule i2)
     apply (rule ra)
    apply (rule rb)
    done
qed

theorem variantA_sales_witness:
  "amazonSales (fst (syncProduct_A (env_ex 100) p_ex w_ex)) = 3 \<and>
   mlSales (fst (syncProduct_A (env_ex 100) p_ex w_ex)) = 0 \<and>
   newQty (fst (syncProduct_A (env_ex 100) p_ex w_ex)) = 97 \<and>
   amazonSales (fst (syncProduct_A (env_ex 95) p_ex w_ex)) = 3 \<and>
   mlSales (fst (syncProduct_A (env_ex 95) p_ex w_ex)) = 5 \<and>
   newQty (fst (syncProduct_A (env_ex 95) p_ex w_ex)) = 92 \<and>
   mlQty p_ex < 105 \<and> mlSales (fst (syncProduct_A (env_ex 105) p_ex w_ex)) = 0"
proof -
  have p: "amazonQty p_ex = 100" "mlQty p_ex = 100" "warehouseQty p_ex = 100"
    "truthy (amazonAsin p_ex)" "mlItemId p_ex = Some ''MLM1''" "sku p_ex = ''S1''"
    by (simp_all add: p_ex_def)
  have run: "amazonSales (fst (syncProduct_A (env_ex q) p_ex w_ex)) = 3 \<and>
        mlSales (fst (syncProduct_A (env_ex q) p_ex w_ex)) = max 0 (100 - q) \<and>
        newQty (fst (syncProduct_A (env_ex q) p_ex w_ex)) = max 0 (100 - (3 + max 0 (100 - q)))" for q
  proof -
    let ?e = "env_ex q"
    from variantA_sales[of p_ex ?e w_ex] obtain fa w1 fb w2 where
      f: "getAmazonInventory ?e ''S1'' w_ex = (Inr fa, w1)"
         "getMLInventory ?e ''MLM1'' None w1 = (Inr fb, w2)" and
      s: "amazonSales (fst (syncProduct_A ?e p_ex w_ex)) =
            max 0 (amazonQty p_ex - (case fa of Some current \<Rightarrow> current | None \<Rightarrow> amazonQty p_ex))"
         "mlSales (fst (syncProduct_A ?e p_ex w_ex)) =
            max 0 (mlQty p_ex - (case fb of Some current \<Rightarrow> current | None \<Rightarrow> mlQty p_ex))"
         "newQty (fst (syncProduct_A ?e p_ex w_ex)) =
            max 0 (warehouseQty p_ex
              - (amazonSales (fst (syncProduct_A ?e p_ex w_ex)) + mlSales (fst (syncProduct_A ?e p_ex w_ex))))"
      using p by (elim exE conjE) simp
    have "fst (getAmazonInventory ?e ''S1'' w_ex) = Inr (Some 97)"
      by (simp add: getAmazonInventory_def getAccessToken_amazon_def cached_if_valid_def
            try_catch_def await_def fetch_def env_ex_def w_ex_def)
    with f have fa: "fa = Some 97" by simp
    have "fst (getMLInventory ?e ''MLM1'' None v) = Inr (Some q)" for v
      by (auto simp: getMLInventory_def getAccessToken_ml_def cached_if_valid_def js_or_def
            try_catch_def await_def fetch_def env_ex_def split: option.splits)
    with f have fb: "fb = Some q" by (metis fst_conv sum.inject(2))
    from s fa fb p show ?thesis by simp
  qed
  from run[of 100] run[of 95] run[of 105] p show ?thesis by simp
qed

text \<open>
  C9. The database write at the end of a product's processing under Variant A is issued
  whatever the two pushes returned, and carries the new quantity for the warehouse and for
  both marketplace fields, with the time of the write; the marketplace steps before it leave
  the product table untouched. When the write succeeds, the rows of this identifier hold the
  new quantity in all three fields, so a marketplace field is overwritten with the pushed value
  also when the push to that marketplace was refused.
\<close>

theorem variantA_write_unconditional:
  "\<exists>w4 x.
     products w4 = products w \<and>
     product_update e (product_id p)
       \<lparr>set_warehouseQty = Some (newQty (fst (syncProduct_A e p w))),
        set_amazonQty = Some (newQty (fst (syncProduct_A e p w))),
        set_mlQty = Some (newQty (fst (syncProduct_A e p w))),
        set_lastSyncAt = Some (now e w4)\<rparr> w4 = (x, snd (syncProduct_A e p w)) \<and>
     trace (snd (syncProduct_A e p w)) = trace w4 @
       [Db (ProductUpdate (product_id p)
          \<lparr>set_warehouseQty = Some (newQty (fst (syncProduct_A e p w))),
           set_amazonQty = Some (newQty (fst (syncProduct_A e p w))),
           set_mlQty = Some (newQty (fst (syncProduct_A e p w))),
           set_lastSyncAt = Some (now e w4)\<rparr>)] \<and>
     (error (fst (syncProduct_A e p w)) = None \<longrightarrow>
        products (snd (syncProduct_A e p w)) =
          map (\<lambda>row. if product_id row = product_id p
                      then row\<lparr>warehouseQty := newQty (fst (syncProduct_A e p w)),
                               amazonQty := newQty (fst (syncProduct_A e p w)),
                               mlQty := newQty (fst (syncProduct_A e p w)),
                               lastSyncAt := Some (now e w4)\<rparr>
                      else row) (products w))"
proof -
  obtain a w1 b w2 ua w3 ub w4 x w5 where
    a: "currentAmazonQty e p w = (Inr a, w1)" and
    b: "currentMLQty e p w1 = (Inr b, w2)" and
    ua: "\<forall>l::ProductResultA. pushAmazon e p (newQty_of p a b) (l, w2) =
       (Inr (), (l\<lparr>amazonUpdated := (if truthy (amazonAsin p) then ua else amazonUpdated l)\<rparr>, w3))" and
    ub: "\<forall>l::ProductResultA. pushML e p (newQty_of p a b) (l, w3) =
       (Inr (), (l\<lparr>mlUpdated := (if truthy (mlItemId p) then ub else mlUpdated l)\<rparr>, w4))" and
    x: "product_update e (product_id p)
        \<lparr>set_warehouseQty = Some (newQty_of p a b), set_amazonQty = Some (newQty_of p a b),
         set_mlQty = Some (newQty_of p a b), set_lastSyncAt = Some (now e w4)\<rparr> w4 = (x, w5)" and
    r: "syncProduct_A e p w =
       (\<lparr>r_sku = sku p, amazonUpdated = (truthy (amazonAsin p) \<and> ua),
         mlUpdated = (truthy (mlItemId p) \<and> ub),
         error = (case x of Inl err \<Rightarrow> Some (message_or ''Unknown error'' err) | Inr _ \<Rightarrow> None),
         previousQty = warehouseQty p, newQty = newQty_of p a b,
         amazonSales = max 0 (amazonQty p - a), mlSales = max 0 (mlQty p - b)\<rparr>, w5)"
    by (rule syncProduct_A_steps)
  have "products w1 = products w"
    using a currentAmazonQty_tables(1)[of e p w] by simp
  moreover have "products w2 = products w1"
    using b currentMLQty_tables(1)[of e p w1] by simp
  moreover have "products w3 = products w2"
    using ua pushAmazon_world(1) by blast
  moreover have "products w4 = products w3"
    using ub pushML_world(1) by blast
  ultimately have w4: "products w4 = products w" by simp
  let ?d = "\<lparr>set_warehouseQty = Some (newQty_of p a b), set_amazonQty = Some (newQty_of p a b),
         set_mlQty = Some (newQty_of p a b), set_lastSyncAt = Some (now e w4)\<rparr>"
  have "trace (snd (product_update e (product_id p) ?d w4)) =
          trace w4 @ [Db (ProductUpdate (product_id p) ?d)]"
    by (rule product_update_trace)
  with x have tr: "trace w5 = trace w4 @ [Db (ProductUpdate (product_id p) ?d)]"
    by simp
  have "products w5 = map (\<lambda>row. if product_id row = product_id p
                      then row\<lparr>warehouseQty := newQty_of p a b, amazonQty := newQty_of p a b,
                               mlQty := newQty_of p a b, lastSyncAt := Some (now e w4)\<rparr>
                      else row) (products w)" if "\<exists>y. x = Inr y"
  proof -
    from that obtain y where "x = Inr y" by blast
    with x have "product_update e (product_id p) ?d w4 = (Inr y, w5)" by simp
    from product_update_Inr[OF this] w4
    show ?thesis by (simp add: apply_update_def)
  qed
  then have "error (fst (syncProduct_A e p w)) = None \<longrightarrow> products w5 = map (\<lambda>row. if product_id row = product_id p
                      then row\<lparr>warehouseQty := newQty_of p a b, amazonQty := newQty_of p a b,
                               mlQty := newQty_of p a b, lastSyncAt := Some (now e w4)\<rparr>
                      else row) (products w)"
    using r by (cases x) simp_all
  with w4 x tr r show ?thesis
    by (intro exI[of _ w4] exI[of _ x]) simp
qed

theorem variantA_write_unconditional_witness:
  "mlUpdated (fst (syncProduct_A (env_ex 100) p_ex w_ex)) = False \<and>
   error (fst (syncProduct_A (env_ex 100) p_ex w_ex)) = None \<and>
   map mlQty (products (snd (syncProduct_A (env_ex 100) p_ex w_ex))) = [97] \<and>
   map amazonQty (products (snd (syncProduct_A (env_ex 100) p_ex w_ex))) = [97] \<and>
   map warehouseQty (products (snd (syncProduct_A (env_ex 100) p_ex w_ex))) = [97]"
proof -
  have r: "mlUpdated (fst (syncProduct_A (env_ex 100) p_ex w_ex)) = False"
       "error (fst (syncProduct_A (env_ex 100) p_ex w_ex)) = None"
       "newQty (fst (syncProduct_A (env_ex 100) p_ex w_ex)) = 97"
    by code_simp+
  have w: "products w_ex = [p_ex]" "product_id p_ex = ''1''"
    by (simp_all add: w_ex_def p_ex_def)
  from variantA_write_unconditional[where w = w_ex and e = "env_ex 100" and p = p_ex] r w
  show ?thesis by auto
qed

text \<open>The error string of a product is that of its database write.\<close>

lemma syncProduct_A_error:
  "\<exists>d w4 x. product_update e (product_id p) d w4 = (x, snd (syncProduct_A e p w)) \<and>
     error (fst (syncProduct_A e p w)) =
       (case x of Inl err \<Rightarrow> Some (message_or ''Unknown error'' err) | Inr _ \<Rightarrow> None)"
proof -
  obtain a b w4 x w5 r where
    "product_update e (product_id p)
        \<lparr>set_warehouseQty = Some (newQty_of p a b), set_amazonQty = Some (newQty_of p a b),
         set_mlQty = Some (newQty_of p a b), set_lastSyncAt = Some (now e w4)\<rparr> w4 = (x, w5)"
    "syncProduct_A e p w = (r, w5)"
    "error r = (case x of Inl err \<Rightarrow> Some (message_or ''Unknown error'' err) | Inr _ \<Rightarrow> None)"
    by (rule syncProduct_A_steps[of e p w]) simp
  then show ?thesis by fastforce
qed

text \<open>
  C2, as the code has it. When authentication fails inside \<open>getInventory\<close> or
  \<open>updateInventory\<close>, the error thrown by \<open>getAccessToken\<close> is caught inside that call: the read
  returns nothing and the write returns false, in the state \<open>getAccessToken\<close> left. The
  reconciliation loop then takes the recorded quantity as the current one, and the error
  string of a product records a failure of its database write and nothing else.
\<close>

theorem auth_failure_is_swallowed:
  "(getAccessToken_amazon e w = (Inl err, w') \<longrightarrow>
      getAmazonInventory e k w = (Inr None, w') \<and>
      updateAmazonInventory e k q w = (Inr False, w') \<and>
      fst (currentAmazonQty e p w) = Inr (amazonQty p)) \<and>
   (getAccessToken_ml e w = (Inl err, w') \<longrightarrow>
      getMLInventory e k v w = (Inr None, w') \<and>
      updateMLInventory e k q v w = (Inr False, w') \<and>
      fst (currentMLQty e p w) = Inr (mlQty p)) \<and>
   (\<exists>d w4 x. product_update e (product_id p) d w4 = (x, snd (syncProduct_A e p w)) \<and>
      error (fst (syncProduct_A e p w)) =
        (case x of Inl err \<Rightarrow> Some (message_or ''Unknown error'' err) | Inr _ \<Rightarrow> None))"
proof (intro conjI impI)
  assume a: "getAccessToken_amazon e w = (Inl err, w')"
  then show "getAmazonInventory e k w = (Inr None, w')"
    by (simp add: getAmazonInventory_def try_catch_def await_def)
  from a show "updateAmazonInventory e k q w = (Inr False, w')"
    by (simp add: updateAmazonInventory_def try_catch_def await_def)
  from a show "fst (currentAmazonQty e p w) = Inr (amazonQty p)"
    by (simp add: currentAmazonQty_def getAmazonInventory_def try_catch_def await_def)
next
  assume a: "getAccessToken_ml e w = (Inl err, w')"
  then show "getMLInventory e k v w = (Inr None, w')"
    by (simp add: getMLInventory_def try_catch_def await_def)
  from a show "updateMLInventory e k q v w = (Inr False, w')"
    by (simp add: updateMLInventory_def try_catch_def await_def)
  from a show "fst (currentMLQty e p w) = Inr (mlQty p)"
    by (simp add: currentMLQty_def getMLInventory_def try_catch_def await_def split: option.splits)
next
  show "\<exists>d w4 x. product_update e (product_id p) d w4 = (x, snd (syncProduct_A e p w)) \<and>
      error (fst (syncProduct_A e p w)) =
        (case x of Inl err \<Rightarrow> Some (message_or ''Unknown error'' err) | Inr _ \<Rightarrow> None)"
    by (rule syncProduct_A_error)
qed

theorem auth_failure_is_swallowed_witness:
  "getAccessToken_ml env_noauth w_ex =
     (Inl (Error ''No ML refresh token available. Please authorize the app first.''), w_ex) \<and>
   getMLInventory env_noauth ''MLM1'' None w_ex = (Inr None, w_ex) \<and>
   updateMLInventory env_noauth ''MLM1'' 97 None w_ex = (Inr False, w_ex) \<and>
   fst (currentMLQty env_noauth p_ex w_ex) = Inr 100"
proof -
  have a: "getAccessToken_ml env_noauth w_ex =
     (Inl (Error ''No ML refresh token available. Please authorize the app first.''), w_ex)"
    by (simp add: getAccessToken_ml_def env_noauth_def env_ex_def w_ex_def cached_if_valid_def js_or_def)
  from auth_failure_is_swallowed[where e = env_noauth and w = w_ex and w' = w_ex and k = "''MLM1''"
       and q = 97 and v = None and p = p_ex
       and err = "Error ''No ML refresh token available. Please authorize the app first.''"] a
  show ?thesis by (simp add: p_ex_def)
qed

text \<open>
  Without a refresh credential for Marketplace B, \<open>getAccessToken\<close> throws, yet the read
  returns nothing, the write returns false, and the product is reconciled with no error
  string and no sales on Marketplace B: the error does not propagate.
\<close>

theorem auth_error_not_propagated:
  "fst (getAccessToken_ml env_noauth w_ex) =
     Inl (Error ''No ML refresh token available. Please authorize the app first.'') \<and>
   fst (getMLInventory env_noauth ''MLM1'' None w_ex) = Inr None \<and>
   fst (updateMLInventory env_noauth ''MLM1'' 97 None w_ex) = Inr False \<and>
   error (fst (syncProduct_A env_noauth p_ex w_ex)) = None \<and>
   mlSales (fst (syncProduct_A env_noauth p_ex w_ex)) = 0"
  by code_simp

section \<open>A batch under Variant A\<close>

lemma syncProduct_A_sku: "r_sku (fst (syncProduct_A e p w)) = sku p"
  using syncProduct_A_summary[of e p w] by (elim exE conjE) simp







lemma for_of_A_skus: "map r_sku (fst (for_of (syncProduct_A e) ps w)) = map sku ps"
  by (induction ps arbitrary: w) (simp_all add: for_of_Cons syncProduct_A_sku del: for_of.simps(2))








section \<open>Variant B\<close>

lemma syncProduct_B_steps:
  obtains a w1 b w2 ua w3 ub w4 x w5 where
    "currentAmazonQty e p w = (Inr a, w1)"
    "currentMLQty e p w1 = (Inr b, w2)"
    "\<forall>l::ProductResultB. pushAmazon e p (warehouseQty p) (l, w2) =
       (Inr (), (l\<lparr>amazonUpdated := (if truthy (amazonAsin p) then ua else amazonUpdated l)\<rparr>, w3))"
    "\<forall>l::ProductResultB. pushML e p (warehouseQty p) (l, w3) =
       (Inr (), (l\<lparr>mlUpdated := (if truthy (mlItemId p) then ub else mlUpdated l)\<rparr>, w4))"
    "product_update e (product_id p)
        \<lparr>set_warehouseQty = None, set_amazonQty = Some a,
         set_mlQty = Some b, set_lastSyncAt = Some (now e w4)\<rparr> w4 = (x, w5)"
    "syncProduct_B e p w =
       (\<lparr>r_sku = sku p, amazonUpdated = (truthy (amazonAsin p) \<and> ua),
         mlUpdated = (truthy (mlItemId p) \<and> ub),
         error = (case x of Inl err \<Rightarrow> Some (message_or ''Unknown error'' err) | Inr _ \<Rightarrow> None)\<rparr>, w5)"
proof -
  obtain a w1 where a: "currentAmazonQty e p w = (Inr a, w1)"
    using currentAmazonQty_returns by blast
  obtain b w2 where b: "currentMLQty e p w1 = (Inr b, w2)"
    using currentMLQty_returns by blast
  obtain ua w3 where ua: "\<forall>l::ProductResultB. pushAmazon e p (warehouseQty p) (l, w2) =
       (Inr (), (l\<lparr>amazonUpdated := (if truthy (amazonAsin p) then ua else amazonUpdated l)\<rparr>, w3))"
    using pushAmazon_steps[where p = p and e = e and q = "warehouseQty p" and w = w2] by blast
  obtain ub w4 where ub: "\<forall>l::ProductResultB. pushML e p (warehouseQty p) (l, w3) =
       (Inr (), (l\<lparr>mlUpdated := (if truthy (mlItemId p) then ub else mlUpdated l)\<rparr>, w4))"
    using pushML_steps[where p = p and e = e and q = "warehouseQty p" and w = w3] by blast
  obtain x w5 where x: "product_update e (product_id p)
        \<lparr>set_warehouseQty = None, set_amazonQty = Some a,
         set_mlQty = Some b, set_lastSyncAt = Some (now e w4)\<rparr> w4 = (x, w5)"
    by (cases "product_update e (product_id p)
        \<lparr>set_warehouseQty = None, set_amazonQty = Some a,
         set_mlQty = Some b, set_lastSyncAt = Some (now e w4)\<rparr> w4") blast
  have "syncProduct_B e p w =
       (\<lparr>r_sku = sku p, amazonUpdated = (truthy (amazonAsin p) \<and> ua),
         mlUpdated = (truthy (mlItemId p) \<and> ub),
         error = (case x of Inl err \<Rightarrow> Some (message_or ''Unknown error'' err) | Inr _ \<Rightarrow> None)\<rparr>, w5)"
    using a b ua ub x
    by (cases x)
       (simp_all add: syncProduct_B_def try_block_B_def Let_def await_Inr await_Inl outer_apply
          try_catch_Inr try_catch_Inl initial_result_B_def date_now_def)
  with a b ua ub x that show thesis by blast
qed

lemma syncProduct_B_summary:
  "\<exists>a w1 b w2 w4 ua ub x.
     currentAmazonQty e p w = (Inr a, w1) \<and> currentMLQty e p w1 = (Inr b, w2) \<and>
     products w4 = products w \<and> syncLogs w4 = syncLogs w \<and>
     product_update e (product_id p)
        \<lparr>set_warehouseQty = None, set_amazonQty = Some a,
         set_mlQty = Some b, set_lastSyncAt = Some (now e w4)\<rparr> w4
       = (x, snd (syncProduct_B e p w)) \<and>
     fst (syncProduct_B e p w) =
       \<lparr>r_sku = sku p, amazonUpdated = ua, mlUpdated = ub,
        error = (case x of Inl err \<Rightarrow> Some (message_or ''Unknown error'' err) | Inr _ \<Rightarrow> None)\<rparr>"
proof -
  obtain a w1 b w2 ua w3 ub w4 x w5 where
    a: "currentAmazonQty e p w = (Inr a, w1)" and
    b: "currentMLQty e p w1 = (Inr b, w2)" and
    ua: "\<forall>l::ProductResultB. pushAmazon e p (warehouseQty p) (l, w2) =
       (Inr (), (l\<lparr>amazonUpdated := (if truthy (amazonAsin p) then ua else amazonUpdated l)\<rparr>, w3))" and
    ub: "\<forall>l::ProductResultB. pushML e p (warehouseQty p) (l, w3) =
       (Inr (), (l\<lparr>mlUpdated := (if truthy (mlItemId p) then ub else mlUpdated l)\<rparr>, w4))" and
    x: "product_update e (product_id p)
        \<lparr>set_warehouseQty = None, set_amazonQty = Some a,
         set_mlQty = Some b, set_lastSyncAt = Some (now e w4)\<rparr> w4 = (x, w5)" and
    r: "syncProduct_B e p w =
       (\<lparr>r_sku = sku p, amazonUpdated = (truthy (amazonAsin p) \<and> ua),
         mlUpdated = (truthy (mlItemId p) \<and> ub),
         error = (case x of Inl err \<Rightarrow> Some (message_or ''Unknown error'' err) | Inr _ \<Rightarrow> None)\<rparr>, w5)"
    by (rule syncProduct_B_steps)
  have "products w1 = products w" "syncLogs w1 = syncLogs w"
    using a currentAmazonQty_tables[of e p w] by simp_all
  moreover have "products w2 = products w1" "syncLogs w2 = syncLogs w1"
    using b currentMLQty_tables[of e p w1] by simp_all
  moreover have "products w3 = products w2" "syncLogs w3 = syncLogs w2"
    using ua pushAmazon_world by blast+
  moreover have "products w4 = products w3" "syncLogs w4 = syncLogs w3"
    using ub pushML_world by blast+
  ultimately have "products w4 = products w" "syncLogs w4 = syncLogs w"
    by simp_all
  with a b x r show ?thesis
    by (intro exI[of _ a] exI[of _ w1] exI[of _ b] exI[of _ w2] exI[of _ w4]
          exI[of _ "truthy (amazonAsin p) \<and> ua"] exI[of _ "truthy (mlItemId p) \<and> ub"] exI[of _ x])
       simp
qed

lemma syncProduct_B_sku: "r_sku (fst (syncProduct_B e p w)) = sku p"
  using syncProduct_B_summary[of e p w] by (elim exE conjE) simp

lemma for_of_B_skus: "map r_sku (fst (for_of (syncProduct_B e) ps w)) = map sku ps"
  by (induction ps arbitrary: w) (simp_all add: for_of_Cons syncProduct_B_sku del: for_of.simps(2))

lemma syncProduct_B_emits:
  assumes "list_ex (\<lambda>q. configuration q = configuration p) ps"
  shows "\<exists>evs. trace (snd (syncProduct_B e p w)) = trace w @ evs \<and>
           list_all (variantB_event_ok ps) evs"
proof -
  obtain a w1 b w2 ua w3 ub w4 x w5 where
    a: "currentAmazonQty e p w = (Inr a, w1)" and
    b: "currentMLQty e p w1 = (Inr b, w2)" and
    ua: "\<forall>l::ProductResultB. pushAmazon e p (warehouseQty p) (l, w2) =
       (Inr (), (l\<lparr>amazonUpdated := (if truthy (amazonAsin p) then ua else amazonUpdated l)\<rparr>, w3))" and
    ub: "\<forall>l::ProductResultB. pushML e p (warehouseQty p) (l, w3) =
       (Inr (), (l\<lparr>mlUpdated := (if truthy (mlItemId p) then ub else mlUpdated l)\<rparr>, w4))" and
    x: "product_update e (product_id p)
        \<lparr>set_warehouseQty = None, set_amazonQty = Some a,
         set_mlQty = Some b, set_lastSyncAt = Some (now e w4)\<rparr> w4 = (x, w5)" and
    r: "syncProduct_B e p w =
       (\<lparr>r_sku = sku p, amazonUpdated = (truthy (amazonAsin p) \<and> ua),
         mlUpdated = (truthy (mlItemId p) \<and> ub),
         error = (case x of Inl err \<Rightarrow> Some (message_or ''Unknown error'' err) | Inr _ \<Rightarrow> None)\<rparr>, w5)"
    by (rule syncProduct_B_steps)
  let ?Q = "variantB_event_ok ps"
  have pa: "?Q (Fetch (AmazonSkuQuantitiesPut (sku p) (warehouseQty p) t))" if "truthy (amazonAsin p)" for t
    using assms that by (auto simp: list_ex_iff configuration_def)
  have pm: "?Q (Fetch (MLItemPut i (AvailableQuantity (warehouseQty p)) t))" if "mlItemId p = Some i" for t i
    using assms that by (auto simp: list_ex_iff configuration_def)
  obtain e1 where e1: "trace w1 = trace w @ e1" "list_all ?Q e1"
    using currentAmazonQty_emits[of ?Q e p w] a by auto
  obtain e2 where e2: "trace w2 = trace w1 @ e2" "list_all ?Q e2"
    using currentMLQty_emits[of ?Q e p w1] b by auto
  obtain e3 where e3: "trace w3 = trace w2 @ e3" "list_all ?Q e3"
    using pushAmazon_emits[of ?Q p "warehouseQty p" e "initial_result_B p" w2] pa ua by auto
  obtain e4 where e4: "trace w4 = trace w3 @ e4" "list_all ?Q e4"
    using pushML_emits[of ?Q p "warehouseQty p" e "initial_result_B p" w3] pm ub by auto
  let ?d = "\<lparr>set_warehouseQty = None, set_amazonQty = Some a,
         set_mlQty = Some b, set_lastSyncAt = Some (now e w4)\<rparr>"
  have "trace (snd (product_update e (product_id p) ?d w4)) = trace w4 @ [Db (ProductUpdate (product_id p) ?d)]"
    by (rule product_update_trace)
  with x have e5: "trace w5 = trace w4 @ [Db (ProductUpdate (product_id p) ?d)]" by simp
  show ?thesis
    using e1 e2 e3 e4 e5 r
    by (intro exI[of _ "e1 @ e2 @ e3 @ e4 @ [Db (ProductUpdate (product_id p) ?d)]"]) simp
qed

lemma syncProduct_B_world:
  "map configuration (products (snd (syncProduct_B e p w))) = map configuration (products w)"
  "syncLogs (snd (syncProduct_B e p w)) = syncLogs w"
proof -
  from syncProduct_B_summary[of e p w] obtain a b x w4 where
    w4: "products w4 = products w" "syncLogs w4 = syncLogs w" and
    x: "product_update e (product_id p)
        \<lparr>set_warehouseQty = None, set_amazonQty = Some a,
         set_mlQty = Some b, set_lastSyncAt = Some (now e w4)\<rparr> w4
       = (x, snd (syncProduct_B e p w))"
    by (elim exE conjE)
  let ?d = "\<lparr>set_warehouseQty = None, set_amazonQty = Some a,
         set_mlQty = Some b, set_lastSyncAt = Some (now e w4)\<rparr>"
  have "map configuration (products (snd (product_update e (product_id p) ?d w4))) =
          map configuration (products w4)"
    by (rule product_update_configuration) simp
  with x w4 show "map configuration (products (snd (syncProduct_B e p w))) = map configuration (products w)"
    by simp
  from x w4 product_update_logs[of e "product_id p" ?d w4]
  show "syncLogs (snd (syncProduct_B e p w)) = syncLogs w" by simp
qed

lemma syncProduct_B_error:
  assumes "\<forall>n m i d d'. db_failure e n (ProductUpdate i d) = db_failure e m (ProductUpdate i d')"
      and "list_ex (\<lambda>q. product_id q = product_id p) (products w)"
  shows "error (fst (syncProduct_B e p w)) =
           map_option (message_or ''Unknown error'') (db_failure e 0 (ProductUpdate (product_id p) no_write))"
proof -
  from syncProduct_B_summary[of e p w] obtain a b x w4 ua ub where
    w4: "products w4 = products w" and
    x: "product_update e (product_id p)
        \<lparr>set_warehouseQty = None, set_amazonQty = Some a,
         set_mlQty = Some b, set_lastSyncAt = Some (now e w4)\<rparr> w4
       = (x, snd (syncProduct_B e p w))" and
    r: "fst (syncProduct_B e p w) =
       \<lparr>r_sku = sku p, amazonUpdated = ua, mlUpdated = ub,
        error = (case x of Inl err \<Rightarrow> Some (message_or ''Unknown error'' err) | Inr _ \<Rightarrow> None)\<rparr>"
    by (elim exE conjE)
  let ?d = "\<lparr>set_warehouseQty = None, set_amazonQty = Some a,
         set_mlQty = Some b, set_lastSyncAt = Some (now e w4)\<rparr>"
  have f: "db_failure e (length (trace w4)) (ProductUpdate (product_id p) ?d) =
        db_failure e 0 (ProductUpdate (product_id p) no_write)"
    using assms(1) by blast
  from assms(2) w4 obtain q where "find (\<lambda>q. product_id q = product_id p) (products w4) = Some q"
    by (cases "find (\<lambda>q. product_id q = product_id p) (products w4)")
       (auto simp: list_ex_iff find_None_iff)
  with x f have "x = (case db_failure e 0 (ProductUpdate (product_id p) no_write) of
                      Some err \<Rightarrow> Inl err | None \<Rightarrow> Inr (apply_update ?d q))"
    by (auto simp: product_update_def prisma_def Let_def split: option.splits)
  with r show ?thesis by (simp split: option.splits)
qed

lemma variantB_event_ok_cong:
  assumes "map configuration ps = map configuration ps'"
  shows "variantB_event_ok ps ev = variantB_event_ok ps' ev"
proof -
  have s: "configuration ` set ps = configuration ` set ps'"
    using assms by (metis set_map)
  have *: "list_ex (\<lambda>p. P (configuration p)) ps = list_ex (\<lambda>p. P (configuration p)) ps'" for P
  proof -
    have "list_ex (\<lambda>p. P (configuration p)) xs = (\<exists>c \<in> configuration ` set xs. P c)" for xs
      by (auto simp: list_ex_iff)
    then show ?thesis by (simp only: s)
  qed
  have a: "list_ex (\<lambda>p. sku p = k \<and> warehouseQty p = q \<and> truthy (amazonAsin p)) xs =
           list_ex (\<lambda>p. (\<lambda>(i, s, n, w, a, m). s = k \<and> w = q \<and> truthy a) (configuration p)) xs" for k q xs
    by (simp add: configuration_def)
  have b: "list_ex (\<lambda>p. mlItemId p = Some i \<and> b = AvailableQuantity (warehouseQty p)) xs =
           list_ex (\<lambda>p. (\<lambda>(i', s, n, w, a, m). m = Some i \<and> b = AvailableQuantity w) (configuration p)) xs" for i b xs
    by (simp add: configuration_def)
  show ?thesis
  proof (cases ev)
    case (Fetch r)
    then show ?thesis
      by (cases r) (simp_all add: a b *)
  next
    case (Db c)
    then show ?thesis by (cases c) simp_all
  qed
qed

text \<open>The requests one product causes, and the write requests among them.\<close>

lemma is_amazon_push_iff:
  "is_amazon_push p ev = (\<exists>t. ev = Fetch (AmazonSkuQuantitiesPut (sku p) (warehouseQty p) t))"
proof (cases ev)
  case (Fetch r)
  then show ?thesis by (cases r) auto
next
  case (Db c)
  then show ?thesis by simp
qed

lemma is_ml_push_iff:
  "is_ml_push p ev =
     (\<exists>i t. mlItemId p = Some i \<and> ev = Fetch (MLItemPut i (AvailableQuantity (warehouseQty p)) t))"
proof (cases ev)
  case (Fetch r)
  then show ?thesis by (cases r) auto
next
  case (Db c)
  then show ?thesis by simp
qed

lemma all_pushed_cong:
  assumes "map configuration ps = map configuration ps'"
  shows "all_pushed ps evs = all_pushed ps' evs"
proof -
  let ?P = "\<lambda>p. (truthy (amazonAsin p) \<longrightarrow> list_ex (is_amazon_push p) evs) \<and>
                (truthy (mlItemId p) \<longrightarrow> list_ex (is_ml_push p) evs)"
  have c: "?P p = ?P p'" if "configuration p = configuration p'" for p p'
    using that by (simp add: configuration_def is_amazon_push_iff is_ml_push_iff list_ex_iff)
  from assms have "list_all2 (\<lambda>p p'. configuration p = configuration p') ps ps'"
    by (simp add: list_all2_conv_all_nth map_equality_iff)
  then have "list_all ?P ps = list_all ?P ps'"
  proof (induction rule: list_all2_induct)
    case Nil
    then show ?case by simp
  next
    case (Cons x xs y ys)
    with c[of x y] show ?case by simp
  qed
  then show ?thesis by (simp add: all_pushed_def)
qed

lemma syncProduct_B_calls:
  "\<exists>a v1 b v2 ua v3 ub v4 x.
     currentAmazonQty e p v = (Inr a, v1) \<and> currentMLQty e p v1 = (Inr b, v2) \<and>
     (if truthy (amazonAsin p)
      then updateAmazonInventory e (sku p) (warehouseQty p) v2 = (Inr ua, v3)
      else \<not> ua \<and> v3 = v2) \<and>
     (case mlItemId p of
        Some i \<Rightarrow> if i \<noteq> [] then updateMLInventory e i (warehouseQty p) None v3 = (Inr ub, v4)
                  else \<not> ub \<and> v4 = v3
      | None \<Rightarrow> \<not> ub \<and> v4 = v3) \<and>
     product_update e (product_id p)
        \<lparr>set_warehouseQty = None, set_amazonQty = Some a,
         set_mlQty = Some b, set_lastSyncAt = Some (now e v4)\<rparr> v4
       = (x, snd (syncProduct_B e p v)) \<and>
     amazonUpdated (fst (syncProduct_B e p v)) = ua \<and>
     mlUpdated (fst (syncProduct_B e p v)) = ub"
proof -
  obtain a v1 where a: "currentAmazonQty e p v = (Inr a, v1)"
    using currentAmazonQty_returns by blast
  obtain b v2 where b: "currentMLQty e p v1 = (Inr b, v2)"
    using currentMLQty_returns by blast
  obtain ua v3 where ca: "if truthy (amazonAsin p)
      then updateAmazonInventory e (sku p) (warehouseQty p) v2 = (Inr ua, v3)
      else \<not> ua \<and> v3 = v2"
  proof (cases "truthy (amazonAsin p)")
    case True
    obtain u v' where "updateAmazonInventory e (sku p) (warehouseQty p) v2 = (Inr u, v')"
      using updateAmazonInventory_returns by blast
    with True that[of u v'] show thesis by simp
  next
    case False
    with that[of False v2] show thesis by simp
  qed
  obtain ub v4 where cm: "case mlItemId p of
        Some i \<Rightarrow> if i \<noteq> [] then updateMLInventory e i (warehouseQty p) None v3 = (Inr ub, v4)
                  else \<not> ub \<and> v4 = v3
      | None \<Rightarrow> \<not> ub \<and> v4 = v3"
  proof (cases "truthy (mlItemId p)")
    case True
    then obtain i where i: "mlItemId p = Some i" "i \<noteq> []"
      using truthy_Some by blast
    obtain u v' where "updateMLInventory e i (warehouseQty p) None v3 = (Inr u, v')"
      using updateMLInventory_returns by blast
    with i that[of u v'] show thesis by simp
  next
    case False
    with that[of False v3] show thesis by (cases "mlItemId p") simp_all
  qed
  have pa: "pushAmazon e p (warehouseQty p) (l, v2) = (Inr (), (l\<lparr>amazonUpdated := ua\<rparr>, v3))"
    if "truthy (amazonAsin p)" for l :: ProductResultB
    using ca that by (simp add: pushAmazon_def await_Inr outer_apply)
  have pa': "pushAmazon e p (warehouseQty p) (l, v2) = (Inr (), (l, v3))"
    if "\<not> truthy (amazonAsin p)" for l :: ProductResultB
    using ca that by (simp add: pushAmazon_def)
  have pm: "pushML e p (warehouseQty p) (l, v3) = (Inr (), (l\<lparr>mlUpdated := ub\<rparr>, v4))"
    if "truthy (mlItemId p)" for l :: ProductResultB
  proof -
    from that obtain i where i: "mlItemId p = Some i" "i \<noteq> []"
      using truthy_Some by blast
    with cm show ?thesis by (simp add: pushML_def await_Inr outer_apply)
  qed
  have pm': "pushML e p (warehouseQty p) (l, v3) = (Inr (), (l, v4))"
    if "\<not> truthy (mlItemId p)" for l :: ProductResultB
    using cm that by (cases "mlItemId p") (auto simp: pushML_def)
  have nu: "\<not> truthy (amazonAsin p) \<Longrightarrow> \<not> ua" "\<not> truthy (mlItemId p) \<Longrightarrow> \<not> ub"
    using ca cm by (auto split: option.splits if_splits)
  obtain x v5 where x: "product_update e (product_id p)
        \<lparr>set_warehouseQty = None, set_amazonQty = Some a,
         set_mlQty = Some b, set_lastSyncAt = Some (now e v4)\<rparr> v4 = (x, v5)"
    by (cases "product_update e (product_id p)
        \<lparr>set_warehouseQty = None, set_amazonQty = Some a,
         set_mlQty = Some b, set_lastSyncAt = Some (now e v4)\<rparr> v4") blast
  have r: "syncProduct_B e p v =
       (\<lparr>r_sku = sku p, amazonUpdated = ua, mlUpdated = ub,
         error = (case x of Inl err \<Rightarrow> Some (message_or ''Unknown error'' err) | Inr _ \<Rightarrow> None)\<rparr>, v5)"
  proof (cases "truthy (amazonAsin p)")
    case ta: True
    show ?thesis
    proof (cases "truthy (mlItemId p)")
      case True
      with ta a b pa pm x show ?thesis
        by (cases x)
           (simp_all add: syncProduct_B_def try_block_B_def Let_def await_Inr await_Inl outer_apply
              try_catch_Inr try_catch_Inl initial_result_B_def date_now_def)
    next
      case False
      with ta a b pa pm' x nu show ?thesis
        by (cases x)
           (simp_all add: syncProduct_B_def try_block_B_def Let_def await_Inr await_Inl outer_apply
              try_catch_Inr try_catch_Inl initial_result_B_def date_now_def)
    qed
  next
    case fa: False
    show ?thesis
    proof (cases "truthy (mlItemId p)")
      case True
      with fa a b pa' pm x nu show ?thesis
        by (cases x)
           (simp_all add: syncProduct_B_def try_block_B_def Let_def await_Inr await_Inl outer_apply
              try_catch_Inr try_catch_Inl initial_result_B_def date_now_def)
    next
      case False
      with fa a b pa' pm' x nu show ?thesis
        by (cases x)
           (simp_all add: syncProduct_B_def try_block_B_def Let_def await_Inr await_Inl outer_apply
              try_catch_Inr try_catch_Inl initial_result_B_def date_now_def)
    qed
  qed
  have x': "product_update e (product_id p)
        \<lparr>set_warehouseQty = None, set_amazonQty = Some a,
         set_mlQty = Some b, set_lastSyncAt = Some (now e v4)\<rparr> v4
       = (x, snd (syncProduct_B e p v))"
    using x r by simp
  have ra: "amazonUpdated (fst (syncProduct_B e p v)) = ua"
    and rm: "mlUpdated (fst (syncProduct_B e p v)) = ub"
    using r by simp_all
  show ?thesis
    apply (rule exI[of _ a], rule exI[of _ v1], rule exI[of _ b], rule exI[of _ v2])
    apply (rule exI[of _ ua], rule exI[of _ v3])
    apply (rule exI[of _ ub], rule exI[of _ v4], rule exI[of _ x])
    apply (intro conjI)
    subgoal by (rule a)
    subgoal by (rule b)
    subgoal by (rule ca)
    subgoal by (rule cm)
    subgoal by (rule x')
    subgoal by (rule ra)
    subgoal by (rule rm)
    done
qed

lemma syncProduct_B_requests:
  "\<exists>fa v1 fb v2 ua v3 ub v4 x.
     (if truthy (amazonAsin p) then getAmazonInventory e (sku p) v = (Inr fa, v1)
      else fa = None \<and> v1 = v) \<and>
     (case mlItemId p of
        Some i \<Rightarrow> if i \<noteq> [] then getMLInventory e i None v1 = (Inr fb, v2)
                  else fb = None \<and> v2 = v1
      | None \<Rightarrow> fb = None \<and> v2 = v1) \<and>
     (if truthy (amazonAsin p)
      then updateAmazonInventory e (sku p) (warehouseQty p) v2 = (Inr ua, v3)
      else \<not> ua \<and> v3 = v2) \<and>
     (case mlItemId p of
        Some i \<Rightarrow> if i \<noteq> [] then updateMLInventory e i (warehouseQty p) None v3 = (Inr ub, v4)
                  else \<not> ub \<and> v4 = v3
      | None \<Rightarrow> \<not> ub \<and> v4 = v3) \<and>
     product_update e (product_id p)
        \<lparr>set_warehouseQty = None,
         set_amazonQty = Some (case fa of Some current \<Rightarrow> current | None \<Rightarrow> amazonQty p),
         set_mlQty = Some (case fb of Some current \<Rightarrow> current | None \<Rightarrow> mlQty p),
         set_lastSyncAt = Some (now e v4)\<rparr> v4
       = (x, snd (syncProduct_B e p v)) \<and>
     amazonUpdated (fst (syncProduct_B e p v)) = ua \<and>
     mlUpdated (fst (syncProduct_B e p v)) = ub"
proof -
  from syncProduct_B_calls[of e p v] obtain a v1 b v2 ua v3 ub v4 x where
    a: "currentAmazonQty e p v = (Inr a, v1)" and
    b: "currentMLQty e p v1 = (Inr b, v2)" and
    ca: "if truthy (amazonAsin p)
         then updateAmazonInventory e (sku p) (warehouseQty p) v2 = (Inr ua, v3)
         else \<not> ua \<and> v3 = v2" and
    cm: "case mlItemId p of
           Some i \<Rightarrow> if i \<noteq> [] then updateMLInventory e i (warehouseQty p) None v3 = (Inr ub, v4)
                     else \<not> ub \<and> v4 = v3
         | None \<Rightarrow> \<not> ub \<and> v4 = v3" and
    x: "product_update e (product_id p)
        \<lparr>set_warehouseQty = None, set_amazonQty = Some a,
         set_mlQty = Some b, set_lastSyncAt = Some (now e v4)\<rparr> v4
       = (x, snd (syncProduct_B e p v))" and
    r: "amazonUpdated (fst (syncProduct_B e p v)) = ua"
       "mlUpdated (fst (syncProduct_B e p v)) = ub"
    by (elim exE conjE)
  from currentAmazonQty_fetch[OF a] obtain fa where
    fa: "if truthy (amazonAsin p) then getAmazonInventory e (sku p) v = (Inr fa, v1)
         else fa = None \<and> v1 = v"
        "a = (case fa of Some q \<Rightarrow> q | None \<Rightarrow> amazonQty p)"
    by blast
  from currentMLQty_fetch[OF b] obtain fb where
    fb: "case mlItemId p of
           Some i \<Rightarrow> if i \<noteq> [] then getMLInventory e i None v1 = (Inr fb, v2)
                     else fb = None \<and> v2 = v1
         | None \<Rightarrow> fb = None \<and> v2 = v1"
        "b = (case fb of Some q \<Rightarrow> q | None \<Rightarrow> mlQty p)"
    by blast
  have x': "product_update e (product_id p)
        \<lparr>set_warehouseQty = None,
         set_amazonQty = Some (case fa of Some current \<Rightarrow> current | None \<Rightarrow> amazonQty p),
         set_mlQty = Some (case fb of Some current \<Rightarrow> current | None \<Rightarrow> mlQty p),
         set_lastSyncAt = Some (now e v4)\<rparr> v4
       = (x, snd (syncProduct_B e p v))"
    using x fa(2) fb(2) by simp
  show ?thesis
    apply (rule exI[of _ fa], rule exI[of _ v1], rule exI[of _ fb], rule exI[of _ v2])
    apply (rule exI[of _ ua], rule exI[of _ v3])
    apply (rule exI[of _ ub], rule exI[of _ v4], rule exI[of _ x])
    apply (intro conjI)
    subgoal by (rule fa(1))
    subgoal by (rule fb(1))
    subgoal by (rule ca)
    subgoal by (rule cm)
    subgoal by (rule x')
    subgoal by (rule r(1))
    subgoal by (rule r(2))
    done
qed

lemma syncProduct_B_pushes:
  assumes "\<forall>n r. \<exists>d. amazon_token_endpoint e n r = Inr (OkJson d)"
      and "\<forall>n r. \<exists>d. ml_token_endpoint e n r = Inr (OkJson d)"
      and "truthy (ML_REFRESH_TOKEN e)"
  shows "\<exists>evs. trace (snd (syncProduct_B e p v)) = trace v @ evs \<and>
           (truthy (amazonAsin p) \<longrightarrow> list_ex (is_amazon_push p) evs) \<and>
           (truthy (mlItemId p) \<longrightarrow> list_ex (is_ml_push p) evs)"
proof -
  from syncProduct_B_calls[of e p v] obtain a v1 b v2 ua v3 ub v4 x where
    a: "currentAmazonQty e p v = (Inr a, v1)" and
    b: "currentMLQty e p v1 = (Inr b, v2)" and
    ca: "if truthy (amazonAsin p)
         then updateAmazonInventory e (sku p) (warehouseQty p) v2 = (Inr ua, v3)
         else \<not> ua \<and> v3 = v2" and
    cm: "case mlItemId p of
           Some i \<Rightarrow> if i \<noteq> [] then updateMLInventory e i (warehouseQty p) None v3 = (Inr ub, v4)
                     else \<not> ub \<and> v4 = v3
         | None \<Rightarrow> \<not> ub \<and> v4 = v3" and
    x: "product_update e (product_id p)
        \<lparr>set_warehouseQty = None, set_amazonQty = Some a,
         set_mlQty = Some b, set_lastSyncAt = Some (now e v4)\<rparr> v4
       = (x, snd (syncProduct_B e p v))"
    by (elim exE conjE)
  let ?T = "\<lambda>ev::event. True"
  obtain e1 where e1: "trace v1 = trace v @ e1"
    using currentAmazonQty_emits[of ?T e p v] a by auto
  obtain e2 where e2: "trace v2 = trace v1 @ e2"
    using currentMLQty_emits[of ?T e p v1] b by auto
  obtain e3 where e3: "trace v3 = trace v2 @ e3"
      "truthy (amazonAsin p) \<longrightarrow> list_ex (is_amazon_push p) e3"
  proof (cases "truthy (amazonAsin p)")
    case False
    with ca that[of "[]"] show thesis by simp
  next
    case True
    from getAccessToken_amazon_ok[OF assms(1), of v2] obtain tok v' ea where
      t: "getAccessToken_amazon e v2 = (Inr tok, v')" "trace v' = trace v2 @ ea"
      by blast
    from updateAmazonInventory_sends[OF t(1), of "sku p" "warehouseQty p"] ca True
    have "trace v3 = trace v' @ [Fetch (AmazonSkuQuantitiesPut (sku p) (warehouseQty p) tok)]"
      by simp
    with t(2) that[of "ea @ [Fetch (AmazonSkuQuantitiesPut (sku p) (warehouseQty p) tok)]"]
    show thesis by simp
  qed
  obtain e4 where e4: "trace v4 = trace v3 @ e4"
      "truthy (mlItemId p) \<longrightarrow> list_ex (is_ml_push p) e4"
  proof (cases "truthy (mlItemId p)")
    case False
    with cm have "v4 = v3" by (cases "mlItemId p") (auto split: if_splits)
    with False that[of "[]"] show thesis by simp
  next
    case True
    then obtain i where i: "mlItemId p = Some i" "i \<noteq> []"
      using truthy_Some by blast
    from getAccessToken_ml_ok[OF assms(2,3), of v3] obtain tok v' ea where
      t: "getAccessToken_ml e v3 = (Inr tok, v')" "trace v' = trace v3 @ ea"
      by blast
    from updateMLInventory_sends[OF t(1), of i "warehouseQty p"] cm i
    have "trace v4 = trace v' @ [Fetch (MLItemPut i (AvailableQuantity (warehouseQty p)) tok)]"
      by simp
    with t(2) i that[of "ea @ [Fetch (MLItemPut i (AvailableQuantity (warehouseQty p)) tok)]"]
    show thesis by simp
  qed
  let ?d = "\<lparr>set_warehouseQty = None, set_amazonQty = Some a,
         set_mlQty = Some b, set_lastSyncAt = Some (now e v4)\<rparr>"
  have e5: "trace (snd (syncProduct_B e p v)) = trace v4 @ [Db (ProductUpdate (product_id p) ?d)]"
    using product_update_trace[of e "product_id p" ?d v4] x by simp
  show ?thesis
    using e1 e2 e3 e4 e5
    by (intro exI[of _ "e1 @ e2 @ e3 @ e4 @ [Db (ProductUpdate (product_id p) ?d)]"]) auto
qed

lemma for_of_eventually:
  assumes "\<And>x s. x \<in> set xs \<Longrightarrow> \<exists>evs. trace (snd (f x s)) = trace s @ evs \<and> P x evs"
      and "\<And>x a b c. P x b \<Longrightarrow> P x (a @ b @ c)"
  shows "\<exists>evs. trace (snd (for_of f xs s)) = trace s @ evs \<and> (\<forall>x\<in>set xs. P x evs)"
  using assms(1)
proof (induction xs arbitrary: s)
  case Nil
  then show ?case by simp
next
  case (Cons x xs)
  obtain e1 where e1: "trace (snd (f x s)) = trace s @ e1" "P x e1"
    using Cons.prems[of x s] by auto
  obtain e2 where e2: "trace (snd (for_of f xs (snd (f x s)))) = trace (snd (f x s)) @ e2"
      "\<forall>y\<in>set xs. P y e2"
    using Cons.IH[of "snd (f x s)"] Cons.prems by auto
  have "P x (e1 @ e2)"
    using assms(2)[OF e1(2), of "[]" e2] by simp
  moreover have "\<forall>y\<in>set xs. P y (e1 @ e2)"
    using assms(2)[of _ e2 e1 "[]"] e2(2) by simp
  ultimately show ?case
    using e1 e2 by (intro exI[of _ "e1 @ e2"]) (simp add: for_of_Cons del: for_of.simps(2))
qed

text \<open>One run of Variant B, when listing and logging succeed.\<close>

lemma syncAllInventory_B_once:
  assumes "\<forall>n. db_failure e n ProductFindMany = None"
      and "\<forall>n st msg det. db_failure e n (SyncLogCreate st msg det) = None"
  shows "\<exists>res w' l evs.
           syncAllInventory_B e w = (Inr res, w') \<and>
           map configuration (products w') = map configuration (products w) \<and>
           syncLogs w' = syncLogs w @ [l] \<and>
           status l = (if errorCount (result_details res) = 0 then ''success'' else ''partial'') \<and>
           success res = (errorCount (result_details res) = 0) \<and>
           result_details res =
             fst (for_of (syncProduct_B e) (products w) (w\<lparr>trace := trace w @ [Db ProductFindMany]\<rparr>)) \<and>
           trace w' = trace w @ evs \<and> list_all (variantB_event_ok (products w)) evs \<and>
           ((\<forall>n r. \<exists>d. amazon_token_endpoint e n r = Inr (OkJson d)) \<and>
            (\<forall>n r. \<exists>d. ml_token_endpoint e n r = Inr (OkJson d)) \<and>
            truthy (ML_REFRESH_TOKEN e) \<longrightarrow> all_pushed (products w) evs)"
proof -
  let ?ps = "products w"
  let ?w1 = "w\<lparr>trace := trace w @ [Db ProductFindMany]\<rparr>"
  have list: "product_findMany e w = (Inr ?ps, ?w1)"
    using assms(1) by (simp add: product_findMany_def prisma_def Let_def)
  obtain results w2 where loop: "for_of (syncProduct_B e) ?ps ?w1 = (results, w2)"
    by (cases "for_of (syncProduct_B e) ?ps ?w1") blast
  let ?I = "\<lambda>s. map configuration (products s) = map configuration ?ps \<and> syncLogs s = syncLogs w"
  have inv: "?I w2"
    using for_of_invariant[of ?ps ?I "syncProduct_B e" ?w1] loop
    by (simp add: syncProduct_B_world)
  obtain e2 where e2: "trace w2 = trace ?w1 @ e2" "list_all (variantB_event_ok ?ps) e2"
  proof -
    have "\<exists>evs. trace (snd (for_of (syncProduct_B e) ?ps ?w1)) = trace ?w1 @ evs \<and>
            list_all (variantB_event_ok ?ps) evs"
    proof (rule for_of_emits)
      fix x and s :: world assume "x \<in> set ?ps"
      then have "list_ex (\<lambda>q. configuration q = configuration x) ?ps"
        by (auto simp: list_ex_iff)
      then show "\<exists>evs. trace (snd (syncProduct_B e x s)) = trace s @ evs \<and>
                   list_all (variantB_event_ok ?ps) evs"
        by (rule syncProduct_B_emits)
    qed
    with loop that show thesis by auto
  qed
  let ?P = "\<lambda>p evs. (truthy (amazonAsin p) \<longrightarrow> list_ex (is_amazon_push p) evs) \<and>
                    (truthy (mlItemId p) \<longrightarrow> list_ex (is_ml_push p) evs)"
  have live: "\<forall>p\<in>set ?ps. ?P p e2"
    if auth: "\<forall>n r. \<exists>d. amazon_token_endpoint e n r = Inr (OkJson d)"
             "\<forall>n r. \<exists>d. ml_token_endpoint e n r = Inr (OkJson d)"
             "truthy (ML_REFRESH_TOKEN e)"
  proof -
    have "\<exists>evs. trace (snd (for_of (syncProduct_B e) ?ps ?w1)) = trace ?w1 @ evs \<and>
            (\<forall>p\<in>set ?ps. ?P p evs)"
    proof (rule for_of_eventually)
      fix x and s :: world
      show "\<exists>evs. trace (snd (syncProduct_B e x s)) = trace s @ evs \<and> ?P x evs"
        by (rule syncProduct_B_pushes[OF auth])
    next
      fix x :: Product and a b c :: "event list"
      assume "?P x b"
      then show "?P x (a @ b @ c)" by simp
    qed
    then obtain evs where evs: "trace w2 = trace ?w1 @ evs" "\<forall>p\<in>set ?ps. ?P p evs"
      using loop by (elim exE conjE) simp
    from evs(1) e2(1) have "evs = e2" by simp
    with evs(2) show ?thesis by simp
  qed
  let ?st = "if errorCount results = 0 then ''success'' else ''partial''"
  let ?msg = "''Sincronizados '' @ toString (int (successCount_B results)) @ ''/''
                @ toString (int (length results)) @ '' productos''"
  let ?w3 = "w2\<lparr>trace := trace w2 @ [Db (SyncLogCreate ?st ?msg (DetailsB results))]\<rparr>"
  let ?l = "\<lparr>status = ?st, message = ?msg, details = DetailsB results, createdAt = now e ?w3\<rparr>"
  let ?w' = "?w3\<lparr>syncLogs := syncLogs ?w3 @ [?l]\<rparr>"
  have log: "syncLog_create e ?st ?msg (DetailsB results) w2 = (Inr (), ?w')"
    using assms(2) by (simp add: syncLog_create_def prisma_def Let_def)
  let ?res = "\<lparr>success = (errorCount results = 0),
              result_message =
                ''Sincronizaci'' @ [char_of (195::nat), char_of (179::nat)] @ ''n completada. ''
                  @ toString (int (successCount_B results))
                  @ '' productos actualizados, ''
                  @ toString (int (errorCount results)) @ '' errores.'',
              result_details = results\<rparr>"
  let ?evs = "Db ProductFindMany # e2 @ [Db (SyncLogCreate ?st ?msg (DetailsB results))]"
  have run: "syncAllInventory_B e w = (Inr ?res, ?w')"
    using list loop log
    by (simp add: syncAllInventory_B_def try_catch_def await_def)
  have tr: "trace ?w' = trace w @ ?evs"
    using e2 by simp
  have ok: "list_all (variantB_event_ok ?ps) ?evs"
    using e2 by simp
  have pushed: "(\<forall>n r. \<exists>d. amazon_token_endpoint e n r = Inr (OkJson d)) \<and>
            (\<forall>n r. \<exists>d. ml_token_endpoint e n r = Inr (OkJson d)) \<and>
            truthy (ML_REFRESH_TOKEN e) \<longrightarrow> all_pushed ?ps ?evs"
  proof (intro impI, elim conjE)
    assume auth: "\<forall>n r. \<exists>d. amazon_token_endpoint e n r = Inr (OkJson d)"
             "\<forall>n r. \<exists>d. ml_token_endpoint e n r = Inr (OkJson d)"
             "truthy (ML_REFRESH_TOKEN e)"
    from live[OF auth] show "all_pushed ?ps ?evs"
      by (simp add: all_pushed_def list_all_iff)
  qed
  have det: "result_details ?res = fst (for_of (syncProduct_B e) ?ps ?w1)"
    using loop by simp
  show ?thesis
    apply (rule exI[of _ ?res], rule exI[of _ ?w'], rule exI[of _ ?l], rule exI[of _ ?evs])
    apply (intro conjI)
    subgoal by (rule run)
    subgoal using inv by simp
    subgoal using inv by simp
    subgoal by simp
    subgoal by simp
    subgoal by (rule det)
    subgoal by (rule tr)
    subgoal by (rule ok)
    subgoal by (rule pushed)
    done
qed

text \<open>
  When the failure of a write to a product depends on the product only, so does the number of
  errors of a run.
\<close>

lemma errorCount_B_stable:
  assumes "\<forall>n m i d d'. db_failure e n (ProductUpdate i d) = db_failure e m (ProductUpdate i d')"
      and "map configuration (products s) = map configuration ps"
  shows "errorCount (fst (for_of (syncProduct_B e) ps s)) =
           length (filter (\<lambda>p. truthy (map_option (message_or ''Unknown error'')
                      (db_failure e 0 (ProductUpdate (product_id p) no_write)))) ps)"
proof -
  let ?F = "\<lambda>p. map_option (message_or ''Unknown error'')
                   (db_failure e 0 (ProductUpdate (product_id p) no_write))"
  let ?I = "\<lambda>s::world. map configuration (products s) = map configuration ps"
  have "list_all2 (\<lambda>p r. error r = ?F p) ps (fst (for_of (syncProduct_B e) ps s))"
  proof (rule for_of_results[where I = ?I])
    show "?I s" by (rule assms(2))
  next
    fix x and s :: world assume x: "x \<in> set ps" and s: "?I s"
    have i: "map product_id xs = map fst (map configuration xs)" for xs
      by (simp add: configuration_def)
    from s have "map product_id (products s) = map product_id ps"
      by (simp only: i)
    then have "set (map product_id (products s)) = set (map product_id ps)" by simp
    with x have "product_id x \<in> product_id ` set (products s)"
      by simp
    then have "list_ex (\<lambda>q. product_id q = product_id x) (products s)"
      by (auto simp: list_ex_iff)
    from syncProduct_B_error[OF assms(1) this] s syncProduct_B_world[of e x s]
    show "error (fst (syncProduct_B e x s)) = ?F x \<and> ?I (snd (syncProduct_B e x s))"
      by simp
  qed
  then have "list_all2 (\<lambda>p r. truthy (?F p) = has_error r) ps (fst (for_of (syncProduct_B e) ps s))"
    by (simp add: has_error_def list_all2_conv_all_nth)
  from filter_length_list_all2[OF this] show ?thesis
    by (simp add: errorCount_def)
qed

text \<open>
  C7, as the code has it. Let the database accept the listing and the log entries. Then two
  runs of Variant B in succession both return. For each product, \<open>updateAmazonInventory\<close> and
  \<open>updateMLInventory\<close> are called with its warehouse quantity for every marketplace it is
  configured for, after the two reads; every write request sent to a marketplace during the
  two runs carries the warehouse quantity of a product as it was stored before the first run,
  and when authentication succeeds each run sends one for every configured marketplace of
  every product. Every write to the product table leaves the warehouse quantity alone and
  carries the two fetched marketplace quantities (the recorded ones when nothing was fetched)
  and the time, so the warehouse quantities are the same after each run. Two log entries are
  written; they have the same status, and the two results the same \<open>success\<close>, when the failure
  of a write to a product depends on the product only.
\<close>

theorem variantB_pushes_warehouse_quantity:
  assumes "\<forall>n. db_failure e n ProductFindMany = None"
      and "\<forall>n st msg det. db_failure e n (SyncLogCreate st msg det) = None"
  shows "\<exists>r1 w1 r2 w2 l1 l2.
           syncAllInventory_B e w = (Inr r1, w1) \<and> syncAllInventory_B e w1 = (Inr r2, w2) \<and>
           list_all (variantB_event_ok (products w)) (drop (length (trace w)) (trace w2)) \<and>
           ((\<forall>n r. \<exists>d. amazon_token_endpoint e n r = Inr (OkJson d)) \<and>
            (\<forall>n r. \<exists>d. ml_token_endpoint e n r = Inr (OkJson d)) \<and>
            truthy (ML_REFRESH_TOKEN e) \<longrightarrow>
              all_pushed (products w) (drop (length (trace w)) (trace w1)) \<and>
              all_pushed (products w) (drop (length (trace w1)) (trace w2))) \<and>
           map warehouseQty (products w1) = map warehouseQty (products w) \<and>
           map warehouseQty (products w2) = map warehouseQty (products w) \<and>
           syncLogs w2 = syncLogs w @ [l1, l2] \<and>
           ((\<forall>n m i d d'. db_failure e n (ProductUpdate i d) = db_failure e m (ProductUpdate i d')) \<longrightarrow>
              status l1 = status l2 \<and> success r1 = success r2) \<and>
           (\<forall>p v. \<exists>fa v1 fb v2 ua v3 ub v4 x.
              (if truthy (amazonAsin p) then getAmazonInventory e (sku p) v = (Inr fa, v1)
               else fa = None \<and> v1 = v) \<and>
              (case mlItemId p of
                 Some i \<Rightarrow> if i \<noteq> [] then getMLInventory e i None v1 = (Inr fb, v2)
                           else fb = None \<and> v2 = v1
               | None \<Rightarrow> fb = None \<and> v2 = v1) \<and>
              (if truthy (amazonAsin p)
               then updateAmazonInventory e (sku p) (warehouseQty p) v2 = (Inr ua, v3)
               else \<not> ua \<and> v3 = v2) \<and>
              (case mlItemId p of
                 Some i \<Rightarrow> if i \<noteq> [] then updateMLInventory e i (warehouseQty p) None v3 = (Inr ub, v4)
                           else \<not> ub \<and> v4 = v3
               | None \<Rightarrow> \<not> ub \<and> v4 = v3) \<and>
              product_update e (product_id p)
                 \<lparr>set_warehouseQty = None,
                  set_amazonQty = Some (case fa of Some current \<Rightarrow> current | None \<Rightarrow> amazonQty p),
                  set_mlQty = Some (case fb of Some current \<Rightarrow> current | None \<Rightarrow> mlQty p),
                  set_lastSyncAt = Some (now e v4)\<rparr> v4
                = (x, snd (syncProduct_B e p v)) \<and>
              amazonUpdated (fst (syncProduct_B e p v)) = ua \<and>
              mlUpdated (fst (syncProduct_B e p v)) = ub)"
proof -
  let ?F = "\<lambda>p. truthy (map_option (message_or ''Unknown error'')
                   (db_failure e 0 (ProductUpdate (product_id p) no_write)))"
  let ?auth = "(\<forall>n r. \<exists>d. amazon_token_endpoint e n r = Inr (OkJson d)) \<and>
            (\<forall>n r. \<exists>d. ml_token_endpoint e n r = Inr (OkJson d)) \<and>
            truthy (ML_REFRESH_TOKEN e)"
  from syncAllInventory_B_once[OF assms, of w] obtain r1 w1 l1 e1 where
    1: "syncAllInventory_B e w = (Inr r1, w1)"
       "map configuration (products w1) = map configuration (products w)"
       "syncLogs w1 = syncLogs w @ [l1]"
       "status l1 = (if errorCount (result_details r1) = 0 then ''success'' else ''partial'')"
       "success r1 = (errorCount (result_details r1) = 0)"
       "result_details r1 =
          fst (for_of (syncProduct_B e) (products w) (w\<lparr>trace := trace w @ [Db ProductFindMany]\<rparr>))"
       "trace w1 = trace w @ e1" "list_all (variantB_event_ok (products w)) e1"
       "?auth \<longrightarrow> all_pushed (products w) e1"
    by (elim exE conjE)
  from syncAllInventory_B_once[OF assms, of w1] obtain r2 w2 l2 e2 where
    2: "syncAllInventory_B e w1 = (Inr r2, w2)"
       "map configuration (products w2) = map configuration (products w1)"
       "syncLogs w2 = syncLogs w1 @ [l2]"
       "status l2 = (if errorCount (result_details r2) = 0 then ''success'' else ''partial'')"
       "success r2 = (errorCount (result_details r2) = 0)"
       "result_details r2 =
          fst (for_of (syncProduct_B e) (products w1) (w1\<lparr>trace := trace w1 @ [Db ProductFindMany]\<rparr>))"
       "trace w2 = trace w1 @ e2" "list_all (variantB_event_ok (products w1)) e2"
       "?auth \<longrightarrow> all_pushed (products w1) e2"
    by (elim exE conjE)
  have q: "map warehouseQty ps = map (\<lambda>c. fst (snd (snd (snd c)))) (map configuration ps)"
    and i: "map product_id ps = map fst (map configuration ps)" for ps
    by (simp_all add: configuration_def)
  have q1: "map warehouseQty (products w1) = map warehouseQty (products w)"
    using 1(2) by (simp only: q)
  have q2: "map warehouseQty (products w2) = map warehouseQty (products w)"
    using 1(2) 2(2) by (simp only: q)
  have ids: "map product_id (products w1) = map product_id (products w)"
    using 1(2) by (simp only: i)
  have st: "status l1 = status l2 \<and> success r1 = success r2"
    if h: "\<forall>n m i d d'. db_failure e n (ProductUpdate i d) = db_failure e m (ProductUpdate i d')"
  proof -
    have c1: "errorCount (result_details r1) = length (filter ?F (products w))"
      using errorCount_B_stable[OF h, of "w\<lparr>trace := trace w @ [Db ProductFindMany]\<rparr>" "products w"]
        1(6) by simp
    have c2: "errorCount (result_details r2) = length (filter ?F (products w1))"
      using errorCount_B_stable[OF h, of "w1\<lparr>trace := trace w1 @ [Db ProductFindMany]\<rparr>" "products w1"]
        2(6) by simp
    have "map ?F (products w1) = map ?F (products w)"
    proof -
      have "map ?F ps = map (\<lambda>j. truthy (map_option (message_or ''Unknown error'')
                     (db_failure e 0 (ProductUpdate j no_write)))) (map product_id ps)" for ps
        by simp
      from this[of "products w1"] this[of "products w"] ids show ?thesis
        by presburger
    qed
    then have "length (filter (\<lambda>b. b) (map ?F (products w1))) =
               length (filter (\<lambda>b. b) (map ?F (products w)))"
      by (rule arg_cong)
    moreover have "length (filter (\<lambda>b. b) (map ?F xs)) = length (filter ?F xs)" for xs
      by (induction xs) simp_all
    from this[of "products w1"] this[of "products w"]
    have "length (filter (\<lambda>b. b) (map ?F (products w1))) = length (filter ?F (products w1))"
         "length (filter (\<lambda>b. b) (map ?F (products w))) = length (filter ?F (products w))" .
    ultimately have "length (filter ?F (products w1)) = length (filter ?F (products w))"
      by linarith
    with c1 c2 1(4,5) 2(4,5) show ?thesis by simp
  qed
  have tr: "list_all (variantB_event_ok (products w)) (drop (length (trace w)) (trace w2))"
  proof -
    have "list_all (variantB_event_ok (products w)) e2"
      using 2(8) variantB_event_ok_cong[OF 1(2)] by (simp add: list_all_iff)
    with 1(7,8) 2(7) show ?thesis by simp
  qed
  have pushed: "?auth \<longrightarrow>
              all_pushed (products w) (drop (length (trace w)) (trace w1)) \<and>
              all_pushed (products w) (drop (length (trace w1)) (trace w2))"
    using 1(7,9) 2(7,9) all_pushed_cong[OF 1(2), of e2] by simp
  have logs: "syncLogs w2 = syncLogs w @ [l1, l2]"
    using 1(3) 2(3) by simp
  have hyp: "(\<forall>n m i d d'. db_failure e n (ProductUpdate i d) = db_failure e m (ProductUpdate i d')) \<longrightarrow>
              status l1 = status l2 \<and> success r1 = success r2"
    using st by blast
  have calls: "\<forall>p v. \<exists>fa v1 fb v2 ua v3 ub v4 x.
              (if truthy (amazonAsin p) then getAmazonInventory e (sku p) v = (Inr fa, v1)
               else fa = None \<and> v1 = v) \<and>
              (case mlItemId p of
                 Some i \<Rightarrow> if i \<noteq> [] then getMLInventory e i None v1 = (Inr fb, v2)
                           else fb = None \<and> v2 = v1
               | None \<Rightarrow> fb = None \<and> v2 = v1) \<and>
              (if truthy (amazonAsin p)
               then updateAmazonInventory e (sku p) (warehouseQty p) v2 = (Inr ua, v3)
               else \<not> ua \<and> v3 = v2) \<and>
              (case mlItemId p of
                 Some i \<Rightarrow> if i \<noteq> [] then updateMLInventory e i (warehouseQty p) None v3 = (Inr ub, v4)
                           else \<not> ub \<and> v4 = v3
               | None \<Rightarrow> \<not> ub \<and> v4 = v3) \<and>
              product_update e (product_id p)
                 \<lparr>set_warehouseQty = None,
                  set_amazonQty = Some (case fa of Some current \<Rightarrow> current | None \<Rightarrow> amazonQty p),
                  set_mlQty = Some (case fb of Some current \<Rightarrow> current | None \<Rightarrow> mlQty p),
                  set_lastSyncAt = Some (now e v4)\<rparr> v4
                = (x, snd (syncProduct_B e p v)) \<and>
              amazonUpdated (fst (syncProduct_B e p v)) = ua \<and>
              mlUpdated (fst (syncProduct_B e p v)) = ub"
    by (intro allI) (rule syncProduct_B_requests)
  show ?thesis
    apply (rule exI[of _ r1], rule exI[of _ w1], rule exI[of _ r2], rule exI[of _ w2])
    apply (rule exI[of _ l1], rule exI[of _ l2])
    apply (intro conjI)
    subgoal by (rule 1(1))
    subgoal by (rule 2(1))
    subgoal by (rule tr)
    subgoal by (rule pushed)
    subgoal by (rule q1)
    subgoal by (rule q2)
    subgoal by (rule logs)
    subgoal by (rule hyp)
    subgoal by (rule calls)
    done
qed

theorem variantB_pushes_warehouse_quantity_witness:
  "(case syncAllInventory_B (env_db_fails ''2'') w_three of
      (Inr r1, w1) \<Rightarrow>
        (case syncAllInventory_B (env_db_fails ''2'') w1 of
           (Inr r2, w2) \<Rightarrow>
             map status (syncLogs w2) = [''partial'', ''partial''] \<and>
             map warehouseQty (products w2) = [100, 100, 100] \<and>
             map amazonQty (products w2) = [97, 100, 97] \<and>
             success r1 = success r2 \<and>
             all_pushed (products w_three) (trace w1) \<and>
             all_pushed (products w_three) (drop (length (trace w1)) (trace w2)) \<and>
             filter (is_amazon_push (product_ex ''2'' ''S2'')) (trace w2) =
               [Fetch (AmazonSkuQuantitiesPut ''S2'' 100 ''A''),
                Fetch (AmazonSkuQuantitiesPut ''S2'' 100 ''A'')] \<and>
             filter (is_ml_push (product_ex ''2'' ''S2'')) (drop (length (trace w1)) (trace w2)) =
               [Fetch (MLItemPut ''MLM1'' (AvailableQuantity 100) ''M''),
                Fetch (MLItemPut ''MLM1'' (AvailableQuantity 100) ''M''),
                Fetch (MLItemPut ''MLM1'' (AvailableQuantity 100) ''M'')]
         | (Inl err, w2) \<Rightarrow> False)
    | (Inl err, w1) \<Rightarrow> False)"
proof -
  let ?e = "env_db_fails ''2''"
  let ?w1 = "snd (syncAllInventory_B ?e w_three)"
  let ?w2 = "snd (syncAllInventory_B ?e ?w1)"
  have h1: "\<forall>n m i d d'. db_failure ?e n (ProductUpdate i d) = db_failure ?e m (ProductUpdate i d')"
    by (simp add: env_db_fails_def)
  have h2: "\<forall>n. db_failure ?e n ProductFindMany = None"
    by (simp add: env_db_fails_def)
  have h3: "\<forall>n st msg det. db_failure ?e n (SyncLogCreate st msg det) = None"
    by (simp add: env_db_fails_def)
  have auth: "\<forall>n r. \<exists>d. amazon_token_endpoint ?e n r = Inr (OkJson d)"
    "\<forall>n r. \<exists>d. ml_token_endpoint ?e n r = Inr (OkJson d)"
    "truthy (ML_REFRESH_TOKEN ?e)"
    by (simp_all add: env_db_fails_def env_ex_def)
  have ev: "map status (syncLogs ?w2) = [''partial'', ''partial'']"
    "map amazonQty (products ?w2) = [97, 100, 97]"
    "map warehouseQty (products w_three) = [100, 100, 100]"
    "trace w_three = []"
    "filter (is_amazon_push (product_ex ''2'' ''S2'')) (trace ?w2) =
               [Fetch (AmazonSkuQuantitiesPut ''S2'' 100 ''A''),
                Fetch (AmazonSkuQuantitiesPut ''S2'' 100 ''A'')]"
    "filter (is_ml_push (product_ex ''2'' ''S2'')) (drop (length (trace ?w1)) (trace ?w2)) =
               [Fetch (MLItemPut ''MLM1'' (AvailableQuantity 100) ''M''),
                Fetch (MLItemPut ''MLM1'' (AvailableQuantity 100) ''M''),
                Fetch (MLItemPut ''MLM1'' (AvailableQuantity 100) ''M'')]"
    by code_simp+
  from variantB_pushes_warehouse_quantity[OF h2 h3, of w_three] h1 auth ev
  show ?thesis
    by (elim exE conjE) simp
qed

text \<open>
  With a database that refuses the write of the product during the first run only, and
  marketplaces that report the same quantities throughout, the first log entry has the status
  \<open>partial\<close> and the second \<open>success\<close>.
\<close>

theorem transient_write_failure_changes_status:
  "(case syncAllInventory_B (env_db_recovers 8) w_ex of
      (Inr r1, w1) \<Rightarrow>
        fst (getAmazonInventory (env_db_recovers 8) ''S1'' w_ex) = Inr (Some 97) \<and>
        fst (getAmazonInventory (env_db_recovers 8) ''S1'' w1) = Inr (Some 97) \<and>
        fst (getMLInventory (env_db_recovers 8) ''MLM1'' None w_ex) = Inr (Some 100) \<and>
        fst (getMLInventory (env_db_recovers 8) ''MLM1'' None w1) = Inr (Some 100) \<and>
        (case syncAllInventory_B (env_db_recovers 8) w1 of
           (Inr r2, w2) \<Rightarrow>
             map error (result_details r1) = [Some ''connection lost''] \<and>
             map error (result_details r2) = [None] \<and>
             success r1 = False \<and> success r2 = True \<and>
             map status (syncLogs w2) = [''partial'', ''success''] \<and>
             map warehouseQty (products w2) = [100]
         | (Inl err, w2) \<Rightarrow> False)
    | (Inl err, w1) \<Rightarrow> False)"
  by code_simp

section \<open>The order of processing\<close>

lemma syncAllInventory_A_details:
  assumes "product_findMany e w = (Inr ps, w1)" and "syncAllInventory_A e w = (Inr res, w')"
  shows "result_details res = fst (for_of (syncProduct_A e) ps w1)"
proof -
  obtain results w2 where loop: "for_of (syncProduct_A e) ps w1 = (results, w2)"
    by (cases "for_of (syncProduct_A e) ps w1") blast
  let ?log = "syncLog_create e
                (if errorCount results = 0 then ''success'' else ''partial'')
                (''Sincronizados '' @ toString (int (successCount_A results)) @ ''/''
                   @ toString (int (length results)) @ '' productos. Ventas detectadas: ''
                   @ toString (totalSales_A results))
                (DetailsA results)"
  obtain x w3 where log: "?log w2 = (x, w3)"
    by (cases "?log w2") blast
  show ?thesis
  proof (cases x)
    case (Inl err)
    with assms loop log have "batch_failed e results err w3 = (Inr res, w')"
      by (simp add: syncAllInventory_A_def try_catch_def await_def)
    from batch_failed_details[OF this] loop show ?thesis by simp
  next
    case (Inr u)
    with assms loop log show ?thesis
      by (auto simp: syncAllInventory_A_def try_catch_def await_def)
  qed
qed

lemma syncAllInventory_B_details:
  assumes "product_findMany e w = (Inr ps, w1)" and "syncAllInventory_B e w = (Inr res, w')"
  shows "result_details res = fst (for_of (syncProduct_B e) ps w1)"
proof -
  obtain results w2 where loop: "for_of (syncProduct_B e) ps w1 = (results, w2)"
    by (cases "for_of (syncProduct_B e) ps w1") blast
  let ?log = "syncLog_create e
                (if errorCount results = 0 then ''success'' else ''partial'')
                (''Sincronizados '' @ toString (int (successCount_B results)) @ ''/''
                   @ toString (int (length results)) @ '' productos'')
                (DetailsB results)"
  obtain x w3 where log: "?log w2 = (x, w3)"
    by (cases "?log w2") blast
  show ?thesis
  proof (cases x)
    case (Inl err)
    with assms loop log have "batch_failed e results err w3 = (Inr res, w')"
      by (simp add: syncAllInventory_B_def try_catch_def await_def)
    from batch_failed_details[OF this] loop show ?thesis by simp
  next
    case (Inr u)
    with assms loop log show ?thesis
      by (auto simp: syncAllInventory_B_def try_catch_def await_def)
  qed
qed

lemma GET_inventory_sorted:
  assumes "GET_inventory e session w = (\<lparr>http_status = 200, body = ProductsBody listing lastSync\<rparr>, w')"
  shows "listing = sort_key sku (products w)"
  using assms
  by (auto simp: GET_inventory_def await_def product_findMany_orderBy_sku_def
        syncLog_findFirst_success_def prisma_def Let_def
      split: if_splits option.splits prod.splits sum.splits)

text \<open>
  C8, as the code has it. The listing of a reconciliation run has no ordering clause: it
  returns the rows as the table holds them. Both variants process the products one at a
  time in that order, each in the state its predecessors left, and the details of the result
  follow it. The listing ordered by SKU is that of \<open>GET /api/inventory\<close>.
\<close>

theorem processing_follows_listing:
  assumes "product_findMany e w = (Inr ps, w1)"
  shows "ps = products w \<and>
         (\<forall>res w'. syncAllInventory_A e w = (Inr res, w') \<longrightarrow>
            map r_sku (result_details res) = map sku (products w) \<and>
            (\<forall>i<length ps. result_details res ! i =
               fst (syncProduct_A e (ps ! i) (snd (for_of (syncProduct_A e) (take i ps) w1))))) \<and>
         (\<forall>res w'. syncAllInventory_B e w = (Inr res, w') \<longrightarrow>
            map r_sku (result_details res) = map sku (products w) \<and>
            (\<forall>i<length ps. result_details res ! i =
               fst (syncProduct_B e (ps ! i) (snd (for_of (syncProduct_B e) (take i ps) w1))))) \<and>
         (\<forall>listing lastSync w'.
            GET_inventory e True w = (\<lparr>http_status = 200, body = ProductsBody listing lastSync\<rparr>, w')
            \<longrightarrow> listing = sort_key sku (products w) \<and> sorted (map sku listing))"
proof (intro conjI allI impI)
  show ps: "ps = products w"
    using product_findMany_Inr(1)[OF assms] .
  fix res w'
  {
    assume a: "syncAllInventory_A e w = (Inr res, w')"
    from syncAllInventory_A_details[OF assms a] for_of_A_skus[of e ps w1] ps
    show "map r_sku (result_details res) = map sku (products w)" by simp
    fix i assume "i < length ps"
    from for_of_nth[OF this, of "syncProduct_A e" w1] syncAllInventory_A_details[OF assms a]
    show "result_details res ! i =
            fst (syncProduct_A e (ps ! i) (snd (for_of (syncProduct_A e) (take i ps) w1)))"
      by simp
  }
  {
    assume b: "syncAllInventory_B e w = (Inr res, w')"
    from syncAllInventory_B_details[OF assms b] for_of_B_skus[of e ps w1] ps
    show "map r_sku (result_details res) = map sku (products w)" by simp
    fix i assume "i < length ps"
    from for_of_nth[OF this, of "syncProduct_B e" w1] syncAllInventory_B_details[OF assms b]
    show "result_details res ! i =
            fst (syncProduct_B e (ps ! i) (snd (for_of (syncProduct_B e) (take i ps) w1)))"
      by simp
  }
next
  fix listing lastSync w'
  assume "GET_inventory e True w = (\<lparr>http_status = 200, body = ProductsBody listing lastSync\<rparr>, w')"
  from GET_inventory_sorted[OF this]
  show "listing = sort_key sku (products w)" "sorted (map sku listing)"
    by simp_all
qed

theorem processing_follows_listing_witness:
  "(case syncAllInventory_A (env_ex 100) w_unsorted of
      (Inr res, w') \<Rightarrow> map r_sku (result_details res) = [''S2'', ''S1'']
    | (Inl err, w') \<Rightarrow> False) \<and>
   (case syncAllInventory_B (env_ex 100) w_unsorted of
      (Inr res, w') \<Rightarrow> map r_sku (result_details res) = [''S2'', ''S1'']
    | (Inl err, w') \<Rightarrow> False) \<and>
   (case GET_inventory (env_ex 100) True w_unsorted of
      (response, w') \<Rightarrow>
        (case body response of
           ProductsBody listing lastSync \<Rightarrow> map sku listing = [''S1'', ''S2'']
         | _ \<Rightarrow> False))"
proof -
  let ?e = "env_ex 100"
  let ?w1 = "snd (product_findMany ?e w_unsorted)"
  have list: "product_findMany ?e w_unsorted = (Inr (products w_unsorted), ?w1)"
    by (simp add: product_findMany_def prisma_def env_ex_def Let_def)
  have skus: "map sku (products w_unsorted) = [''S2'', ''S1'']"
    by (simp add: w_unsorted_def product_ex_def)
  have "isl (fst (syncAllInventory_A ?e w_unsorted)) = False"
    "isl (fst (syncAllInventory_B ?e w_unsorted)) = False"
    by code_simp+
  then have runs: "\<exists>res. fst (syncAllInventory_A ?e w_unsorted) = Inr res"
    "\<exists>res. fst (syncAllInventory_B ?e w_unsorted) = Inr res"
    by (auto simp: isl_def dest: sum.exhaust_sel) (metis sum.collapse(2) sum.disc(2) isl_def)+
  have get: "(case GET_inventory ?e True w_unsorted of
      (response, w') \<Rightarrow>
        (case body response of
           ProductsBody listing lastSync \<Rightarrow> map sku listing = [''S1'', ''S2'']
         | _ \<Rightarrow> False))"
    by code_simp
  note t = processing_follows_listing[OF list]
  from runs(1) obtain ra wa where a: "syncAllInventory_A ?e w_unsorted = (Inr ra, wa)"
    by (cases "syncAllInventory_A ?e w_unsorted") auto
  from runs(2) obtain rb wb where b: "syncAllInventory_B ?e w_unsorted = (Inr rb, wb)"
    by (cases "syncAllInventory_B ?e w_unsorted") auto
  from t[THEN conjunct2, THEN conjunct1, rule_format, OF a] skus
  have 1: "map r_sku (result_details ra) = [''S2'', ''S1'']" by simp
  from t[THEN conjunct2, THEN conjunct2, THEN conjunct1, rule_format, OF b] skus
  have 2: "map r_sku (result_details rb) = [''S2'', ''S1'']" by simp
  from 1 2 a b get show ?thesis by simp
qed

text \<open>
  A table that holds the SKU \<open>S2\<close> before the SKU \<open>S1\<close> is reconciled in that order, which is
  not ascending: the first inventory request of the run is for \<open>S2\<close>.
\<close>

theorem reconciliation_not_in_sku_order:
  "(case syncAllInventory_A (env_ex 100) w_unsorted of
      (Inr res, w') \<Rightarrow>
        map r_sku (result_details res) = [''S2'', ''S1''] \<and>
        take 3 (trace w') =
          [Db ProductFindMany,
           Fetch (AmazonTokenPost (Some ''rt'') (Some ''id'') (Some ''secret'')),
           Fetch (AmazonSummariesGet ''S2'' ''A'')]
    | (Inl err, w') \<Rightarrow> False) \<and>
   \<not> sorted [''S2'', ''S1'']"
  by code_simp

section \<open>Non-negative quantities\<close>

lemma syncProduct_A_nonneg:
  assumes "list_all quantities_nonneg (products w)"
  shows "list_all quantities_nonneg (products (snd (syncProduct_A e p w)))"
proof -
  from syncProduct_A_summary[of e p w] obtain a b x w4 where
    w4: "products w4 = products w" and
    x: "product_update e (product_id p)
        \<lparr>set_warehouseQty = Some (newQty_of p a b), set_amazonQty = Some (newQty_of p a b),
         set_mlQty = Some (newQty_of p a b), set_lastSyncAt = Some (now e w4)\<rparr> w4
       = (x, snd (syncProduct_A e p w))"
    by (elim exE conjE)
  let ?d = "\<lparr>set_warehouseQty = Some (newQty_of p a b), set_amazonQty = Some (newQty_of p a b),
         set_mlQty = Some (newQty_of p a b), set_lastSyncAt = Some (now e w4)\<rparr>"
  have "list_all quantities_nonneg (products (snd (product_update e (product_id p) ?d w4)))"
    using assms w4 by (intro product_update_nonneg) (simp_all add: newQty_of_def)
  with x show ?thesis by simp
qed

lemma syncAllInventory_A_nonneg:
  assumes "list_all quantities_nonneg (products w)"
  shows "list_all quantities_nonneg (products (snd (syncAllInventory_A e w)))"
proof (cases "product_findMany e w")
  case (Pair r w1)
  have w1: "products w1 = products w"
    using product_findMany_products[of e w] Pair by simp
  show ?thesis
  proof (cases r)
    case (Inl err)
    with Pair w1 assms batch_failed_products[of e "[]::ProductResultA list" err w1] show ?thesis
      by (simp add: syncAllInventory_A_def)
  next
    case (Inr ps)
    obtain results w2 where loop: "for_of (syncProduct_A e) ps w1 = (results, w2)"
      by (cases "for_of (syncProduct_A e) ps w1") blast
    have "list_all quantities_nonneg (products (snd (for_of (syncProduct_A e) ps w1)))"
      by (rule for_of_invariant[where I = "\<lambda>s. list_all quantities_nonneg (products s)"])
         (simp_all add: syncProduct_A_nonneg w1 assms)
    with loop have w2: "list_all quantities_nonneg (products w2)" by simp
    let ?m = "await (syncLog_create e
                         (if errorCount results = 0 then ''success'' else ''partial'')
                         (''Sincronizados '' @ toString (int (successCount_A results)) @ ''/''
                            @ toString (int (length results)) @ '' productos. Ventas detectadas: ''
                            @ toString (totalSales_A results))
                         (DetailsA results)) (\<lambda>_.
                return \<lparr>success = (errorCount results = 0),
                        result_message =
                          ''Sincronizaci'' @ [char_of (195::nat), char_of (179::nat)] @ ''n completada. ''
                            @ toString (int (successCount_A results))
                            @ '' productos actualizados. Ventas detectadas: ''
                            @ toString (totalSales_A results),
                        result_details = results\<rparr>)"
    have "products (snd (try_catch ?m (batch_failed e results) w2)) = products w2"
      by (intro try_catch_keeps await_keeps) (simp_all add: syncLog_create_products batch_failed_products)
    with Pair Inr loop w2 show ?thesis
      by (simp add: syncAllInventory_A_def)
  qed
qed

lemma PUT_inventory_nonneg:
  assumes "list_all quantities_nonneg (products w)" and "0 \<le> or_zero q"
  shows "list_all quantities_nonneg (products (snd (PUT_inventory e session i q w)))"
proof (cases session)
  case False
  with assms show ?thesis by (simp add: PUT_inventory_def)
next
  case True
  let ?d = "\<lparr>set_warehouseQty = q, set_amazonQty = None, set_mlQty = None, set_lastSyncAt = None\<rparr>"
  have "list_all quantities_nonneg (products (snd (product_update e i ?d w)))"
    using assms by (intro product_update_nonneg) simp_all
  with True show ?thesis
    by (cases "product_update e i ?d w") (auto simp: PUT_inventory_def split: sum.splits)
qed

lemma PUT_inventory_stores:
  assumes "PUT_inventory e session i (Some v) w = (\<lparr>http_status = 200, body = ProductBody r\<rparr>, w')"
  shows "warehouseQty r = v"
  using assms
  by (auto simp: PUT_inventory_def product_update_def prisma_def Let_def apply_update_def
        split: if_splits option.splits sum.splits prod.splits)

lemma POST_inventory_nonneg:
  assumes "list_all quantities_nonneg (products w)"
      and "0 \<le> or_zero (body_warehouseQty b)" and "0 \<le> default_qty"
  shows "list_all quantities_nonneg (products (snd (POST_inventory e gid default_qty session b w)))"
  using assms
  by (auto simp: POST_inventory_def product_create_def prisma_def Let_def quantities_nonneg_def
        split: option.splits)

text \<open>
  C6, as the code has it. The new quantity of Variant A is never negative, and a run of
  Variant A keeps all quantities of the table non-negative. The manual edit and the creation of
  a product keep them non-negative when the submitted warehouse quantity is not negative (and
  the schema's default for the marketplace quantities is not): they store the submitted
  quantity as it is, without validating it.
\<close>

theorem quantities_nonneg_preserved:
  "0 \<le> newQty (fst (syncProduct_A e p w)) \<and>
   (list_all quantities_nonneg (products w) \<longrightarrow>
      list_all quantities_nonneg (products (snd (syncAllInventory_A e w)))) \<and>
   (list_all quantities_nonneg (products w) \<and> 0 \<le> or_zero q \<longrightarrow>
      list_all quantities_nonneg (products (snd (PUT_inventory e session i q w)))) \<and>
   (list_all quantities_nonneg (products w) \<and> 0 \<le> or_zero (body_warehouseQty b) \<and>
      0 \<le> default_qty \<longrightarrow>
      list_all quantities_nonneg (products (snd (POST_inventory e gid default_qty session b w)))) \<and>
   (\<forall>v r w'. PUT_inventory e session i (Some v) w
                = (\<lparr>http_status = 200, body = ProductBody r\<rparr>, w') \<longrightarrow> warehouseQty r = v)"
proof -
  have "0 \<le> newQty (fst (syncProduct_A e p w))"
    using syncProduct_A_summary[of e p w] by (elim exE conjE) (simp add: newQty_of_def)
  then show ?thesis
    using syncAllInventory_A_nonneg PUT_inventory_nonneg POST_inventory_nonneg PUT_inventory_stores
    by blast
qed

theorem quantities_nonneg_preserved_witness:
  "list_all quantities_nonneg (products w_ex) \<and>
   0 \<le> newQty (fst (syncProduct_A (env_ex 100) p_ex w_ex)) \<and>
   list_all quantities_nonneg (products (snd (syncAllInventory_A (env_ex 100) w_ex))) \<and>
   list_all quantities_nonneg (products (snd (PUT_inventory (env_ex 100) True ''1'' (Some 40) w_ex))) \<and>
   list_all quantities_nonneg
     (products (snd (POST_inventory (env_ex 100) ''9'' 0 True (create_ex 7) w_ex))) \<and>
   map warehouseQty (products (snd (PUT_inventory (env_ex 100) True ''1'' (Some 40) w_ex))) = [40]"
proof -
  have h: "list_all quantities_nonneg (products w_ex)"
    by code_simp
  have b: "0 \<le> or_zero (body_warehouseQty (create_ex 7))"
    by (simp add: create_ex_def)
  have s: "map warehouseQty (products (snd (PUT_inventory (env_ex 100) True ''1'' (Some 40) w_ex))) = [40]"
    by code_simp
  note t = quantities_nonneg_preserved[where e = "env_ex 100" and p = p_ex and w = w_ex
      and q = "Some 40" and session = True and i = "''1''" and b = "create_ex 7"
      and default_qty = 0 and gid = "''9''"]
  from t h b s show ?thesis by simp
qed

text \<open>
  A manual edit to \<open>-5\<close> and a creation with \<open>-3\<close> both succeed and leave a negative warehouse
  quantity in the table.
\<close>

theorem manual_edit_stores_negative:
  "list_all quantities_nonneg (products w_ex) \<and>
   (case PUT_inventory (env_ex 100) True ''1'' (Some (- 5)) w_ex of
      (response, w') \<Rightarrow>
        http_status response = 200 \<and> map warehouseQty (products w') = [- 5] \<and>
        \<not> list_all quantities_nonneg (products w')) \<and>
   (case POST_inventory (env_ex 100) ''9'' 0 True (create_ex (- 3)) w_ex of
      (response, w') \<Rightarrow>
        http_status response = 200 \<and> map warehouseQty (products w') = [100, - 3] \<and>
        \<not> list_all quantities_nonneg (products w'))"
  by code_simp

end
